theory Spec2Isabelle
  imports Complex_Main "HOL-Library.AList" "HOL-Library.Multiset"
begin

section \<open>Decimal arithmetic of the ledger\<close>

text \<open>
  Every fiat amount of \<^verbatim>\<open>analyze-position.ts\<close> is a \<^verbatim>\<open>Decimal\<close> of decimal.js: a value is
  not-a-number, an infinity or a finite decimal number. The module imports
  \<^verbatim>\<open>@orca-so/whirlpools-sdk\<close>, whose entry module configures the one \<^verbatim>\<open>Decimal\<close> class of the
  process with \<^verbatim>\<open>Decimal.set({ precision: 40, toExpPos: 40, toExpNeg: -20, rounding: 1 })\<close>, so
  the arithmetic of the ledger runs with 40 significant digits and \<^verbatim>\<open>ROUND_DOWN\<close>: the
  constructor is exact, and \<^verbatim>\<open>plus\<close>, \<^verbatim>\<open>minus\<close>, \<^verbatim>\<open>times\<close> and \<^verbatim>\<open>div\<close> cut their exact result
  to its first 40 significant digits, towards zero. Division by zero does not throw: it yields
  an infinity or not-a-number. Finite values are rationals here. Two things are left out: the
  exponent range (beyond \<open>9e15\<close>) and the sign of zero. The sign of a zero only shows when one
  divides by it, and every divisor of this program is a power of ten, a liquidity total
  printed by \<^verbatim>\<open>BN.toString\<close> or the position size, none of which is a negative zero.
\<close>

datatype Decimal = NaN | PosInf | NegInf | Fin rat

fun ndigits :: "nat \<Rightarrow> nat" where
  "ndigits n = (if n < 10 then 1 else Suc (ndigits (n div 10)))"

declare ndigits.simps [simp del]

definition dexp :: "rat \<Rightarrow> int" where
  \<comment> \<open>the decimal exponent of a positive number: \<open>10 powi dexp x \<le> x < 10 powi (dexp x + 1)\<close>\<close>
  "dexp x = (if 1 \<le> x then int (ndigits (nat \<lfloor>x\<rfloor>)) - 1
             else - int (ndigits (nat (\<lceil>1 / x\<rceil> - 1))))"

definition round_sd :: "rat \<Rightarrow> rat" where
  \<comment> \<open>\<^verbatim>\<open>finalise\<close> with precision 40 and rounding mode \<^verbatim>\<open>ROUND_DOWN\<close> (towards zero)\<close>
  "round_sd x = (if x = 0 then 0 else
     (let s = 10 powi (dexp \<bar>x\<bar> - 39)
      in sgn x * of_int \<lfloor>\<bar>x\<bar> / s\<rfloor> * s))"

fun dsgn :: "Decimal \<Rightarrow> rat" where
  "dsgn NaN = 0"
| "dsgn PosInf = 1"
| "dsgn NegInf = - 1"
| "dsgn (Fin a) = sgn a"

definition infinity :: "rat \<Rightarrow> Decimal" where
  "infinity s = (if s = 0 then NaN else if 0 < s then PosInf else NegInf)"

definition Decimal_neg :: "Decimal \<Rightarrow> Decimal" where
  "Decimal_neg x = (case x of NaN \<Rightarrow> NaN | PosInf \<Rightarrow> NegInf | NegInf \<Rightarrow> PosInf
                    | Fin a \<Rightarrow> Fin (- a))"

definition Decimal_plus :: "Decimal \<Rightarrow> Decimal \<Rightarrow> Decimal" where
  "Decimal_plus x y = (case (x, y) of
       (Fin a, Fin b) \<Rightarrow> Fin (round_sd (a + b))
     | (NaN, _) \<Rightarrow> NaN
     | (_, NaN) \<Rightarrow> NaN
     | (PosInf, NegInf) \<Rightarrow> NaN
     | (NegInf, PosInf) \<Rightarrow> NaN
     | (Fin a, z) \<Rightarrow> z
     | (z, _) \<Rightarrow> z)"

definition Decimal_minus :: "Decimal \<Rightarrow> Decimal \<Rightarrow> Decimal" where
  "Decimal_minus x y = (case (x, y) of
       (Fin a, Fin b) \<Rightarrow> Fin (round_sd (a - b))
     | (NaN, _) \<Rightarrow> NaN
     | (_, NaN) \<Rightarrow> NaN
     | (PosInf, PosInf) \<Rightarrow> NaN
     | (NegInf, NegInf) \<Rightarrow> NaN
     | (Fin a, z) \<Rightarrow> Decimal_neg z
     | (z, _) \<Rightarrow> z)"

definition Decimal_mul :: "Decimal \<Rightarrow> Decimal \<Rightarrow> Decimal" where
  "Decimal_mul x y = (case (x, y) of
       (Fin a, Fin b) \<Rightarrow> Fin (round_sd (a * b))
     | (NaN, _) \<Rightarrow> NaN
     | (_, NaN) \<Rightarrow> NaN
     | _ \<Rightarrow> infinity (dsgn x * dsgn y))"

definition Decimal_div :: "Decimal \<Rightarrow> Decimal \<Rightarrow> Decimal" where
  "Decimal_div x y = (case (x, y) of
       (Fin a, Fin b) \<Rightarrow> (if b = 0 then infinity a else Fin (round_sd (a / b)))
     | (NaN, _) \<Rightarrow> NaN
     | (_, NaN) \<Rightarrow> NaN
     | (Fin a, _) \<Rightarrow> Fin 0
     | (_, Fin b) \<Rightarrow> infinity (dsgn x * (if b < 0 then - 1 else 1))
     | _ \<Rightarrow> NaN)"

definition Decimal_lt :: "Decimal \<Rightarrow> Decimal \<Rightarrow> bool" where
  "Decimal_lt x y = (case (x, y) of
       (Fin a, Fin b) \<Rightarrow> a < b
     | (NaN, _) \<Rightarrow> False
     | (_, NaN) \<Rightarrow> False
     | (PosInf, _) \<Rightarrow> False
     | (_, NegInf) \<Rightarrow> False
     | _ \<Rightarrow> True)"

definition Decimal_gte :: "Decimal \<Rightarrow> Decimal \<Rightarrow> bool" where
  "Decimal_gte x y = (case (x, y) of
       (Fin a, Fin b) \<Rightarrow> b \<le> a
     | (NaN, _) \<Rightarrow> False
     | (_, NaN) \<Rightarrow> False
     | (PosInf, _) \<Rightarrow> True
     | (_, NegInf) \<Rightarrow> True
     | _ \<Rightarrow> False)"

definition Decimal_max :: "Decimal \<Rightarrow> Decimal \<Rightarrow> Decimal" where
  \<comment> \<open>\<^verbatim>\<open>Decimal.max(x, y)\<close>\<close>
  "Decimal_max x y = (if x = NaN \<or> y = NaN then NaN else if Decimal_lt x y then y else x)"

definition Decimal_of_BN :: "int \<Rightarrow> Decimal" where
  \<comment> \<open>\<^verbatim>\<open>new Decimal(bn.toString())\<close>: exact\<close>
  "Decimal_of_BN n = Fin (of_int n)"

definition Decimal_sum :: "Decimal list \<Rightarrow> Decimal" where
  \<comment> \<open>\<^verbatim>\<open>xs.reduce((acc, curr) => acc.add(curr), new Decimal(0))\<close>\<close>
  "Decimal_sum xs = foldl Decimal_plus (Fin 0) xs"

text \<open>
  Every result of an arithmetic operation is either not finite or a fixed point of the rounding.
\<close>

definition rounded :: "Decimal \<Rightarrow> bool" where
  "rounded d = (case d of Fin a \<Rightarrow> round_sd a = a | _ \<Rightarrow> True)"

section \<open>Gathered and decoded instructions\<close>

text \<open>
  \<^verbatim>\<open>GatheredInstruction\<close> is an instruction of the RPC (parsed by the node, or partially
  decoded with its accounts and base58 data) together with the signature, block time, fee and
  token-account-to-mint map of its transaction. Addresses are their base58 strings. The
  \<^verbatim>\<open>parsed\<close> payload has type \<^verbatim>\<open>any\<close>; the model keeps the shape the decoder looks at: whether
  it is an object, its \<^verbatim>\<open>type\<close>, its \<^verbatim>\<open>info\<close> and the \<^verbatim>\<open>amount\<close> in it. An \<^verbatim>\<open>amount\<close> string
  carries the integer that \<^verbatim>\<open>new BN(amount)\<close> reads from it.
\<close>

datatype AmountValue = AmountString int | AmountOther

datatype InfoValue = InfoObject "AmountValue option" | InfoNull | InfoOther

datatype ParsedValue = ParsedObject "string option" "InfoValue option" | ParsedOther

datatype InstructionBody =
    Parsed string ParsedValue
  | PartiallyDecoded "string list" string

record GatheredInstruction =
  programId :: string
  body :: InstructionBody
  signature :: string
  blockTime :: int
  transactionFee :: int
  tokenMints :: "(string \<times> string) list"

datatype InstructionUnion =
    OpenPosition (whirlpool: string) (position: string) (positionMint: string) (owner: string)
      (tickUpperIndex: int) (tickLowerIndex: int) (rentFee: int)
  | IncreaseLiquidity (whirlpool: string) (position: string) (liquidityIn: int)
      (tokenAMint: string) (tokenBMint: string) (tokenAIn: int) (tokenBIn: int)
  | DecreaseLiquidity (whirlpool: string) (position: string) (liquidityOut: int)
      (tokenAMint: string) (tokenBMint: string) (tokenAOut: int) (tokenBOut: int)
  | CollectFees (whirlpool: string) (position: string) (tokenAMint: string) (tokenBMint: string)
      (tokenAFee: int) (tokenBFee: int)
  | CollectReward (whirlpool: string) (position: string) (rewardIndex: int) (rewardMint: string)
      (rewardAmount: int)
  | ClosePosition (position: string) (reclaimedRent: int)

text \<open>
  The constructors are the six members of the source's \<^verbatim>\<open>InstructionUnion\<close>, their arguments
  the fields of each member in the order of its declaration (the tag \<^verbatim>\<open>type\<close> is the
  constructor). Amounts of type \<^verbatim>\<open>BN\<close> are integers.
  \<^verbatim>\<open>DecodedInstruction = InstructionUnion & GatheredInstruction\<close> extends the gathered record.
\<close>

record DecodedInstruction = GatheredInstruction +
  decoded :: InstructionUnion

definition isOpenPosition :: "DecodedInstruction \<Rightarrow> bool" where
  \<comment> \<open>\<^verbatim>\<open>instruction.type === "openPosition"\<close>\<close>
  "isOpenPosition i = (case decoded i of OpenPosition _ _ _ _ _ _ _ \<Rightarrow> True | _ \<Rightarrow> False)"

definition isClosePosition :: "DecodedInstruction \<Rightarrow> bool" where
  \<comment> \<open>\<^verbatim>\<open>instruction.type === "closePosition"\<close>\<close>
  "isClosePosition i = (case decoded i of ClosePosition _ _ \<Rightarrow> True | _ \<Rightarrow> False)"

datatype error = Invariant string | TypeError string

section \<open>Tokens, pools, prices\<close>

record Token =
  mint :: string
  decimals :: nat

text \<open>
  A \<^verbatim>\<open>Whirlpool\<close> is used through \<^verbatim>\<open>getData()\<close> only; \<^verbatim>\<open>rewardInfos\<close> keeps the reward mints.
\<close>

record WhirlpoolData =
  tokenMintA :: string
  tokenMintB :: string
  rewardInfos :: "string list"

definition NATIVE_MINT :: string where
  "NATIVE_MINT = ''So11111111111111111111111111111111111111112''"

text \<open>
  The price map is keyed by \<^verbatim>\<open>priceKey(mint, time)\<close>: the string \<^verbatim>\<open>mint\<close> for the current price
  and \<^verbatim>\<open>mint:time\<close> for a historical one. The pair \<open>(mint, None)\<close> stands for the first and
  \<open>(mint, Some time)\<close> for the second (a base58 address holds no colon). A time of zero is
  falsy, so its key is the key of the current price.
\<close>

type_synonym PriceKey = "string \<times> int option"

definition priceKey :: "string \<Rightarrow> int \<Rightarrow> PriceKey" where
  "priceKey m time = (if time = 0 then (m, None) else (m, Some time))"

definition convertToUiAmount :: "int \<Rightarrow> nat \<Rightarrow> Decimal" where
  \<comment> \<open>\<^verbatim>\<open>new Decimal(amount.toString()).dividedBy(10 ** decimals)\<close>; the double \<^verbatim>\<open>10 ** decimals\<close>
      is the exact power for the decimals of a token mint\<close>
  "convertToUiAmount amount dec = Decimal_div (Decimal_of_BN amount) (Fin (10 ^ dec))"

section \<open>The accounting pass\<close>

record AnalyzedInstructions =
  depositedValue :: Decimal
  withdrawnValue :: Decimal
  forgoneValue :: Decimal
  positionSize :: Decimal
  collectedFeesValue :: Decimal
  collectedRewardsValue :: Decimal
  paidRent :: Decimal
  transactionCost :: Decimal

text \<open>
  The loop of \<^verbatim>\<open>analyzeInstructions\<close> updates seven accumulators, the rolling token amounts, the
  rolling liquidity and the map of transaction costs. The state of the loop holds them under
  the names of the source's variables; \<open>transactionCost\<close> is computed after the loop and is
  zero in every state of the loop.
\<close>

record LoopState = AnalyzedInstructions +
  rollingTokenAAmount :: Decimal
  rollingTokenBAmount :: Decimal
  totalLiquidity :: int
  transactionCosts :: "(string \<times> Decimal) list"

definition initialState :: LoopState where
  "initialState = \<lparr> depositedValue = Fin 0, withdrawnValue = Fin 0, forgoneValue = Fin 0,
      positionSize = Fin 0, collectedFeesValue = Fin 0, collectedRewardsValue = Fin 0,
      paidRent = Fin 0, transactionCost = Fin 0,
      rollingTokenAAmount = Fin 0, rollingTokenBAmount = Fin 0, totalLiquidity = 0,
      transactionCosts = [] \<rparr>"

definition withdrawnPercentage :: "int \<Rightarrow> int \<Rightarrow> Decimal" where
  \<comment> \<open>\<^verbatim>\<open>new Decimal(liquidityOut.toString()).div(new Decimal(totalLiquidity.toString()))\<close>\<close>
  "withdrawnPercentage liquidityOut' liquidity =
     Decimal_div (Decimal_of_BN liquidityOut') (Decimal_of_BN liquidity)"

text \<open>
  The \<^verbatim>\<open>switch\<close> of the loop body, for an instruction at block time \<open>time\<close> and the three
  prices the body has looked up.
\<close>

fun switchInstruction ::
  "(string \<rightharpoonup> Token) \<Rightarrow> (PriceKey \<rightharpoonup> Decimal) \<Rightarrow> Token \<Rightarrow> Token \<Rightarrow> Token \<Rightarrow> int \<Rightarrow>
   Decimal \<Rightarrow> Decimal \<Rightarrow> Decimal \<Rightarrow> LoopState \<Rightarrow> InstructionUnion \<Rightarrow> error + LoopState" where
  "switchInstruction tokenMap priceMap solToken tokenA tokenB time solPrice tokenAPrice tokenBPrice s
      (OpenPosition w p pm ow tickU tickL rentFee') =
     (let rentFeeValue = Decimal_mul (convertToUiAmount rentFee' (decimals solToken)) solPrice
      in Inr (s\<lparr>paidRent := Decimal_plus (paidRent s) rentFeeValue\<rparr>))"
| "switchInstruction tokenMap priceMap solToken tokenA tokenB time solPrice tokenAPrice tokenBPrice s
      (IncreaseLiquidity w p liquidityIn' ma mb tokenAIn' tokenBIn') =
     (let tokenAAmount = convertToUiAmount tokenAIn' (decimals tokenA);
          rollingA = Decimal_plus (rollingTokenAAmount s) tokenAAmount;
          tokenAInValue = Decimal_mul tokenAAmount tokenAPrice;
          tokenBAmount = convertToUiAmount tokenBIn' (decimals tokenB);
          rollingB = Decimal_plus (rollingTokenBAmount s) tokenBAmount;
          tokenBInValue = Decimal_mul tokenBAmount tokenBPrice;
          deposited = Decimal_plus (Decimal_plus (depositedValue s) tokenAInValue) tokenBInValue
      in Inr (s\<lparr>rollingTokenAAmount := rollingA, rollingTokenBAmount := rollingB,
               depositedValue := deposited,
               totalLiquidity := totalLiquidity s + liquidityIn',
               positionSize := Decimal_max (positionSize s)
                                 (Decimal_minus deposited (withdrawnValue s))\<rparr>))"
| "switchInstruction tokenMap priceMap solToken tokenA tokenB time solPrice tokenAPrice tokenBPrice s
      (DecreaseLiquidity w p liquidityOut' ma mb tokenAOut' tokenBOut') =
     (let tokenAOutValue = Decimal_mul (convertToUiAmount tokenAOut' (decimals tokenA)) tokenAPrice;
          tokenBOutValue = Decimal_mul (convertToUiAmount tokenBOut' (decimals tokenB)) tokenBPrice;
          withdrawn = Decimal_plus (Decimal_plus (withdrawnValue s) tokenAOutValue) tokenBOutValue;
          percentage = withdrawnPercentage liquidityOut' (totalLiquidity s);
          partialTokenAAmount = Decimal_mul (rollingTokenAAmount s) percentage;
          partialTokenBAmount = Decimal_mul (rollingTokenBAmount s) percentage;
          partialForgoneValue = Decimal_sum [Decimal_mul partialTokenAAmount tokenAPrice,
                                             Decimal_mul partialTokenBAmount tokenBPrice]
      in Inr (s\<lparr>withdrawnValue := withdrawn,
               rollingTokenBAmount := Decimal_minus (rollingTokenBAmount s) partialTokenBAmount,
               rollingTokenAAmount := Decimal_minus (rollingTokenAAmount s) partialTokenAAmount,
               forgoneValue := Decimal_plus (forgoneValue s) partialForgoneValue,
               totalLiquidity := totalLiquidity s - liquidityOut'\<rparr>))"
| "switchInstruction tokenMap priceMap solToken tokenA tokenB time solPrice tokenAPrice tokenBPrice s
      (CollectFees w p ma mb tokenAFee' tokenBFee') =
     (let tokenAFeeValue = Decimal_mul (convertToUiAmount tokenAFee' (decimals tokenA)) tokenAPrice;
          tokenBFeeValue = Decimal_mul (convertToUiAmount tokenBFee' (decimals tokenB)) tokenBPrice
      in Inr (s\<lparr>collectedFeesValue :=
                 Decimal_plus (Decimal_plus (collectedFeesValue s) tokenAFeeValue) tokenBFeeValue\<rparr>))"
| "switchInstruction tokenMap priceMap solToken tokenA tokenB time solPrice tokenAPrice tokenBPrice s
      (CollectReward w p rewardIndex' rewardMint' rewardAmount') =
     (case tokenMap rewardMint' of
        None \<Rightarrow> Inl (Invariant ''Reward token not found'')
      | Some rewardToken \<Rightarrow>
         (case priceMap (priceKey (mint rewardToken) time) of
            None \<Rightarrow> Inl (Invariant ''Reward token price not found'')
          | Some rewardTokenPrice \<Rightarrow>
             Inr (s\<lparr>collectedRewardsValue := Decimal_plus (collectedRewardsValue s)
                    (Decimal_mul (convertToUiAmount rewardAmount' (decimals rewardToken))
                       rewardTokenPrice)\<rparr>)))"
| "switchInstruction tokenMap priceMap solToken tokenA tokenB time solPrice tokenAPrice tokenBPrice s
      (ClosePosition p reclaimedRent') =
     (let reclaimed = Decimal_mul (convertToUiAmount reclaimedRent' (decimals solToken)) solPrice
      in Inr (s\<lparr>paidRent := Decimal_minus (paidRent s) reclaimed\<rparr>))"

text \<open>
  One iteration of the loop: the three price lookups (each an \<^verbatim>\<open>invariant\<close>), the transaction
  fee stored under the signature (\<^verbatim>\<open>Map.set\<close> keeps the place of a key it already holds), then
  the switch.
\<close>

definition loopBody ::
  "(string \<rightharpoonup> Token) \<Rightarrow> (PriceKey \<rightharpoonup> Decimal) \<Rightarrow> Token \<Rightarrow> Token \<Rightarrow> Token \<Rightarrow>
   LoopState \<Rightarrow> DecodedInstruction \<Rightarrow> error + LoopState" where
  "loopBody tokenMap priceMap solToken tokenA tokenB s instruction =
     (case priceMap (priceKey NATIVE_MINT (blockTime instruction)) of
        None \<Rightarrow> Inl (Invariant ''SOL price not found'')
      | Some solPrice \<Rightarrow>
     (case priceMap (priceKey (mint tokenA) (blockTime instruction)) of
        None \<Rightarrow> Inl (Invariant ''Token A price not found'')
      | Some tokenAPrice \<Rightarrow>
     (case priceMap (priceKey (mint tokenB) (blockTime instruction)) of
        None \<Rightarrow> Inl (Invariant ''Token B price not found'')
      | Some tokenBPrice \<Rightarrow>
         (let fee = Decimal_mul
                      (convertToUiAmount (transactionFee instruction) (decimals solToken)) solPrice;
              s1 = s\<lparr>transactionCosts :=
                        AList.update (signature instruction) fee (transactionCosts s)\<rparr>
          in switchInstruction tokenMap priceMap solToken tokenA tokenB (blockTime instruction)
               solPrice tokenAPrice tokenBPrice s1 (decoded instruction)))))"

fun loop ::
  "(string \<rightharpoonup> Token) \<Rightarrow> (PriceKey \<rightharpoonup> Decimal) \<Rightarrow> Token \<Rightarrow> Token \<Rightarrow> Token \<Rightarrow>
   LoopState \<Rightarrow> DecodedInstruction list \<Rightarrow> error + LoopState" where
  "loop tokenMap priceMap solToken tokenA tokenB s [] = Inr s"
| "loop tokenMap priceMap solToken tokenA tokenB s (instruction # rest) =
     (case loopBody tokenMap priceMap solToken tokenA tokenB s instruction of
        Inl e \<Rightarrow> Inl e
      | Inr s' \<Rightarrow> loop tokenMap priceMap solToken tokenA tokenB s' rest)"

definition finish :: "(PriceKey \<rightharpoonup> Decimal) \<Rightarrow> Token \<Rightarrow> Token \<Rightarrow> LoopState \<Rightarrow> error + AnalyzedInstructions" where
  \<comment> \<open>the statements after the loop\<close>
  "finish priceMap tokenA tokenB s =
     (case priceMap (mint tokenA, None) of
        None \<Rightarrow> Inl (Invariant ''Current token A price not found'')
      | Some currentTokenAPrice \<Rightarrow>
     (case priceMap (mint tokenB, None) of
        None \<Rightarrow> Inl (Invariant ''Current token B price not found'')
      | Some currentTokenBPrice \<Rightarrow>
         (let remainingForgoneValue =
                Decimal_sum [Decimal_mul (rollingTokenAAmount s) currentTokenAPrice,
                             Decimal_mul (rollingTokenBAmount s) currentTokenBPrice]
          in Inr \<lparr> depositedValue = depositedValue s,
                   withdrawnValue = withdrawnValue s,
                   forgoneValue = Decimal_plus (forgoneValue s) remainingForgoneValue,
                   positionSize = positionSize s,
                   collectedFeesValue = collectedFeesValue s,
                   collectedRewardsValue = collectedRewardsValue s,
                   paidRent = paidRent s,
                   transactionCost = foldl Decimal_plus (Fin 0) (map snd (transactionCosts s)) \<rparr>)))"

text \<open>
  \<^verbatim>\<open>instructions.sort(...)\<close> sorts the caller's array in place (a stable sort by block time) and
  returns that same array. The first component of the result is the caller's array after the
  call, the second what the call returns or throws.
\<close>

definition analyzeInstructions ::
  "DecodedInstruction list \<Rightarrow> WhirlpoolData \<Rightarrow> (string \<rightharpoonup> Token) \<Rightarrow> (PriceKey \<rightharpoonup> Decimal) \<Rightarrow>
   DecodedInstruction list \<times> (error + AnalyzedInstructions)" where
  "analyzeInstructions instructions whirlpoolData tokenMap priceMap =
     (let sortedInstructions = sort_key blockTime instructions
      in (sortedInstructions,
          (case tokenMap NATIVE_MINT of
             None \<Rightarrow> Inl (Invariant ''SOL token not found'')
           | Some solToken \<Rightarrow>
          (case tokenMap (tokenMintA whirlpoolData) of
             None \<Rightarrow> Inl (Invariant ''Token A not found'')
           | Some tokenA \<Rightarrow>
          (case tokenMap (tokenMintB whirlpoolData) of
             None \<Rightarrow> Inl (Invariant ''Token B not found'')
           | Some tokenB \<Rightarrow>
              (case loop tokenMap priceMap solToken tokenA tokenB initialState sortedInstructions of
                 Inl e \<Rightarrow> Inl e
               | Inr s \<Rightarrow> finish priceMap tokenA tokenB s))))))"

section \<open>Outstanding balances and the summary of a position\<close>

definition RECLAIMABLE_RENT_LAMPORTS :: int where
  "RECLAIMABLE_RENT_LAMPORTS = 2394240 + 2039280"

definition CLOSE_TRANSACTION_LAMPORTS :: int where
  "CLOSE_TRANSACTION_LAMPORTS = 10000"

text \<open>
  A \<^verbatim>\<open>Position\<close> of the SDK is used through its pool data and through three quotes of the SDK
  (\<^verbatim>\<open>decreaseLiquidityQuoteByLiquidityWithParams\<close>, \<^verbatim>\<open>collectFeesQuote\<close>, \<^verbatim>\<open>collectRewardsQuote\<close>),
  which are not part of the repository: the record holds what they return for the position.
\<close>

record Position =
  getWhirlpoolData :: WhirlpoolData
  tokenEstA :: int
  tokenEstB :: int
  feeOwedA :: int
  feeOwedB :: int
  rewardsOwed :: "int option list"

record OutstandingBalances =
  currentValue :: Decimal
  collectibleFeesValue :: Decimal
  collectibleRewardsValue :: Decimal
  reclaimableRent :: Decimal

definition getOutstandingBalances ::
  "Position option \<Rightarrow> WhirlpoolData \<Rightarrow> (string \<rightharpoonup> Token) \<Rightarrow> (PriceKey \<rightharpoonup> Decimal) \<Rightarrow>
   error + OutstandingBalances" where
  "getOutstandingBalances pos whirlPool tokenMap priceMap =
     (case pos of
        None \<Rightarrow> Inr \<lparr>currentValue = Fin 0, collectibleFeesValue = Fin 0,
                      collectibleRewardsValue = Fin 0, reclaimableRent = Fin 0\<rparr>
      | Some pos' \<Rightarrow>
     (let whirlpoolData = getWhirlpoolData pos' in
     (case tokenMap NATIVE_MINT of
        None \<Rightarrow> Inl (Invariant ''SOL token not found'')
      | Some solToken \<Rightarrow>
     (case tokenMap (tokenMintA whirlpoolData) of
        None \<Rightarrow> Inl (Invariant ''Token A not found'')
      | Some tokenA \<Rightarrow>
     (case tokenMap (tokenMintB whirlpoolData) of
        None \<Rightarrow> Inl (Invariant ''Token B not found'')
      | Some tokenB \<Rightarrow>
     (case priceMap (NATIVE_MINT, None) of
        None \<Rightarrow> Inl (Invariant ''Current SOL price not found'')
      | Some solPrice \<Rightarrow>
     (case priceMap (mint tokenA, None) of
        None \<Rightarrow> Inl (Invariant ''Current Token A price not found'')
      | Some tokenAPrice \<Rightarrow>
     (case priceMap (mint tokenB, None) of
        None \<Rightarrow> Inl (Invariant ''Current Token B price not found'')
      | Some tokenBPrice \<Rightarrow>
         (let tokenAAmount = convertToUiAmount (tokenEstA pos') (decimals tokenA);
              tokenBAmount = convertToUiAmount (tokenEstB pos') (decimals tokenB);
              tokenAFeeAmount = convertToUiAmount (feeOwedA pos') (decimals tokenA);
              tokenBFeeAmount = convertToUiAmount (feeOwedB pos') (decimals tokenB)
          in Inr \<lparr>currentValue = Decimal_sum [Decimal_mul tokenAAmount tokenAPrice,
                                                 Decimal_mul tokenBAmount tokenBPrice],
                   collectibleFeesValue = Decimal_sum [Decimal_mul tokenAFeeAmount tokenAPrice,
                                                         Decimal_mul tokenBFeeAmount tokenBPrice],
                   collectibleRewardsValue = Decimal_sum
                     (map (\<lambda>(index, rewardInfo).
                        (case (if index < length (rewardsOwed pos')
                               then rewardsOwed pos' ! index else None,
                               tokenMap rewardInfo, priceMap (rewardInfo, None)) of
                           (Some amount, Some token, Some price) \<Rightarrow>
                              Decimal_mul (convertToUiAmount amount (decimals token)) price
                         | _ \<Rightarrow> Fin 0))
                        (enumerate 0 (rewardInfos whirlPool))),
                   reclaimableRent = Decimal_mul
                     (convertToUiAmount (RECLAIMABLE_RENT_LAMPORTS - CLOSE_TRANSACTION_LAMPORTS)
                        (decimals solToken)) solPrice\<rparr>)))))))))"

text \<open>
  The summary spreads the totals of the pass and the outstanding balances into one object; the
  record keeps the two groups under the names of the variables they are spread from.
\<close>

record PositionSummary =
  whirlpool :: string
  position :: string
  positionMint :: string
  owner :: string
  openedAt :: int
  closedAt :: "int option"
  analyzedInstructions :: AnalyzedInstructions
  positionBalance :: OutstandingBalances
  profit :: Decimal
  profitRatio :: Decimal
  forgoneProfit :: Decimal
  forgoneProfitRatio :: Decimal
  opportunityCost :: Decimal
  opportunityCostRatio :: Decimal

text \<open>
  \<^verbatim>\<open>analyzePosition\<close> returns the caller's list as the call leaves it together with the summary
  or the error thrown. The second \<^verbatim>\<open>invariant\<close> on the open instruction cannot fail.
\<close>

definition analyzePosition ::
  "DecodedInstruction list \<Rightarrow> (string \<rightharpoonup> Position) \<Rightarrow> (string \<rightharpoonup> WhirlpoolData) \<Rightarrow>
   (string \<rightharpoonup> Token) \<Rightarrow> (PriceKey \<rightharpoonup> Decimal) \<Rightarrow>
   DecodedInstruction list \<times> (error + PositionSummary)" where
  "analyzePosition instructions positionMap poolMap tokenMap priceMap =
     (let openInstructions = filter isOpenPosition instructions in
      if length openInstructions \<noteq> 1
      then (instructions, Inl (Invariant ''No open instruction found.''))
      else
     (let openInstruction = hd openInstructions;
          closePositions = filter isClosePosition instructions in
      if \<not> length closePositions \<le> 1
      then (instructions, Inl (Invariant ''More than one close instruction found.''))
      else
     (let closeInstruction = (if length closePositions = 1 then Some (hd closePositions) else None)
      in
     (case poolMap (InstructionUnion.whirlpool (decoded openInstruction)) of
        None \<Rightarrow> (instructions, Inl (Invariant ''Pool not found''))
      | Some whirlpool' \<Rightarrow>
     (let position' = positionMap (InstructionUnion.position (decoded openInstruction));
          (sorted', result) = analyzeInstructions instructions whirlpool' tokenMap priceMap
      in
     (case result of
        Inl e \<Rightarrow> (sorted', Inl e)
      | Inr analyzed \<Rightarrow>
         if \<not> Decimal_gte (depositedValue analyzed) (Fin 1)
         then (sorted', Inl (Invariant ''Deposited value to small to accurately analyze''))
         else
        (case getOutstandingBalances position' whirlpool' tokenMap priceMap of
           Inl e \<Rightarrow> (sorted', Inl e)
         | Inr balance \<Rightarrow>
            (let gains = Decimal_plus (Decimal_plus (Decimal_plus (Decimal_plus (Decimal_plus
                           (Decimal_plus (withdrawnValue analyzed) (currentValue balance))
                           (collectedFeesValue analyzed))
                           (collectedRewardsValue analyzed))
                           (collectibleFeesValue balance))
                           (collectibleRewardsValue balance))
                           (reclaimableRent balance);
                 losses = Decimal_plus (Decimal_plus (depositedValue analyzed)
                            (transactionCost analyzed)) (paidRent analyzed);
                 profit' = Decimal_minus gains losses;
                 profitRatio' = Decimal_div profit' (positionSize analyzed);
                 forgoneProfit' = Decimal_minus (forgoneValue analyzed) (depositedValue analyzed);
                 forgoneProfitRatio' = Decimal_div forgoneProfit' (positionSize analyzed);
                 opportunityCost' = Decimal_minus forgoneProfit' profit';
                 opportunityCostRatio' =
                   Decimal_div (Decimal_neg opportunityCost') (positionSize analyzed)
             in (sorted',
                 Inr \<lparr>whirlpool = InstructionUnion.whirlpool (decoded openInstruction),
                      position = InstructionUnion.position (decoded openInstruction),
                      positionMint = InstructionUnion.positionMint (decoded openInstruction),
                      owner = InstructionUnion.owner (decoded openInstruction),
                      openedAt = blockTime openInstruction,
                      closedAt = map_option blockTime closeInstruction,
                      analyzedInstructions = analyzed,
                      positionBalance = balance,
                      profit = profit',
                      profitRatio = profitRatio',
                      forgoneProfit = forgoneProfit',
                      forgoneProfitRatio = forgoneProfitRatio',
                      opportunityCost = opportunityCost',
                      opportunityCostRatio = opportunityCostRatio'\<rparr>)))))))))"

section \<open>The batch and its log\<close>

text \<open>
  The logger writes a line unless \<^verbatim>\<open>args.quiet\<close> is set; \<^verbatim>\<open>warn\<close> and \<^verbatim>\<open>debug\<close> call it only
  when \<^verbatim>\<open>args.debug\<close> is set (both flags default to false). A line of the log is the stream
  and the message; time stamp and colours are left out.
\<close>

record Args =
  quiet :: bool
  debug :: bool

datatype Stream = Stdout | Stderr

datatype LogMessage = FailedToAnalyzePosition string error | AnalyzedInstructionsFor nat

type_synonym LogLine = "Stream \<times> LogMessage"

definition logger_log :: "Args \<Rightarrow> Stream \<Rightarrow> LogMessage \<Rightarrow> LogLine list" where
  "logger_log args file message = (if quiet args then [] else [(file, message)])"

definition logger_debug :: "Args \<Rightarrow> LogMessage \<Rightarrow> LogLine list" where
  "logger_debug args message = (if debug args then logger_log args Stdout message else [])"

definition logger_warn :: "Args \<Rightarrow> LogMessage \<Rightarrow> LogLine list" where
  "logger_warn args message = (if debug args then logger_log args Stderr message else [])"

text \<open>
  The callback of \<^verbatim>\<open>flatMap\<close> in \<^verbatim>\<open>analyzePositions\<close>: one summary, or none and a warning that
  names the position of the first instruction of the list, if the list has one (every decoded
  instruction has a position, and the handler reads the list as the failed call left it).
\<close>

definition analyzeOrWarn ::
  "Args \<Rightarrow> (string \<rightharpoonup> Position) \<Rightarrow> (string \<rightharpoonup> WhirlpoolData) \<Rightarrow> (string \<rightharpoonup> Token) \<Rightarrow>
   (PriceKey \<rightharpoonup> Decimal) \<Rightarrow> DecodedInstruction list \<Rightarrow> PositionSummary list \<times> LogLine list" where
  "analyzeOrWarn args positionMap poolMap tokenMap priceMap instructions =
     (case analyzePosition instructions positionMap poolMap tokenMap priceMap of
        (_, Inr summary) \<Rightarrow> ([summary], [])
      | (instructions', Inl e) \<Rightarrow>
          ([], (case instructions' of
                  [] \<Rightarrow> []
                | instruction # _ \<Rightarrow>
                    logger_warn args
                      (FailedToAnalyzePosition (InstructionUnion.position (decoded instruction)) e))))"

definition analyzePositions ::
  "Args \<Rightarrow> DecodedInstruction list list \<Rightarrow> (string \<rightharpoonup> Position) \<Rightarrow> (string \<rightharpoonup> WhirlpoolData) \<Rightarrow>
   (string \<rightharpoonup> Token) \<Rightarrow> (PriceKey \<rightharpoonup> Decimal) \<Rightarrow> PositionSummary list \<times> LogLine list" where
  "analyzePositions args positions positionMap poolMap tokenMap priceMap =
     (let results = map (analyzeOrWarn args positionMap poolMap tokenMap priceMap) positions;
          summaries = concat (map fst results)
      in (summaries,
          concat (map snd results) @
          logger_debug args (AnalyzedInstructionsFor (length summaries))))"

section \<open>Decoding instructions\<close>

definition TOKEN_PROGRAM_ID :: string where
  "TOKEN_PROGRAM_ID = ''TokenkegQfeZyiNwAJbNbGKPFXCWuBvf9Ss623VQ5DA''"

definition WHIRLPOOL_PROGRAM_ID :: string where
  "WHIRLPOOL_PROGRAM_ID = ''whirLbMiicVdio4qvUfM5KAg6Ct8VwpYzGff3uctyCc''"

definition PAYABLE_RENT_LAMPORTS :: int where
  "PAYABLE_RENT_LAMPORTS = 2394240 + 1461600 + 2039280 + 15616720"

definition PAYABLE_RENT_LAMPORTS_WITHOUT_METADATA :: int where
  "PAYABLE_RENT_LAMPORTS_WITHOUT_METADATA = 2394240 + 1461600 + 2039280"

text \<open>
  The data of an instruction, as the coder of the program's interface returns it, is an object;
  a field of it is a number, a \<^verbatim>\<open>BN\<close> or something else.
\<close>

datatype DataValue = DataNumber int | DataBN int | DataOther

type_synonym InstructionData = "(string \<times> DataValue) list"

definition invariant :: "'a option \<Rightarrow> string \<Rightarrow> error + 'a" where
  \<comment> \<open>\<^verbatim>\<open>invariant(value, message)\<close> on a value that is an object when it is defined\<close>
  "invariant v message = (case v of None \<Rightarrow> Inl (Invariant message) | Some x \<Rightarrow> Inr x)"

definition andThen :: "error + 'a \<Rightarrow> ('a \<Rightarrow> error + 'b) \<Rightarrow> error + 'b" where
  \<comment> \<open>the next statement runs unless the one before has thrown\<close>
  "andThen r f = (case r of Inl e \<Rightarrow> Inl e | Inr x \<Rightarrow> f x)"

definition accountAt :: "string list \<Rightarrow> int \<Rightarrow> string option" where
  \<comment> \<open>\<^verbatim>\<open>accounts[i]\<close>, undefined out of range\<close>
  "accountAt accounts i =
     (if 0 \<le> i \<and> i < int (length accounts) then Some (accounts ! nat i) else None)"

definition instructionAt :: "GatheredInstruction list \<Rightarrow> nat \<Rightarrow> GatheredInstruction option" where
  \<comment> \<open>\<^verbatim>\<open>instructions[index]\<close>\<close>
  "instructionAt instructions i =
     (if i < length instructions then Some (instructions ! i) else None)"

fun findIndexFrom :: "nat \<Rightarrow> ('a \<Rightarrow> bool) \<Rightarrow> 'a list \<Rightarrow> int" where
  "findIndexFrom i P [] = - 1"
| "findIndexFrom i P (x # xs) = (if P x then int i else findIndexFrom (Suc i) P xs)"

definition findIndex :: "('a \<Rightarrow> bool) \<Rightarrow> 'a list \<Rightarrow> int" where
  \<comment> \<open>\<^verbatim>\<open>Array.prototype.findIndex\<close>\<close>
  "findIndex P xs = findIndexFrom 0 P xs"

definition isTokenTransfer :: "GatheredInstruction \<Rightarrow> bool" where
  \<comment> \<open>the condition of the \<^verbatim>\<open>if\<close> in \<^verbatim>\<open>nextTokenTransferAmount\<close>\<close>
  "isTokenTransfer instruction =
     (case body instruction of
        Parsed program (ParsedObject parsedType info) \<Rightarrow>
          program = ''spl-token'' \<and> parsedType = Some ''transfer''
      | _ \<Rightarrow> False)"

definition transferAmount :: "GatheredInstruction \<Rightarrow> error + int" where
  \<comment> \<open>the body of that \<^verbatim>\<open>if\<close>: four invariants, then \<^verbatim>\<open>new BN(amount)\<close>\<close>
  "transferAmount instruction =
     (case body instruction of
        Parsed program (ParsedObject parsedType info) \<Rightarrow>
          (case info of
             None \<Rightarrow> Inl (Invariant ''Transfer instruction does not contain info'')
           | Some InfoOther \<Rightarrow> Inl (Invariant ''Transfer info is not an object'')
           | Some InfoNull \<Rightarrow> Inl (TypeError ''Cannot use in operator on null'')
           | Some (InfoObject None) \<Rightarrow> Inl (Invariant ''Transfer info does not contain amount'')
           | Some (InfoObject (Some AmountOther)) \<Rightarrow> Inl (Invariant ''Reward amount is not a string'')
           | Some (InfoObject (Some (AmountString amount))) \<Rightarrow> Inr amount)
      | _ \<Rightarrow> Inl (TypeError ''Cannot read properties of parsed''))"

text \<open>
  The loop of \<^verbatim>\<open>nextTokenTransferAmount\<close>, at index \<open>i\<close> with the instructions from \<open>i\<close> on:
  it returns at the first token transfer, with its amount and index or with the error its
  invariants throw, and answers undefined (\<open>None\<close>) when the list ends.
\<close>

fun scanTransfers :: "nat \<Rightarrow> GatheredInstruction list \<Rightarrow> error + (int \<times> nat) option" where
  "scanTransfers i [] = Inr None"
| "scanTransfers i (instruction # rest) =
     (if isTokenTransfer instruction
      then (case transferAmount instruction of
              Inl e \<Rightarrow> Inl e
            | Inr amount \<Rightarrow> Inr (Some (amount, i)))
      else scanTransfers (Suc i) rest)"

definition nextTokenTransferAmount ::
  "nat \<Rightarrow> GatheredInstruction list \<Rightarrow> error + (int \<times> nat) option" where
  "nextTokenTransferAmount index instructions =
     scanTransfers (index + 1) (drop (index + 1) instructions)"

definition reduceTokenMintFromAccount ::
  "GatheredInstruction option \<Rightarrow> string option \<Rightarrow> error + string" where
  "reduceTokenMintFromAccount instruction tokenAccount =
     (case instruction of
        None \<Rightarrow> Inl (TypeError ''Cannot read properties of undefined (reading tokenMints)'')
      | Some instruction' \<Rightarrow>
     (case tokenAccount of
        None \<Rightarrow> Inl (TypeError ''Cannot read properties of undefined (reading toString)'')
      | Some account \<Rightarrow>
          invariant (map_of (tokenMints instruction') account)
            ''Could reduce mint from token account''))"

definition decodeOpenPosition ::
  "string list \<Rightarrow> InstructionData \<Rightarrow> string \<Rightarrow> error + InstructionUnion" where
  "decodeOpenPosition accounts data name =
     (let whirlpoolAccountIndex = findIndex (\<lambda>account. account = TOKEN_PROGRAM_ID) accounts - 1 in
      andThen (invariant (accountAt accounts whirlpoolAccountIndex)
                 ''Could not find whirlpool account for openPosition ix'') (\<lambda>whirlpoolAccount.
      andThen (invariant (accountAt accounts 1)
                 ''Could not find owner account for openPosition ix'') (\<lambda>ownerAccount.
      andThen (invariant (accountAt accounts 2)
                 ''Could not find position account for openPosition ix'') (\<lambda>positionAccount.
      andThen (invariant (accountAt accounts 3)
                 ''Could not find position mint account for openPosition ix'') (\<lambda>positionMintAccount.
      andThen (invariant (map_of data ''tickLowerIndex'')
                 ''Instruction data does not contain tickLowerIndex'') (\<lambda>lower.
      andThen (case lower of DataNumber n \<Rightarrow> Inr n
               | _ \<Rightarrow> Inl (Invariant ''tickLowerIndex is not a number'')) (\<lambda>data_tickLowerIndex.
      andThen (invariant (map_of data ''tickUpperIndex'')
                 ''Instruction data does not contain tickUpperIndex'') (\<lambda>upper.
      andThen (case upper of DataNumber n \<Rightarrow> Inr n
               | _ \<Rightarrow> Inl (Invariant ''tickUpperIndex is not a number'')) (\<lambda>data_tickUpperIndex.
      (let rentFee' = (if name = ''openPositionWithMetadata'' then PAYABLE_RENT_LAMPORTS
                       else PAYABLE_RENT_LAMPORTS_WITHOUT_METADATA)
       in Inr (OpenPosition whirlpoolAccount positionAccount positionMintAccount ownerAccount
                 data_tickLowerIndex data_tickUpperIndex rentFee')))))))))))"

text \<open>
  In the result above the fifth argument of \<open>OpenPosition\<close> is the field \<^verbatim>\<open>tickUpperIndex\<close> and
  the sixth the field \<^verbatim>\<open>tickLowerIndex\<close>: the source writes
  \<^verbatim>\<open>tickUpperIndex: data.tickLowerIndex, tickLowerIndex: data.tickUpperIndex\<close>.
\<close>

definition decodeIncreaseLiquidity ::
  "string list \<Rightarrow> InstructionData \<Rightarrow> string \<Rightarrow> nat \<Rightarrow> GatheredInstruction list \<Rightarrow>
   error + InstructionUnion" where
  "decodeIncreaseLiquidity accounts data name index instructions =
     andThen (invariant (accountAt accounts 0)
                ''Could not find whirlpool account for openPosition ix'') (\<lambda>whirlpoolAccount.
     andThen (invariant (accountAt accounts 3)
                ''Could not find position account for openPosition ix'') (\<lambda>positionAccount.
     andThen (invariant (map_of data ''liquidityAmount'')
                ''Instruction data does not contain liquidityAmount'') (\<lambda>amount.
     andThen (case amount of DataBN n \<Rightarrow> Inr n
              | _ \<Rightarrow> Inl (Invariant ''liquidityAmount is not a number'')) (\<lambda>liquidityAmount.
     andThen (reduceTokenMintFromAccount (instructionAt instructions index)
                (accountAt accounts 7)) (\<lambda>tokenAMint'.
     andThen (reduceTokenMintFromAccount (instructionAt instructions index)
                (accountAt accounts 8)) (\<lambda>tokenBMint'.
     andThen (nextTokenTransferAmount index instructions) (\<lambda>first.
     andThen (invariant first
                ''Could not find reward amount for increaseLiquidity ix'') (\<lambda>(tokenAIn', nextTokenTransferIndex).
     andThen (nextTokenTransferAmount nextTokenTransferIndex instructions) (\<lambda>second.
     andThen (invariant second
                ''Could not find reward amount for increaseLiquidity ix'') (\<lambda>(tokenBIn', _).
     Inr (IncreaseLiquidity whirlpoolAccount positionAccount liquidityAmount
            tokenAMint' tokenBMint' tokenAIn' tokenBIn')))))))))))"

definition decodeDecreaseLiquidity ::
  "string list \<Rightarrow> InstructionData \<Rightarrow> string \<Rightarrow> nat \<Rightarrow> GatheredInstruction list \<Rightarrow>
   error + InstructionUnion" where
  "decodeDecreaseLiquidity accounts data name index instructions =
     andThen (invariant (accountAt accounts 0)
                ''Could not find whirlpool account for decreaseLiquidity ix'') (\<lambda>whirlpoolAccount.
     andThen (invariant (accountAt accounts 3)
                ''Could not find position account for decreaseLiquidity ix'') (\<lambda>positionAccount.
     andThen (invariant (map_of data ''liquidityAmount'')
                ''Instruction data does not contain liquidityAmount'') (\<lambda>amount.
     andThen (case amount of DataBN n \<Rightarrow> Inr n
              | _ \<Rightarrow> Inl (Invariant ''liquidityAmount is not a number'')) (\<lambda>liquidityAmount.
     andThen (reduceTokenMintFromAccount (instructionAt instructions index)
                (accountAt accounts 7)) (\<lambda>tokenAMint'.
     andThen (reduceTokenMintFromAccount (instructionAt instructions index)
                (accountAt accounts 8)) (\<lambda>tokenBMint'.
     andThen (nextTokenTransferAmount index instructions) (\<lambda>first.
     andThen (invariant first
                ''Could not find reward amount for decreaseLiquidity ix'') (\<lambda>(tokenAOut', nextTokenTransferIndex).
     andThen (nextTokenTransferAmount nextTokenTransferIndex instructions) (\<lambda>second.
     andThen (invariant second
                ''Could not find reward amount for decreaseLiquidity ix'') (\<lambda>(tokenBOut', _).
     Inr (DecreaseLiquidity whirlpoolAccount positionAccount liquidityAmount
            tokenAMint' tokenBMint' tokenAOut' tokenBOut')))))))))))"

definition decodeCollectFee ::
  "string list \<Rightarrow> InstructionData \<Rightarrow> string \<Rightarrow> nat \<Rightarrow> GatheredInstruction list \<Rightarrow>
   error + InstructionUnion" where
  "decodeCollectFee accounts data name index instructions =
     andThen (invariant (accountAt accounts 0)
                ''Could not find whirlpool account for collectFees ix'') (\<lambda>whirlpoolAccount.
     andThen (invariant (accountAt accounts 2)
                ''Could not find position account for collectFees ix'') (\<lambda>positionAccount.
     andThen (reduceTokenMintFromAccount (instructionAt instructions index)
                (accountAt accounts 5)) (\<lambda>tokenAMint'.
     andThen (reduceTokenMintFromAccount (instructionAt instructions index)
                (accountAt accounts 7)) (\<lambda>tokenBMint'.
     andThen (nextTokenTransferAmount index instructions) (\<lambda>first.
     andThen (invariant first
                ''Could not find reward amount for collectFee ix'') (\<lambda>(tokenAFee', nextTokenTransferIndex).
     andThen (nextTokenTransferAmount nextTokenTransferIndex instructions) (\<lambda>second.
     andThen (invariant second
                ''Could not find reward amount for collectFee ix'') (\<lambda>(tokenBFee', _).
     Inr (CollectFees whirlpoolAccount positionAccount tokenAMint' tokenBMint'
            tokenAFee' tokenBFee')))))))))"

definition decodeCollectReward ::
  "string list \<Rightarrow> InstructionData \<Rightarrow> string \<Rightarrow> nat \<Rightarrow> GatheredInstruction list \<Rightarrow>
   error + InstructionUnion" where
  "decodeCollectReward accounts data name index instructions =
     andThen (invariant (accountAt accounts 0)
                ''Could not find whirlpool account for collectFees ix'') (\<lambda>whirlpoolAccount.
     andThen (invariant (accountAt accounts 2)
                ''Could not find position account for collectFees ix'') (\<lambda>positionAccount.
     andThen (invariant (map_of data ''rewardIndex'')
                ''Instruction data does not contain liquidityAmount'') (\<lambda>reward.
     andThen (case reward of DataNumber n \<Rightarrow> Inr n
              | _ \<Rightarrow> Inl (Invariant ''liquidityAmount is not a number'')) (\<lambda>rewardIndex'.
     andThen (reduceTokenMintFromAccount (instructionAt instructions index)
                (accountAt accounts 5)) (\<lambda>rewardMint'.
     andThen (nextTokenTransferAmount index instructions) (\<lambda>first.
     andThen (invariant first
                ''Could not find reward amount for collectReward ix'') (\<lambda>(rewardAmount', _).
     Inr (CollectReward whirlpoolAccount positionAccount rewardIndex' rewardMint'
            rewardAmount'))))))))"

definition decodeClosePosition :: "string list \<Rightarrow> InstructionData \<Rightarrow> error + InstructionUnion" where
  "decodeClosePosition accounts data =
     andThen (invariant (accountAt accounts 2)
                ''Could not find position account for collectFees ix'') (\<lambda>positionAccount.
     Inr (ClosePosition positionAccount RECLAIMABLE_RENT_LAMPORTS))"

type_synonym InstructionDecoder =
  "string list \<Rightarrow> InstructionData \<Rightarrow> string \<Rightarrow> nat \<Rightarrow> GatheredInstruction list \<Rightarrow>
   error + InstructionUnion"

definition decodeInstructionMap :: "string \<rightharpoonup> InstructionDecoder" where
  "decodeInstructionMap = map_of
     [(''openPosition'', \<lambda>accounts data name index instructions.
          decodeOpenPosition accounts data name),
      (''openPositionWithMetadata'', \<lambda>accounts data name index instructions.
          decodeOpenPosition accounts data name),
      (''increaseLiquidity'', decodeIncreaseLiquidity),
      (''decreaseLiquidity'', decodeDecreaseLiquidity),
      (''collectFees'', decodeCollectFee),
      (''collectReward'', decodeCollectReward),
      (''closePosition'', \<lambda>accounts data name index instructions.
          decodeClosePosition accounts data)]"

text \<open>
  \<^verbatim>\<open>decodeTransaction\<close> decodes the instruction at an index of a transaction's list. The coder of
  the program's interface (\<^verbatim>\<open>borshCoder.instruction.decode\<close>) is outside the repository and is a
  parameter: it returns the name and the data of an instruction, or nothing.
\<close>

definition decodeTransaction ::
  "(string \<Rightarrow> (string \<times> InstructionData) option) \<Rightarrow> nat \<Rightarrow> GatheredInstruction list \<Rightarrow>
   error + DecodedInstruction" where
  "decodeTransaction coder index instructions =
     (case instructionAt instructions index of
        None \<Rightarrow> Inl (TypeError ''Cannot read properties of undefined (reading programId)'')
      | Some instruction \<Rightarrow>
         if programId instruction \<noteq> WHIRLPOOL_PROGRAM_ID
         then Inl (Invariant ''Instruction is not a whirlpool instruction'')
         else
        (case body instruction of
           Parsed program parsed \<Rightarrow> Inl (Invariant ''Instruction is not a parsed instruction'')
         | PartiallyDecoded accounts data \<Rightarrow>
            (case coder data of
               None \<Rightarrow> Inl (Invariant ''Instruction data does not contain name'')
             | Some (name, decodedData) \<Rightarrow>
                if name = [] then Inl (Invariant ''Instruction data does not contain name'')
                else
               (case decodeInstructionMap name of
                  None \<Rightarrow> Inl (Invariant ''Instruction data name is not supported'')
                | Some handler \<Rightarrow>
                    andThen (handler accounts decodedData name index instructions) (\<lambda>u.
                    Inr \<lparr>programId = programId instruction, body = body instruction,
                         signature = signature instruction, blockTime = blockTime instruction,
                         transactionFee = transactionFee instruction,
                         tokenMints = tokenMints instruction, decoded = u\<rparr>)))))"

section \<open>The scan for token transfers, as the specification words it\<close>

text \<open>
  Index \<open>i\<close> is the first token transfer after index \<open>index\<close>: it comes after \<open>index\<close>, lies in the
  list, is a token transfer, and no instruction strictly between the two is one.
\<close>

definition firstTransferAfter :: "GatheredInstruction list \<Rightarrow> nat \<Rightarrow> nat \<Rightarrow> bool" where
  "firstTransferAfter instructions index i \<longleftrightarrow>
     index < i \<and> i < length instructions \<and> isTokenTransfer (instructions ! i) \<and>
     (\<forall>j. index < j \<and> j < i \<longrightarrow> \<not> isTokenTransfer (instructions ! j))"

definition noTransferAfter :: "GatheredInstruction list \<Rightarrow> nat \<Rightarrow> bool" where
  "noTransferAfter instructions index \<longleftrightarrow>
     (\<forall>j. index < j \<and> j < length instructions \<longrightarrow> \<not> isTokenTransfer (instructions ! j))"

section \<open>The formulas of the summary\<close>

text \<open>
  Gains and losses as the specification writes them, over the totals of the pass and the
  outstanding balances; sums are taken from left to right.
\<close>

definition spec_gains :: "AnalyzedInstructions \<Rightarrow> OutstandingBalances \<Rightarrow> Decimal" where
  "spec_gains a b =
     Decimal_plus (Decimal_plus (Decimal_plus (Decimal_plus (Decimal_plus (Decimal_plus
       (withdrawnValue a) (currentValue b)) (collectedFeesValue a)) (collectedRewardsValue a))
       (collectibleFeesValue b)) (collectibleRewardsValue b)) (reclaimableRent b)"

definition spec_losses :: "AnalyzedInstructions \<Rightarrow> Decimal" where
  "spec_losses a = Decimal_plus (Decimal_plus (depositedValue a) (transactionCost a)) (paidRent a)"

section \<open>Sample data\<close>

text \<open>
  A pool of two tokens with six decimals, prices at two block times one hour apart, and the
  events of the partial-withdrawal scenario: a deposit of 10 token A (liquidity 100) at a price
  of 1, then a withdrawal of 4 token A (liquidity 40) at a price of 1.10.
\<close>

definition sampleTokenMap :: "string \<rightharpoonup> Token" where
  "sampleTokenMap = [NATIVE_MINT \<mapsto> \<lparr>mint = NATIVE_MINT, decimals = 9\<rparr>,
                     ''mintA'' \<mapsto> \<lparr>mint = ''mintA'', decimals = 6\<rparr>,
                     ''mintB'' \<mapsto> \<lparr>mint = ''mintB'', decimals = 6\<rparr>]"

definition samplePool :: WhirlpoolData where
  "samplePool = \<lparr>tokenMintA = ''mintA'', tokenMintB = ''mintB'', rewardInfos = []\<rparr>"

definition samplePriceMap :: "PriceKey \<rightharpoonup> Decimal" where
  "samplePriceMap =
     [(NATIVE_MINT, Some 1700000000) \<mapsto> Fin 20, (''mintA'', Some 1700000000) \<mapsto> Fin 1,
      (''mintB'', Some 1700000000) \<mapsto> Fin 2,
      (NATIVE_MINT, Some 1700003600) \<mapsto> Fin 20, (''mintA'', Some 1700003600) \<mapsto> Fin (11 / 10),
      (''mintB'', Some 1700003600) \<mapsto> Fin 2,
      (NATIVE_MINT, None) \<mapsto> Fin 20, (''mintA'', None) \<mapsto> Fin (12 / 10), (''mintB'', None) \<mapsto> Fin 2]"

definition sampleEvent :: "string \<Rightarrow> int \<Rightarrow> InstructionUnion \<Rightarrow> DecodedInstruction" where
  "sampleEvent sig time u =
     \<lparr>programId = ''whirLbMiicVdio4qvUfM5KAg6Ct8VwpYzGff3uctyCc'', body = PartiallyDecoded [] [],
      signature = sig, blockTime = time, transactionFee = 5000, tokenMints = [], decoded = u\<rparr>"

definition sampleSol :: Token where
  "sampleSol = \<lparr>mint = NATIVE_MINT, decimals = 9\<rparr>"

definition sampleTokenA :: Token where
  "sampleTokenA = \<lparr>mint = ''mintA'', decimals = 6\<rparr>"

definition sampleTokenB :: Token where
  "sampleTokenB = \<lparr>mint = ''mintB'', decimals = 6\<rparr>"

definition sampleOpen :: DecodedInstruction where
  "sampleOpen = sampleEvent ''sig0'' 1700000000
     (OpenPosition ''pool'' ''position'' ''positionMint'' ''owner'' 0 64 4433520)"

definition sampleIncrease :: DecodedInstruction where
  "sampleIncrease = sampleEvent ''sig1'' 1700000000
     (IncreaseLiquidity ''pool'' ''position'' 100 ''mintA'' ''mintB'' 10000000 0)"

definition sampleDecrease :: DecodedInstruction where
  "sampleDecrease = sampleEvent ''sig2'' 1700003600
     (DecreaseLiquidity ''pool'' ''position'' 40 ''mintA'' ''mintB'' 4000000 0)"

definition sampleFullDecrease :: DecodedInstruction where
  "sampleFullDecrease = sampleEvent ''sig2'' 1700003600
     (DecreaseLiquidity ''pool'' ''position'' 100 ''mintA'' ''mintB'' 10000000 0)"

definition sampleSameTimeDecrease :: DecodedInstruction where
  "sampleSameTimeDecrease = sampleEvent ''sig2'' 1700000000
     (DecreaseLiquidity ''pool'' ''position'' 100 ''mintA'' ''mintB'' 10000000 0)"

definition sampleOverDecrease :: DecodedInstruction where
  "sampleOverDecrease = sampleEvent ''sig2'' 1700003600
     (DecreaseLiquidity ''pool'' ''position'' 200 ''mintA'' ''mintB'' 4000000 0)"

definition sampleClose :: DecodedInstruction where
  "sampleClose = sampleEvent ''sig3'' 1700003600 (ClosePosition ''position'' 4433520)"

text \<open>
  A transaction that adds liquidity: the whirlpool instruction, the transfer of 10 token A, an
  instruction that is no transfer, and the transfer of 250 units of token B. The sample coder
  reads the data of the whirlpool instruction as \<^verbatim>\<open>increaseLiquidity\<close> and the data of an
  opening with the ticks \<open>- 64\<close> and \<open>128\<close> as \<^verbatim>\<open>openPosition\<close>. The account lists are
  those of the program's instructions: adding and removing liquidity share one layout,
  collecting fees and collecting a reward have their own.
\<close>

definition sampleGathered :: "string \<Rightarrow> InstructionBody \<Rightarrow> GatheredInstruction" where
  "sampleGathered program b =
     \<lparr>programId = program, body = b, signature = ''sig1'', blockTime = 1700000000,
      transactionFee = 5000,
      tokenMints = [(''vaultA'', ''mintA''), (''vaultB'', ''mintB''), (''rewardVault'', ''mintR'')]\<rparr>"

definition sampleTransfer :: "int \<Rightarrow> GatheredInstruction" where
  "sampleTransfer amount = sampleGathered TOKEN_PROGRAM_ID
     (Parsed ''spl-token''
        (ParsedObject (Some ''transfer'') (Some (InfoObject (Some (AmountString amount))))))"

definition sampleMemo :: GatheredInstruction where
  "sampleMemo = sampleGathered ''MemoSq4gqABAXKb96qnH8TysNcWxMyWCqXgDLGmfcHr''
     (Parsed ''spl-memo'' ParsedOther)"

definition sampleAccounts :: "string list" where
  "sampleAccounts = [''pool'', ''tokenProgram'', ''authority'', ''position'', ''positionTokenAccount'',
     ''ownerA'', ''ownerB'', ''vaultA'', ''vaultB'', ''tickArrayLower'', ''tickArrayUpper'']"

definition sampleCollectAccounts :: "string list" where
  "sampleCollectAccounts = [''pool'', ''authority'', ''position'', ''positionTokenAccount'',
     ''ownerA'', ''vaultA'', ''ownerB'', ''vaultB'', ''tokenProgram'']"

definition sampleRewardAccounts :: "string list" where
  "sampleRewardAccounts = [''pool'', ''authority'', ''position'', ''positionTokenAccount'',
     ''rewardOwner'', ''rewardVault'', ''tokenProgram'']"

definition sampleIncreaseIx :: GatheredInstruction where
  "sampleIncreaseIx = sampleGathered WHIRLPOOL_PROGRAM_ID (PartiallyDecoded sampleAccounts ''increase'')"

definition sampleTransaction :: "GatheredInstruction list" where
  "sampleTransaction = [sampleIncreaseIx, sampleTransfer 10000000, sampleMemo, sampleTransfer 250]"

definition sampleOpenAccounts :: "string list" where
  "sampleOpenAccounts = [''funder'', ''owner'', ''position'', ''positionMint'',
     ''positionTokenAccount'', ''pool'', TOKEN_PROGRAM_ID, ''systemProgram'', ''rent'',
     ''associatedTokenProgram'']"

definition sampleOpenData :: InstructionData where
  "sampleOpenData = [(''bumps'', DataOther), (''tickLowerIndex'', DataNumber (- 64)),
                     (''tickUpperIndex'', DataNumber 128)]"

definition sampleOpenIx :: GatheredInstruction where
  "sampleOpenIx = sampleGathered WHIRLPOOL_PROGRAM_ID (PartiallyDecoded sampleOpenAccounts ''open'')"

definition sampleCoder :: "string \<Rightarrow> (string \<times> InstructionData) option" where
  "sampleCoder raw =
     (if raw = ''increase'' then Some (''increaseLiquidity'', [(''liquidityAmount'', DataBN 100)])
      else if raw = ''open'' then Some (''openPosition'', sampleOpenData)
      else None)"

definition samplePoolMap :: "string \<rightharpoonup> WhirlpoolData" where
  "samplePoolMap = [''pool'' \<mapsto> samplePool]"

definition samplePosition :: Position where
  "samplePosition = \<lparr>getWhirlpoolData = samplePool, tokenEstA = 6000000, tokenEstB = 0,
                      feeOwedA = 100000, feeOwedB = 0, rewardsOwed = []\<rparr>"

definition samplePositionMap :: "string \<rightharpoonup> Position" where
  "samplePositionMap = [''position'' \<mapsto> samplePosition]"

definition sampleSmallIncrease :: DecodedInstruction where
  "sampleSmallIncrease = sampleEvent ''sig1'' 1700000000
     (IncreaseLiquidity ''pool'' ''position'' 5 ''mintA'' ''mintB'' 500000 0)"

text \<open>
  Two deposits that show the rounding. The first is worth just less than 1: 9.999999 token A
  at a price of 0.100000010000001, a product of 21 digits; it comes with the withdrawal of all
  its liquidity at the same block time. The second, of 3 token A at a price of 1, makes a
  position size of 3, so that the ratios of its summary do not terminate.
\<close>

definition sampleFinePriceMap :: "PriceKey \<rightharpoonup> Decimal" where
  "sampleFinePriceMap =
     samplePriceMap((''mintA'', Some 1700000000) \<mapsto> Fin (100000010000001 / 10 ^ 15))"

definition sampleFineIncrease :: DecodedInstruction where
  "sampleFineIncrease = sampleEvent ''sig1'' 1700000000
     (IncreaseLiquidity ''pool'' ''position'' 100 ''mintA'' ''mintB'' 9999999 0)"

definition sampleFineDecrease :: DecodedInstruction where
  "sampleFineDecrease = sampleEvent ''sig2'' 1700000000
     (DecreaseLiquidity ''pool'' ''position'' 100 ''mintA'' ''mintB'' 9999999 0)"

definition sampleThreeIncrease :: DecodedInstruction where
  "sampleThreeIncrease = sampleEvent ''sig1'' 1700000000
     (IncreaseLiquidity ''pool'' ''position'' 30 ''mintA'' ''mintB'' 3000000 0)"

text \<open>
  The summary of the sample position while it is open: opened, funded with 10 token A and
  partly withdrawn, with 6 token A and fees of 0.1 token A outstanding.
\<close>

definition sampleSummary :: PositionSummary where
  "sampleSummary =
     \<lparr>whirlpool = ''pool'', position = ''position'', positionMint = ''positionMint'',
      owner = ''owner'', openedAt = 1700000000, closedAt = None,
      analyzedInstructions =
        \<lparr>depositedValue = Fin 10, withdrawnValue = Fin (22 / 5), forgoneValue = Fin (58 / 5),
         positionSize = Fin 10, collectedFeesValue = Fin 0, collectedRewardsValue = Fin 0,
         paidRent = Fin (55419 / 625000), transactionCost = Fin (3 / 10000)\<rparr>,
      positionBalance =
        \<lparr>currentValue = Fin (36 / 5), collectibleFeesValue = Fin (3 / 25),
         collectibleRewardsValue = Fin 0, reclaimableRent = Fin (27647 / 312500)\<rparr>,
      profit = Fin (3439 / 2000), profitRatio = Fin (3439 / 20000),
      forgoneProfit = Fin (8 / 5), forgoneProfitRatio = Fin (4 / 25),
      opportunityCost = Fin (- (239 / 2000)), opportunityCostRatio = Fin (239 / 20000)\<rparr>"

text \<open>
  The summary of the position opened and funded with 3 token A, when the position itself is
  not known any more (no outstanding balances): the profit is the negated losses, and the two
  ratios over the position size of 3 are cut after 40 digits.
\<close>

definition sampleThirdsSummary :: PositionSummary where
  "sampleThirdsSummary =
     \<lparr>whirlpool = ''pool'', position = ''position'', positionMint = ''positionMint'',
      owner = ''owner'', openedAt = 1700000000, closedAt = None,
      analyzedInstructions =
        \<lparr>depositedValue = Fin 3, withdrawnValue = Fin 0, forgoneValue = Fin (18 / 5),
         positionSize = Fin 3, collectedFeesValue = Fin 0, collectedRewardsValue = Fin 0,
         paidRent = Fin (55419 / 625000), transactionCost = Fin (1 / 5000)\<rparr>,
      positionBalance =
        \<lparr>currentValue = Fin 0, collectibleFeesValue = Fin 0,
         collectibleRewardsValue = Fin 0, reclaimableRent = Fin 0\<rparr>,
      profit = Fin (- (30888704 / 10 ^ 7)),
      profitRatio = Fin (- (1029623466666666666666666666666666666666 / 10 ^ 39)),
      forgoneProfit = Fin (6 / 10), forgoneProfitRatio = Fin (2 / 10),
      opportunityCost = Fin (36888704 / 10 ^ 7),
      opportunityCostRatio = Fin (- (1229623466666666666666666666666666666666 / 10 ^ 39))\<rparr>"

section \<open>Properties of the decimal arithmetic\<close>

text \<open>
  The number of digits brackets a positive natural number between two powers of ten, and the
  decimal exponent does the same for a positive rational.
\<close>

lemma ndigits_pos: "0 < ndigits n" by (subst ndigits.simps) simp

lemma ndigits_bounds: "0 < n \<Longrightarrow> 10 ^ (ndigits n - 1) \<le> n \<and> n < 10 ^ ndigits n"
proof (induction n rule: ndigits.induct)
  case (1 n)
  show ?case
  proof (cases "n < 10")
    case True
    with 1 show ?thesis by (simp add: ndigits.simps[of n])
  next
    case False
    then have "0 < n div 10" by simp
    with 1 False have ih: "10 ^ (ndigits (n div 10) - 1) \<le> n div 10" "n div 10 < 10 ^ ndigits (n div 10)" by auto
    have nd: "ndigits n = Suc (ndigits (n div 10))" using False by (simp add: ndigits.simps[of n])
    obtain k where k: "ndigits (n div 10) = Suc k" using ndigits_pos[of "n div 10"] by (cases "ndigits (n div 10)") auto
    have "10 * 10 ^ k \<le> 10 * (n div 10)" using ih(1) k by simp
    also have "\<dots> \<le> n" by simp
    finally have a: "10 ^ (ndigits n - 1) \<le> n" using nd k by simp
    have "n div 10 + 1 \<le> 10 ^ ndigits (n div 10)" using ih(2) by simp
    then have "10 * (n div 10 + 1) \<le> 10 * 10 ^ ndigits (n div 10)" by (rule mult_le_mono2)
    moreover have "n < 10 * (n div 10 + 1)" by presburger
    ultimately have b: "n < 10 ^ ndigits n" using nd by simp
    show ?thesis using a b by simp
  qed
qed

lemma dexp_bounds:
  assumes "0 < x"
  shows "10 powi dexp x \<le> x \<and> x < 10 powi (dexp x + 1)"
proof (cases "1 \<le> x")
  case True
  define n where "n = nat \<lfloor>x\<rfloor>"
  have fl: "1 \<le> \<lfloor>x\<rfloor>" using True by simp
  then have npos: "0 < n" by (simp add: n_def)
  obtain k where k: "ndigits n = Suc k" using ndigits_pos[of n] by (cases "ndigits n") auto
  have d: "dexp x = int k" using True k by (simp add: dexp_def n_def)
  from ndigits_bounds[OF npos] k have b: "10 ^ k \<le> n" "n < 10 ^ Suc k" by simp_all
  have nx: "rat_of_nat n \<le> x" using fl by (simp add: n_def)
  have xn: "x < rat_of_nat n + 1" using fl by (simp add: n_def) linarith
  have "(10::rat) ^ k \<le> rat_of_nat n" using b(1) by (metis of_nat_le_iff of_nat_numeral of_nat_power)
  then have "(10::rat) ^ k \<le> x" using nx by (rule order_trans)
  then have lo: "10 powi dexp x \<le> x" using d by (simp add: power_int_of_nat)
  have "n + 1 \<le> 10 ^ Suc k" using b(2) by simp
  then have "rat_of_nat (n + 1) \<le> rat_of_nat (10 ^ Suc k)" by (simp only: of_nat_le_iff)
  then have "rat_of_nat n + 1 \<le> 10 ^ Suc k" by simp
  then have hi: "x < 10 powi (dexp x + 1)" using xn d
    by (metis less_le_trans of_nat_Suc power_int_of_nat add.commute of_nat_1 of_nat_add)
  show ?thesis using lo hi by simp
next
  case False
  then have x1: "x < 1" by simp
  define c where "c = \<lceil>1 / x\<rceil>"
  define m where "m = nat (c - 1)"
  have gt1: "1 < 1 / x" using assms x1 by simp
  have c2: "2 \<le> c" using gt1 unfolding c_def by linarith
  then have mpos: "0 < m" by (simp add: m_def)
  have mc: "int m = c - 1" using c2 by (simp add: m_def)
  obtain k where k: "ndigits m = Suc k" using ndigits_pos[of m] by (cases "ndigits m") auto
  have d: "dexp x = - int (Suc k)" using False k by (simp add: dexp_def m_def c_def)
  from ndigits_bounds[OF mpos] k have b: "10 ^ k \<le> m" "m < 10 ^ Suc k" by simp_all
  have up: "1 / x \<le> of_int c" unfolding c_def by simp
  have low: "of_int (c - 1) < 1 / x" unfolding c_def by linarith
  have "int m + 1 \<le> 10 ^ Suc k" using b(2) by (metis add.commute of_nat_Suc of_nat_le_iff of_nat_numeral of_nat_power Suc_leI)
  then have "c \<le> 10 ^ Suc k" using mc by simp
  then have "rat_of_int c \<le> 10 ^ Suc k" by (metis of_int_le_iff of_int_numeral of_int_power)
  then have "1 / x \<le> 10 ^ Suc k" using up by linarith
  then have "1 / 10 ^ Suc k \<le> x" using assms
    by (metis divide_le_eq mult.commute pos_divide_le_eq zero_less_numeral zero_less_power)
  then have lo: "10 powi dexp x \<le> x" using d by (simp add: power_int_minus_divide power_int_of_nat del: power_Suc of_nat_Suc)
  have "(10::int) ^ k \<le> int m" using b(1) by (metis of_nat_le_iff of_nat_numeral of_nat_power)
  then have "rat_of_int (10 ^ k) \<le> of_int (c - 1)" using mc by (simp only: of_int_le_iff)
  then have "(10::rat) ^ k < 1 / x" using low by simp
  then have "x < 1 / 10 ^ k" using assms
    by (metis less_divide_eq mult.commute pos_less_divide_eq zero_less_numeral zero_less_power)
  moreover have "dexp x + 1 = - int k" using d by simp
  ultimately have hi: "x < 10 powi (dexp x + 1)" by (simp add: power_int_minus_divide power_int_of_nat)
  show ?thesis using lo hi by simp
qed

lemma dexp_unique:
  assumes "0 < x" "10 powi e \<le> x" "x < 10 powi (e + 1)"
  shows "dexp x = e"
proof -
  from dexp_bounds[OF assms(1)] have b: "10 powi dexp x \<le> x" "x < 10 powi (dexp x + 1)" by simp_all
  have "(10::rat) powi e < 10 powi (dexp x + 1)" using assms(2) b(2) by simp
  then have "e < dexp x + 1"
    by (metis linorder_not_less power_int_increasing one_le_numeral leD)
  moreover have "(10::rat) powi dexp x < 10 powi (e + 1)" using assms(3) b(1) by simp
  then have "dexp x < e + 1"
    by (metis linorder_not_less power_int_increasing one_le_numeral leD)
  ultimately show ?thesis by simp
qed

text \<open>
  Rounding keeps the sign, leaves alone every number of at most 40 significant digits, is
  idempotent, and never moves a number away from zero.
\<close>

lemma round_sd_pos_eq:
  assumes "0 < x"
  shows "round_sd x = of_int \<lfloor>x / 10 powi (dexp x - 39)\<rfloor> * 10 powi (dexp x - 39)"
  using assms by (simp add: round_sd_def Let_def)

lemma round_sd_minus: "round_sd (- x) = - round_sd x"
  by (simp add: round_sd_def Let_def)

lemma round_sd_representable_pos:
  assumes m: "0 < m" "m < 10 ^ 40"
  shows "round_sd (of_int m * 10 powi k) = of_int m * 10 powi k"
proof -
  define y :: rat where "y = of_int m * 10 powi k"
  have ypos: "0 < y" using m(1) by (simp add: y_def zero_less_power_int)
  define e where "e = dexp y"
  from dexp_bounds[OF ypos] have b: "10 powi e \<le> y" "y < 10 powi (e + 1)" by (simp_all add: e_def)
  have "rat_of_int m < 10 ^ 40" using m(2) by (metis of_int_less_iff of_int_numeral of_int_power)
  then have "y < 10 ^ 40 * 10 powi k" unfolding y_def by (simp add: zero_less_power_int)
  also have "\<dots> = 10 powi (40 + k)" by (simp add: power_int_add)
  finally have "(10::rat) powi e < 10 powi (40 + k)" using b(1) by simp
  then have "e < 40 + k" by (metis linorder_not_less power_int_increasing one_le_numeral leD)
  then have ge: "0 \<le> k - e + 39" by simp
  define j where "j = nat (k - e + 39)"
  have kj: "k = int j + (e - 39)" using ge by (simp add: j_def)
  have "y / 10 powi (e - 39) = of_int m * 10 powi (int j)"
    unfolding y_def by (subst kj) (simp add: power_int_add)
  also have "\<dots> = rat_of_int (m * 10 ^ j)" by (simp add: power_int_of_nat)
  finally have q: "y / 10 powi (e - 39) = rat_of_int (m * 10 ^ j)" .
  have "round_sd y = of_int \<lfloor>y / 10 powi (e - 39)\<rfloor> * 10 powi (e - 39)"
    using round_sd_pos_eq[OF ypos] by (simp add: e_def)
  also have "\<dots> = rat_of_int (m * 10 ^ j) * 10 powi (e - 39)"
    by (simp only: q floor_of_int)
  also have "\<dots> = y"
  proof -
    have nz: "(10::rat) powi (e - 39) \<noteq> 0" by simp
    show ?thesis using q nz by (simp add: nonzero_divide_eq_eq)
  qed
  finally show ?thesis by (simp add: y_def)
qed

lemma round_sd_representable:
  assumes "\<bar>m\<bar> < 10 ^ 40"
  shows "round_sd (of_int m * 10 powi k) = of_int m * 10 powi k"
proof (cases m "0::int" rule: linorder_cases)
  case equal
  then show ?thesis by (simp add: round_sd_def)
next
  case greater
  then show ?thesis using assms round_sd_representable_pos[of m k] by simp
next
  case less
  then have "round_sd (of_int (- m) * 10 powi k) = of_int (- m) * 10 powi k"
    using assms round_sd_representable_pos[of "- m" k] by simp
  then show ?thesis using round_sd_minus[of "of_int m * 10 powi k"] by simp
qed

lemma round_sd_mantissa:
  assumes "0 < x"
  shows "10 ^ 39 \<le> \<lfloor>x / 10 powi (dexp x - 39)\<rfloor> \<and> \<lfloor>x / 10 powi (dexp x - 39)\<rfloor> < 10 ^ 40"
proof -
  define e where "e = dexp x"
  define s :: rat where "s = 10 powi (e - 39)"
  have spos: "0 < s" by (simp add: s_def zero_less_power_int)
  from dexp_bounds[OF assms] have b: "10 powi e \<le> x" "x < 10 powi (e + 1)" by (simp_all add: e_def)
  have e1: "(10::rat) powi e = 10 ^ 39 * s" unfolding s_def
    using power_int_add[of "10::rat" 39 "e - 39"] by simp
  have e2: "(10::rat) powi (e + 1) = 10 ^ 40 * s" unfolding s_def
    using power_int_add[of "10::rat" 40 "e - 39"] by (simp add: add.commute)
  have lo: "10 ^ 39 \<le> x / s" using b(1) e1 spos by (simp add: pos_le_divide_eq)
  have hi: "x / s < 10 ^ 40" using b(2) e2 spos by (simp add: pos_divide_less_eq)
  have "rat_of_int (10 ^ 39) \<le> x / s" using lo by simp
  then have A: "10 ^ 39 \<le> \<lfloor>x / s\<rfloor>" by (simp only: le_floor_iff)
  have "x / s < rat_of_int (10 ^ 40)" using hi by simp
  then have B: "\<lfloor>x / s\<rfloor> < 10 ^ 40" by (simp only: floor_less_iff)
  show ?thesis using A B by (simp add: s_def e_def)
qed

lemma round_sd_pos: "0 < x \<Longrightarrow> 0 < round_sd x"
proof -
  assume x: "0 < x"
  from round_sd_mantissa[OF x] have "10 ^ 39 \<le> \<lfloor>x / 10 powi (dexp x - 39)\<rfloor>" by (rule conjunct1)
  moreover have "(0::int) < 10 ^ 39" by simp
  ultimately have "0 < \<lfloor>x / 10 powi (dexp x - 39)\<rfloor>" by (rule less_le_trans[rotated])
  then have "0 < rat_of_int \<lfloor>x / 10 powi (dexp x - 39)\<rfloor>" by (simp only: of_int_0_less_iff)
  moreover have "(0::rat) < 10 powi (dexp x - 39)" by (simp add: zero_less_power_int)
  ultimately have "0 < rat_of_int \<lfloor>x / 10 powi (dexp x - 39)\<rfloor> * 10 powi (dexp x - 39)"
    by (rule mult_pos_pos)
  then show ?thesis by (simp only: round_sd_pos_eq[OF x])
qed

lemma round_sd_le:
  assumes x: "0 < x"
  shows "round_sd x \<le> x"
proof -
  define s :: rat where "s = 10 powi (dexp x - 39)"
  have spos: "0 < s" by (simp add: s_def zero_less_power_int)
  have "rat_of_int \<lfloor>x / s\<rfloor> \<le> x / s" by (rule of_int_floor_le)
  then have "rat_of_int \<lfloor>x / s\<rfloor> * s \<le> x" by (simp only: pos_le_divide_eq[OF spos])
  then show ?thesis by (simp only: round_sd_pos_eq[OF x] s_def)
qed

lemma round_sd_idem_pos:
  assumes x: "0 < x"
  shows "round_sd (round_sd x) = round_sd x"
proof -
  define m where "m = \<lfloor>x / 10 powi (dexp x - 39)\<rfloor>"
  have r: "round_sd x = of_int m * 10 powi (dexp x - 39)" using round_sd_pos_eq[OF x] by (simp add: m_def)
  from round_sd_mantissa[OF x] have "\<bar>m\<bar> < 10 ^ 40" by (simp add: m_def)
  then show ?thesis using r round_sd_representable[of m "dexp x - 39"] by simp
qed

lemma round_sd_idem: "round_sd (round_sd x) = round_sd x"
proof (cases x "0::rat" rule: linorder_cases)
  case equal
  then show ?thesis by (simp add: round_sd_def)
next
  case greater
  then show ?thesis by (rule round_sd_idem_pos)
next
  case less
  then have "round_sd (round_sd (- x)) = round_sd (- x)" by (intro round_sd_idem_pos) simp
  then show ?thesis by (simp add: round_sd_minus)
qed

lemma round_sd_zero: "round_sd 0 = 0" by (simp add: round_sd_def)

lemma round_sd_one: "round_sd 1 = 1"
  using round_sd_representable[of 1 0] by simp

lemma round_sd_le_one:
  assumes "0 < x" "x \<le> 1"
  shows "round_sd x \<le> 1"
  using round_sd_le[OF assms(1)] assms(2) by simp

text \<open>
  A number with more digits is cut: with its decimal exponent \<open>e\<close> and the integer part \<open>m\<close> of
  its first 40 digits, it rounds to \<open>m\<close> at that scale.
\<close>

lemma round_sd_cut:
  assumes "0 < x" "10 powi e \<le> x" "x < 10 powi (e + 1)"
    "of_int m \<le> x / 10 powi (e - 39)" "x / 10 powi (e - 39) < of_int m + 1"
  shows "round_sd x = of_int m * 10 powi (e - 39)"
proof -
  have "\<lfloor>x / 10 powi (e - 39)\<rfloor> = m" using assms(4,5) by (rule floor_unique)
  then show ?thesis using round_sd_pos_eq[OF assms(1)] dexp_unique[OF assms(1-3)] by simp
qed

lemma rounded_plus: "rounded (Decimal_plus x y)"
  by (auto simp: rounded_def Decimal_plus_def round_sd_idem split: Decimal.splits)

lemma rounded_minus: "rounded (Decimal_minus x y)"
  by (auto simp: rounded_def Decimal_minus_def Decimal_neg_def round_sd_idem split: Decimal.splits)

lemma rounded_mul: "rounded (Decimal_mul x y)"
  by (auto simp: rounded_def Decimal_mul_def infinity_def round_sd_idem split: Decimal.splits)

lemma rounded_div: "rounded (Decimal_div x y)"
  by (auto simp: rounded_def Decimal_div_def infinity_def round_sd_idem round_sd_zero split: Decimal.splits)

lemma plus_zero_rounded: "rounded x \<Longrightarrow> Decimal_plus (Fin 0) x = x"
  by (auto simp: rounded_def Decimal_plus_def split: Decimal.splits)

lemma minus_self_Fin: "Decimal_minus (Fin a) (Fin a) = Fin 0"
  by (simp add: Decimal_minus_def round_sd_zero)

lemma convertToUiAmount_Fin: "convertToUiAmount n d = Fin (round_sd (of_int n / 10 ^ d))"
  by (simp add: convertToUiAmount_def Decimal_div_def Decimal_of_BN_def)

lemma withdrawnPercentage_range:
  assumes "0 < liquidityOut'" "liquidityOut' \<le> liquidity"
  shows "\<exists>q. withdrawnPercentage liquidityOut' liquidity = Fin q \<and> 0 < q \<and> q \<le> 1"
proof -
  have pos: "0 < rat_of_int liquidityOut' / rat_of_int liquidity" using assms by simp
  have le: "rat_of_int liquidityOut' / rat_of_int liquidity \<le> 1" using assms by simp
  have "withdrawnPercentage liquidityOut' liquidity =
        Fin (round_sd (rat_of_int liquidityOut' / rat_of_int liquidity))"
    using assms by (simp add: withdrawnPercentage_def Decimal_div_def Decimal_of_BN_def)
  then show ?thesis using round_sd_pos[OF pos] round_sd_le_one[OF pos le] by simp
qed

lemma withdrawnPercentage_full: "0 < l \<Longrightarrow> withdrawnPercentage l l = Fin 1"
  by (simp add: withdrawnPercentage_def Decimal_div_def Decimal_of_BN_def round_sd_one)

text \<open>
  Two of three: the fraction is 0.666\<dots>6 with 40 digits, and a balance of 10 becomes
  3.333\<dots>4 with 40 digits.
\<close>

lemma withdrawnPercentage_two_of_three:
  "withdrawnPercentage 2 3 = Fin (6666666666666666666666666666666666666666 / 10 ^ 40)"
  "Decimal_minus (Fin 10) (Decimal_mul (Fin 10) (withdrawnPercentage 2 3))
     = Fin (3333333333333333333333333333333333333334 / 10 ^ 39)"
proof -
  have "round_sd (2 / 3) = of_int 6666666666666666666666666666666666666666 * 10 powi (- 1 - 39)"
    by (rule round_sd_cut) (simp_all add: power_int_minus_divide)
  then have a: "round_sd (2 / 3) = 3333333333333333333333333333333333333333 / 5000000000000000000000000000000000000000"
    by (simp add: power_int_minus_divide)
  have r: "round_sd (3333333333333333333333333333333333333333 / 500000000000000000000000000000000000000)
     = 3333333333333333333333333333333333333333 / 500000000000000000000000000000000000000"
    "round_sd (1666666666666666666666666666666666666667 / 500000000000000000000000000000000000000)
     = 1666666666666666666666666666666666666667 / 500000000000000000000000000000000000000"
    using round_sd_representable[of 6666666666666666666666666666666666666666 "-39"]
      round_sd_representable[of 3333333333333333333333333333333333333334 "-39"]
    by simp_all
  show "withdrawnPercentage 2 3 = Fin (6666666666666666666666666666666666666666 / 10 ^ 40)"
    "Decimal_minus (Fin 10) (Decimal_mul (Fin 10) (withdrawnPercentage 2 3))
     = Fin (3333333333333333333333333333333333333334 / 10 ^ 39)"
    by (simp_all add: withdrawnPercentage_def Decimal_div_def Decimal_of_BN_def Decimal_mul_def
        Decimal_minus_def a r)
qed

section \<open>Evaluating the sample data\<close>

lemmas sample_defs = sampleTokenMap_def samplePool_def samplePriceMap_def sampleEvent_def
  sampleSol_def sampleTokenA_def sampleTokenB_def sampleOpen_def sampleIncrease_def
  sampleDecrease_def sampleFullDecrease_def sampleSameTimeDecrease_def
  sampleOverDecrease_def sampleClose_def sampleSmallIncrease_def sampleFineIncrease_def
  sampleFineDecrease_def sampleThreeIncrease_def sampleFinePriceMap_def samplePoolMap_def

lemmas ledger_defs = loopBody_def finish_def initialState_def NATIVE_MINT_def priceKey_def
  convertToUiAmount_def withdrawnPercentage_def Decimal_of_BN_def Decimal_sum_def
  Decimal_plus_def Decimal_minus_def Decimal_mul_def Decimal_div_def Decimal_max_def
  Decimal_lt_def Decimal_neg_def Let_def

lemma round_sd_sample:
  "round_sd 10 = 10" "round_sd (22 / 5) = 22 / 5" "round_sd 4 = 4" "round_sd (2 / 5) = 2 / 5"
  "round_sd 6 = 6" "round_sd (1 / 10000) = 1 / 10000" "round_sd (1 / 200000) = 1 / 200000"
  "round_sd (11 / 10) = 11 / 10" "round_sd 2 = 2" "round_sd 20 = 20" "round_sd (- 10) = - 10"
  "round_sd 11 = 11" "round_sd (36 / 5) = 36 / 5" "round_sd (58 / 5) = 58 / 5"
  "round_sd (1 / 5000) = 1 / 5000" "round_sd (- 12) = - 12" "round_sd 22 = 22"
  using round_sd_representable[of 10 0] round_sd_representable[of 44 "-1"]
    round_sd_representable[of 4 0] round_sd_representable[of 4 "-1"]
    round_sd_representable[of 6 0] round_sd_representable[of 1 "-4"]
    round_sd_representable[of 5 "-6"] round_sd_representable[of 11 "-1"]
    round_sd_representable[of 2 0] round_sd_representable[of 20 0]
    round_sd_representable[of "-10" 0] round_sd_representable[of 11 0]
    round_sd_representable[of 72 "-1"] round_sd_representable[of 116 "-1"]
    round_sd_representable[of 2 "-4"] round_sd_representable[of "-12" 0]
    round_sd_representable[of 22 0]
  by simp_all

section \<open>The withdrawn fraction\<close>

text \<open>
  Claim C1, as far as the code goes. For a decrease of liquidity the withdrawn fraction is the
  liquidity taken out divided by the rolling total. It lies in the interval from zero
  (excluded) to one (included) whenever the liquidity taken out is positive and at most the
  rolling total. The pass has no check of the range: on every decrease, whatever the fraction,
  the switch succeeds and applies the fraction to both rolling balances.
\<close>

theorem withdrawn_fraction_not_checked:
  "(0 < liquidityOut' \<and> liquidityOut' \<le> totalLiquidity s \<longrightarrow>
      (\<exists>q. withdrawnPercentage liquidityOut' (totalLiquidity s) = Fin q \<and> 0 < q \<and> q \<le> 1)) \<and>
   (\<exists>s'. switchInstruction tokenMap priceMap solToken tokenA tokenB time solPrice tokenAPrice
            tokenBPrice s (DecreaseLiquidity w p liquidityOut' ma mb tokenAOut' tokenBOut') = Inr s' \<and>
      rollingTokenAAmount s' = Decimal_minus (rollingTokenAAmount s)
        (Decimal_mul (rollingTokenAAmount s) (withdrawnPercentage liquidityOut' (totalLiquidity s))) \<and>
      rollingTokenBAmount s' = Decimal_minus (rollingTokenBAmount s)
        (Decimal_mul (rollingTokenBAmount s) (withdrawnPercentage liquidityOut' (totalLiquidity s))) \<and>
      totalLiquidity s' = totalLiquidity s - liquidityOut')"
  using withdrawnPercentage_range[of liquidityOut' "totalLiquidity s"] by (simp add: Let_def)

text \<open>
  The theorem at a withdrawal of 40 out of a rolling total of 100, and at a withdrawal of 2 out
  of 3 from a balance of 10 token A, where the fraction and the new balance are cut after 40
  digits.
\<close>

theorem withdrawn_fraction_not_checked_witness:
  "(0 < (40::int) \<and> 40 \<le> totalLiquidity (initialState\<lparr>totalLiquidity := 100\<rparr>)) \<and>
   (\<exists>q. withdrawnPercentage 40 100 = Fin q \<and> 0 < q \<and> q \<le> 1) \<and>
   (0 < (2::int) \<and>
    2 \<le> totalLiquidity (initialState\<lparr>rollingTokenAAmount := Fin 10, totalLiquidity := 3\<rparr>)) \<and>
   withdrawnPercentage 2 3 = Fin (6666666666666666666666666666666666666666 / 10 ^ 40) \<and>
   (\<exists>s'. switchInstruction sampleTokenMap samplePriceMap sampleSol sampleTokenA sampleTokenB
            1700003600 (Fin 20) (Fin (11 / 10)) (Fin 2)
            (initialState\<lparr>rollingTokenAAmount := Fin 10, totalLiquidity := 3\<rparr>)
            (DecreaseLiquidity ''pool'' ''position'' 2 ''mintA'' ''mintB'' 6000000 0) = Inr s' \<and>
         rollingTokenAAmount s' = Fin (3333333333333333333333333333333333333334 / 10 ^ 39) \<and>
         totalLiquidity s' = 1)"
proof -
  have b: "withdrawnPercentage 2 3 = Fin (6666666666666666666666666666666666666666 / 10 ^ 40)"
    "Decimal_minus (Fin 10) (Decimal_mul (Fin 10) (withdrawnPercentage 2 3))
     = Fin (3333333333333333333333333333333333333334 / 10 ^ 39)"
    by (rule withdrawnPercentage_two_of_three)+
  have i: "rollingTokenAAmount (initialState\<lparr>rollingTokenAAmount := Fin 10, totalLiquidity := 3\<rparr>) = Fin 10"
    "totalLiquidity (initialState\<lparr>rollingTokenAAmount := Fin 10, totalLiquidity := 3\<rparr>) = 3"
    by simp_all
  note t1 = withdrawn_fraction_not_checked[where liquidityOut' = 40
      and s = "initialState\<lparr>totalLiquidity := 100\<rparr>"]
  note t2 = withdrawn_fraction_not_checked[where liquidityOut' = 2
      and s = "initialState\<lparr>rollingTokenAAmount := Fin 10, totalLiquidity := 3\<rparr>"
      and tokenMap = sampleTokenMap and priceMap = samplePriceMap and solToken = sampleSol
      and tokenA = sampleTokenA and tokenB = sampleTokenB and time = 1700003600
      and solPrice = "Fin 20" and tokenAPrice = "Fin (11 / 10)" and tokenBPrice = "Fin 2"
      and w = "''pool''" and p = "''position''" and ma = "''mintA''" and mb = "''mintB''"
      and tokenAOut' = 6000000 and tokenBOut' = 0]
  have a1: "\<exists>q. withdrawnPercentage 40 100 = Fin q \<and> 0 < q \<and> q \<le> 1" using t1 by simp
  have a2: "\<exists>s'. switchInstruction sampleTokenMap samplePriceMap sampleSol sampleTokenA sampleTokenB
            1700003600 (Fin 20) (Fin (11 / 10)) (Fin 2)
            (initialState\<lparr>rollingTokenAAmount := Fin 10, totalLiquidity := 3\<rparr>)
            (DecreaseLiquidity ''pool'' ''position'' 2 ''mintA'' ''mintB'' 6000000 0) = Inr s' \<and>
         rollingTokenAAmount s' = Fin (3333333333333333333333333333333333333334 / 10 ^ 39) \<and>
         totalLiquidity s' = 1"
  proof -
    from t2 obtain s' where s': "switchInstruction sampleTokenMap samplePriceMap sampleSol
            sampleTokenA sampleTokenB 1700003600 (Fin 20) (Fin (11 / 10)) (Fin 2)
            (initialState\<lparr>rollingTokenAAmount := Fin 10, totalLiquidity := 3\<rparr>)
            (DecreaseLiquidity ''pool'' ''position'' 2 ''mintA'' ''mintB'' 6000000 0) = Inr s'"
      "rollingTokenAAmount s' =
         Decimal_minus (rollingTokenAAmount (initialState\<lparr>rollingTokenAAmount := Fin 10, totalLiquidity := 3\<rparr>))
           (Decimal_mul (rollingTokenAAmount (initialState\<lparr>rollingTokenAAmount := Fin 10, totalLiquidity := 3\<rparr>))
              (withdrawnPercentage 2 (totalLiquidity (initialState\<lparr>rollingTokenAAmount := Fin 10, totalLiquidity := 3\<rparr>))))"
      "totalLiquidity s' = totalLiquidity (initialState\<lparr>rollingTokenAAmount := Fin 10, totalLiquidity := 3\<rparr>) - 2"
      by blast
    have "rollingTokenAAmount s' = Fin (3333333333333333333333333333333333333334 / 10 ^ 39)"
      using s'(2) unfolding i by (simp only: b(2))
    moreover have "totalLiquidity s' = 1" using s'(3) unfolding i by simp
    ultimately show ?thesis using s'(1) by blast
  qed
  have h1: "0 < (40::int) \<and> 40 \<le> totalLiquidity (initialState\<lparr>totalLiquidity := 100\<rparr>)"
    by simp
  have h2: "0 < (2::int) \<and>
    2 \<le> totalLiquidity (initialState\<lparr>rollingTokenAAmount := Fin 10, totalLiquidity := 3\<rparr>)"
    by simp
  show ?thesis
    apply (intro conjI)
    apply (rule h1[THEN conjunct1] h1[THEN conjunct2] h2[THEN conjunct1] h2[THEN conjunct2] a1 a2 b(1))+
    done
qed

text \<open>
  Claim C1 as stated fails: after a deposit of liquidity 100, a decrease of liquidity 200 has
  the fraction 2, and the pass goes on and returns its totals; the rolling balance of token A
  becomes negative.
\<close>

theorem over_withdrawal_counterexample:
  "withdrawnPercentage 200 100 = Fin 2 \<and>
   loop sampleTokenMap samplePriceMap sampleSol sampleTokenA sampleTokenB initialState
     [sampleIncrease]
     = Inr \<lparr>depositedValue = Fin 10, withdrawnValue = Fin 0, forgoneValue = Fin 0,
            positionSize = Fin 10, collectedFeesValue = Fin 0, collectedRewardsValue = Fin 0,
            paidRent = Fin 0, transactionCost = Fin 0,
            rollingTokenAAmount = Fin 10, rollingTokenBAmount = Fin 0, totalLiquidity = 100,
            transactionCosts = [(''sig1'', Fin (1 / 10000))]\<rparr> \<and>
   loop sampleTokenMap samplePriceMap sampleSol sampleTokenA sampleTokenB initialState
     [sampleIncrease, sampleOverDecrease]
     = Inr \<lparr>depositedValue = Fin 10, withdrawnValue = Fin (22 / 5), forgoneValue = Fin 22,
            positionSize = Fin 10, collectedFeesValue = Fin 0, collectedRewardsValue = Fin 0,
            paidRent = Fin 0, transactionCost = Fin 0,
            rollingTokenAAmount = Fin (- 10), rollingTokenBAmount = Fin 0,
            totalLiquidity = - 100,
            transactionCosts = [(''sig1'', Fin (1 / 10000)), (''sig2'', Fin (1 / 10000))]\<rparr> \<and>
   analyzeInstructions [sampleIncrease, sampleOverDecrease]
     samplePool sampleTokenMap samplePriceMap
     = ([sampleIncrease, sampleOverDecrease],
        Inr \<lparr>depositedValue = Fin 10, withdrawnValue = Fin (22 / 5), forgoneValue = Fin 10,
               positionSize = Fin 10, collectedFeesValue = Fin 0, collectedRewardsValue = Fin 0,
               paidRent = Fin 0, transactionCost = Fin (1 / 5000)\<rparr>)"
  by (simp add: analyzeInstructions_def sample_defs ledger_defs round_sd_sample round_sd_zero)

section \<open>A deposit followed by a full withdrawal\<close>

text \<open>
  Claim C3, as far as the code goes. For a deposit followed by a withdrawal of the same,
  positive liquidity and nothing else, both rolling balances are zero after the loop, and the
  forgone value before the adjustment for remaining balances is the deposited amounts valued at
  the prices of the withdrawal's block time. The deposited value is the same amounts valued at
  the prices of the deposit's block time; the two agree when the prices agree.
\<close>

theorem full_withdrawal_conservation:
  assumes L: "0 < L" and t: "blockTime inc \<le> blockTime dec"
    and inc: "decoded inc = IncreaseLiquidity w p L ma mb xA xB"
    and dec: "decoded dec = DecreaseLiquidity w' p' L ma' mb' outA outB"
    and p1: "priceMap (priceKey NATIVE_MINT (blockTime inc)) = Some sol1"
            "priceMap (priceKey (mint tokenA) (blockTime inc)) = Some pA1"
            "priceMap (priceKey (mint tokenB) (blockTime inc)) = Some pB1"
    and p2: "priceMap (priceKey NATIVE_MINT (blockTime dec)) = Some sol2"
            "priceMap (priceKey (mint tokenA) (blockTime dec)) = Some pA2"
            "priceMap (priceKey (mint tokenB) (blockTime dec)) = Some pB2"
  shows "\<exists>s. loop tokenMap priceMap solToken tokenA tokenB initialState
               (sort_key blockTime [inc, dec]) = Inr s \<and>
           rollingTokenAAmount s = Fin 0 \<and> rollingTokenBAmount s = Fin 0 \<and>
           depositedValue s =
             Decimal_plus (Decimal_mul (convertToUiAmount xA (decimals tokenA)) pA1)
                          (Decimal_mul (convertToUiAmount xB (decimals tokenB)) pB1) \<and>
           forgoneValue s =
             Decimal_plus (Decimal_mul (convertToUiAmount xA (decimals tokenA)) pA2)
                          (Decimal_mul (convertToUiAmount xB (decimals tokenB)) pB2) \<and>
           (pA1 = pA2 \<and> pB1 = pB2 \<longrightarrow> forgoneValue s = depositedValue s)"
proof -
  obtain a where a: "convertToUiAmount xA (decimals tokenA) = Fin a" "round_sd a = a"
    using convertToUiAmount_Fin round_sd_idem by blast
  obtain b where b: "convertToUiAmount xB (decimals tokenB) = Fin b" "round_sd b = b"
    using convertToUiAmount_Fin round_sd_idem by blast
  have s: "sort_key blockTime [inc, dec] = [inc, dec]" using t by simp
  have z: "\<And>x y. Decimal_plus (Fin 0) (Decimal_mul x y) = Decimal_mul x y"
          "\<And>x y. Decimal_plus (Fin 0) (Decimal_plus x y) = Decimal_plus x y"
    by (simp_all add: plus_zero_rounded rounded_mul rounded_plus)
  have pa: "Decimal_plus (Fin 0) (Fin a) = Fin a" "Decimal_plus (Fin 0) (Fin b) = Fin b"
    using a(2) b(2) by (simp_all add: Decimal_plus_def)
  have m1: "Decimal_mul (Fin a) (Fin 1) = Fin a" "Decimal_mul (Fin b) (Fin 1) = Fin b"
    using a(2) b(2) by (simp_all add: Decimal_mul_def)
  show ?thesis
    unfolding s
    by (simp add: loopBody_def inc dec p1 p2 Let_def initialState_def a(1) b(1) pa m1 z
        withdrawnPercentage_full[OF L] minus_self_Fin Decimal_sum_def)
qed

text \<open>
  The theorem at the sample deposit and the withdrawal of all its liquidity at the same block
  time, where the prices agree: the forgone value is the deposited value, 10. And at the
  deposit of 9.999999 token A at a price of 0.100000010000001 with its full withdrawal: both
  values are the product with all its 21 digits.
\<close>

theorem full_withdrawal_conservation_witness:
  "((0::int) < 100 \<and> blockTime sampleIncrease \<le> blockTime sampleSameTimeDecrease \<and>
   (\<exists>s. loop sampleTokenMap samplePriceMap sampleSol sampleTokenA sampleTokenB initialState
           (sort_key blockTime [sampleIncrease, sampleSameTimeDecrease]) = Inr s \<and>
        rollingTokenAAmount s = Fin 0 \<and> rollingTokenBAmount s = Fin 0 \<and>
        depositedValue s = Fin 10 \<and> forgoneValue s = Fin 10 \<and>
        forgoneValue s = depositedValue s)) \<and>
   ((0::int) < 100 \<and> blockTime sampleFineIncrease \<le> blockTime sampleFineDecrease \<and>
   (\<exists>s. loop sampleTokenMap sampleFinePriceMap sampleSol sampleTokenA sampleTokenB initialState
           (sort_key blockTime [sampleFineIncrease, sampleFineDecrease]) = Inr s \<and>
        rollingTokenAAmount s = Fin 0 \<and> rollingTokenBAmount s = Fin 0 \<and>
        depositedValue s = Fin (999999999999999999999 / 10 ^ 21) \<and>
        forgoneValue s = Fin (999999999999999999999 / 10 ^ 21) \<and>
        forgoneValue s = depositedValue s))"
proof (rule conjI)
  show "(0::int) < 100 \<and> blockTime sampleIncrease \<le> blockTime sampleSameTimeDecrease \<and>
   (\<exists>s. loop sampleTokenMap samplePriceMap sampleSol sampleTokenA sampleTokenB initialState
           (sort_key blockTime [sampleIncrease, sampleSameTimeDecrease]) = Inr s \<and>
        rollingTokenAAmount s = Fin 0 \<and> rollingTokenBAmount s = Fin 0 \<and>
        depositedValue s = Fin 10 \<and> forgoneValue s = Fin 10 \<and>
        forgoneValue s = depositedValue s)"
  proof -
    have t: "blockTime sampleIncrease \<le> blockTime sampleSameTimeDecrease"
      by (simp add: sample_defs)
    have i: "decoded sampleIncrease =
             IncreaseLiquidity ''pool'' ''position'' 100 ''mintA'' ''mintB'' 10000000 0"
      and d: "decoded sampleSameTimeDecrease =
              DecreaseLiquidity ''pool'' ''position'' 100 ''mintA'' ''mintB'' 10000000 0"
      by (simp_all add: sample_defs)
    have p1: "samplePriceMap (priceKey NATIVE_MINT (blockTime sampleIncrease)) = Some (Fin 20)"
      "samplePriceMap (priceKey (mint sampleTokenA) (blockTime sampleIncrease)) = Some (Fin 1)"
      "samplePriceMap (priceKey (mint sampleTokenB) (blockTime sampleIncrease)) = Some (Fin 2)"
      by (simp_all add: sample_defs priceKey_def NATIVE_MINT_def)
    have p2:
      "samplePriceMap (priceKey NATIVE_MINT (blockTime sampleSameTimeDecrease)) = Some (Fin 20)"
      "samplePriceMap (priceKey (mint sampleTokenA) (blockTime sampleSameTimeDecrease))
         = Some (Fin 1)"
      "samplePriceMap (priceKey (mint sampleTokenB) (blockTime sampleSameTimeDecrease))
         = Some (Fin 2)"
      by (simp_all add: sample_defs priceKey_def NATIVE_MINT_def)
    have dec: "decimals sampleTokenA = 6" "decimals sampleTokenB = 6" by (simp_all add: sample_defs)
    have v: "Decimal_plus (Decimal_mul (convertToUiAmount 10000000 6) (Fin 1))
                          (Decimal_mul (convertToUiAmount 0 6) (Fin 2)) = Fin 10"
      by (simp add: ledger_defs round_sd_sample round_sd_zero)
    from full_withdrawal_conservation[OF _ t i d p1 p2, of sampleTokenMap sampleSol] t
    show ?thesis unfolding dec v by simp
  qed
next
  show "(0::int) < 100 \<and> blockTime sampleFineIncrease \<le> blockTime sampleFineDecrease \<and>
   (\<exists>s. loop sampleTokenMap sampleFinePriceMap sampleSol sampleTokenA sampleTokenB initialState
           (sort_key blockTime [sampleFineIncrease, sampleFineDecrease]) = Inr s \<and>
        rollingTokenAAmount s = Fin 0 \<and> rollingTokenBAmount s = Fin 0 \<and>
        depositedValue s = Fin (999999999999999999999 / 10 ^ 21) \<and>
        forgoneValue s = Fin (999999999999999999999 / 10 ^ 21) \<and>
        forgoneValue s = depositedValue s)"
  proof -
    have t: "blockTime sampleFineIncrease \<le> blockTime sampleFineDecrease"
      by (simp add: sample_defs)
    have i: "decoded sampleFineIncrease =
             IncreaseLiquidity ''pool'' ''position'' 100 ''mintA'' ''mintB'' 9999999 0"
      and d: "decoded sampleFineDecrease =
              DecreaseLiquidity ''pool'' ''position'' 100 ''mintA'' ''mintB'' 9999999 0"
      by (simp_all add: sample_defs)
    have p1: "sampleFinePriceMap (priceKey NATIVE_MINT (blockTime sampleFineIncrease)) = Some (Fin 20)"
      "sampleFinePriceMap (priceKey (mint sampleTokenA) (blockTime sampleFineIncrease))
         = Some (Fin (100000010000001 / 10 ^ 15))"
      "sampleFinePriceMap (priceKey (mint sampleTokenB) (blockTime sampleFineIncrease)) = Some (Fin 2)"
      by (simp_all add: sample_defs priceKey_def NATIVE_MINT_def)
    have p2:
      "sampleFinePriceMap (priceKey NATIVE_MINT (blockTime sampleFineDecrease)) = Some (Fin 20)"
      "sampleFinePriceMap (priceKey (mint sampleTokenA) (blockTime sampleFineDecrease))
         = Some (Fin (100000010000001 / 10 ^ 15))"
      "sampleFinePriceMap (priceKey (mint sampleTokenB) (blockTime sampleFineDecrease))
         = Some (Fin 2)"
      by (simp_all add: sample_defs priceKey_def NATIVE_MINT_def)
    have dec: "decimals sampleTokenA = 6" "decimals sampleTokenB = 6" by (simp_all add: sample_defs)
    have r: "round_sd (9999999 / 1000000) = 9999999 / 1000000"
      "round_sd (999999999999999999999 / 1000000000000000000000)
         = 999999999999999999999 / 1000000000000000000000"
      using round_sd_representable[of 9999999 "-6"]
        round_sd_representable[of 999999999999999999999 "-21"]
      by simp_all
    have v: "Decimal_plus
               (Decimal_mul (convertToUiAmount 9999999 6) (Fin (100000010000001 / 10 ^ 15)))
               (Decimal_mul (convertToUiAmount 0 6) (Fin 2))
             = Fin (999999999999999999999 / 10 ^ 21)"
      by (simp add: ledger_defs round_sd_sample round_sd_zero r)
    from full_withdrawal_conservation[OF _ t i d p1 p2, of sampleTokenMap sampleSol] t
    show ?thesis unfolding dec v by simp
  qed
qed

text \<open>
  Claim C3 as stated fails when the price moves between the two events: the deposit of 10
  token A is worth 10 at the deposit, and its full withdrawal an hour later, at a price of
  1.10, makes the forgone value 11.
\<close>

theorem full_withdrawal_counterexample:
  "loop sampleTokenMap samplePriceMap sampleSol sampleTokenA sampleTokenB initialState
     (sort_key blockTime [sampleIncrease, sampleFullDecrease])
     = Inr \<lparr>depositedValue = Fin 10, withdrawnValue = Fin 11, forgoneValue = Fin 11,
            positionSize = Fin 10, collectedFeesValue = Fin 0, collectedRewardsValue = Fin 0,
            paidRent = Fin 0, transactionCost = Fin 0,
            rollingTokenAAmount = Fin 0, rollingTokenBAmount = Fin 0, totalLiquidity = 0,
            transactionCosts = [(''sig1'', Fin (1 / 10000)), (''sig2'', Fin (1 / 10000))]\<rparr> \<and>
   Fin 11 \<noteq> Fin 10"
  by (simp add: sample_defs ledger_defs round_sd_sample round_sd_zero round_sd_one)

section \<open>The partial-withdrawal scenario\<close>

text \<open>
  Claim C4. A deposit of liquidity 100 with 10 token A at a price of 1 and no token B, then a
  withdrawal of liquidity 40 with 4 token A at a price of 1.10: the deposited value is 10, the
  withdrawn value 4.40, the forgone value is zero after the deposit and 4 times 1.10 after the
  withdrawal, and the rolling balance of token A is then 6. The pass returns these totals,
  with the forgone value increased by the remaining 6 token A at the current price of 1.20.
\<close>

theorem scenario_partial_withdrawal:
  "loopBody sampleTokenMap samplePriceMap sampleSol sampleTokenA sampleTokenB initialState
     sampleIncrease
     = Inr \<lparr>depositedValue = Fin 10, withdrawnValue = Fin 0, forgoneValue = Fin 0,
            positionSize = Fin 10, collectedFeesValue = Fin 0, collectedRewardsValue = Fin 0,
            paidRent = Fin 0, transactionCost = Fin 0,
            rollingTokenAAmount = Fin 10, rollingTokenBAmount = Fin 0, totalLiquidity = 100,
            transactionCosts = [(''sig1'', Fin (1 / 10000))]\<rparr> \<and>
   loop sampleTokenMap samplePriceMap sampleSol sampleTokenA sampleTokenB initialState
     (sort_key blockTime [sampleIncrease, sampleDecrease])
     = Inr \<lparr>depositedValue = Fin 10, withdrawnValue = Fin (44 / 10),
            forgoneValue = Fin (4 * (11 / 10)),
            positionSize = Fin 10, collectedFeesValue = Fin 0, collectedRewardsValue = Fin 0,
            paidRent = Fin 0, transactionCost = Fin 0,
            rollingTokenAAmount = Fin 6, rollingTokenBAmount = Fin 0, totalLiquidity = 60,
            transactionCosts = [(''sig1'', Fin (1 / 10000)), (''sig2'', Fin (1 / 10000))]\<rparr> \<and>
   analyzeInstructions [sampleIncrease, sampleDecrease] samplePool sampleTokenMap samplePriceMap
     = ([sampleIncrease, sampleDecrease],
        Inr \<lparr>depositedValue = Fin 10, withdrawnValue = Fin (44 / 10),
               forgoneValue = Fin (4 * (11 / 10) + 6 * (12 / 10)),
               positionSize = Fin 10, collectedFeesValue = Fin 0, collectedRewardsValue = Fin 0,
               paidRent = Fin 0, transactionCost = Fin (2 / 10000)\<rparr>)"
  by (simp add: analyzeInstructions_def sample_defs ledger_defs round_sd_sample round_sd_zero)

section \<open>The caller's list\<close>

text \<open>
  Claim C9, as far as the code goes. The pass sorts the caller's list in place: after the call
  the list is the stable sort by block time of what it was, so it holds the same instructions,
  ordered by block time, with instructions of equal block time in their former order; it is
  unchanged exactly when it was ordered by block time already.
\<close>

theorem analyzeInstructions_sorts_in_place:
  "fst (analyzeInstructions instructions whirlpoolData tokenMap priceMap)
     = sort_key blockTime instructions \<and>
   mset (fst (analyzeInstructions instructions whirlpoolData tokenMap priceMap))
     = mset instructions \<and>
   sorted (map blockTime (fst (analyzeInstructions instructions whirlpoolData tokenMap priceMap))) \<and>
   (\<forall>t. filter (\<lambda>i. blockTime i = t)
          (fst (analyzeInstructions instructions whirlpoolData tokenMap priceMap))
        = filter (\<lambda>i. blockTime i = t) instructions) \<and>
   (fst (analyzeInstructions instructions whirlpoolData tokenMap priceMap) = instructions
      \<longleftrightarrow> sorted (map blockTime instructions))"
proof -
  have f: "fst (analyzeInstructions instructions whirlpoolData tokenMap priceMap)
           = sort_key blockTime instructions"
    by (simp add: analyzeInstructions_def Let_def)
  have "sort_key blockTime instructions = instructions \<longleftrightarrow> sorted (map blockTime instructions)"
    by (metis sorted_sort_key sort_key_id_if_sorted)
  then show ?thesis unfolding f by (simp add: sort_key_stable)
qed

text \<open>The theorem at a list that is ordered by block time: the call leaves it as it is.\<close>

theorem analyzeInstructions_sorts_in_place_witness:
  "sorted (map blockTime [sampleIncrease, sampleDecrease]) \<and>
   fst (analyzeInstructions [sampleIncrease, sampleDecrease]
          samplePool sampleTokenMap samplePriceMap) = [sampleIncrease, sampleDecrease]"
proof -
  have s: "sorted (map blockTime [sampleIncrease, sampleDecrease])"
    by (simp add: sample_defs)
  with analyzeInstructions_sorts_in_place[of "[sampleIncrease, sampleDecrease]" samplePool
      sampleTokenMap samplePriceMap]
  show ?thesis by blast
qed

text \<open>
  Claim C9 as stated fails: a list holding the withdrawal before the earlier deposit comes back
  with the two exchanged.
\<close>

theorem in_place_sort_counterexample:
  "fst (analyzeInstructions [sampleDecrease, sampleIncrease]
          samplePool sampleTokenMap samplePriceMap) = [sampleIncrease, sampleDecrease] \<and>
   [sampleIncrease, sampleDecrease] \<noteq> [sampleDecrease, sampleIncrease]"
  by (simp add: analyzeInstructions_def sample_defs)

section \<open>The rent of a position\<close>

text \<open>
  The paid rent changes at the opening and at the closing of a position only. The loop over a
  list splits at any point into the loop over the first part and the loop over the rest.
\<close>

lemma loop_append_Inr:
  "loop tm pm sol A B s (xs @ ys) = Inr s'' \<longleftrightarrow>
   (\<exists>s'. loop tm pm sol A B s xs = Inr s' \<and> loop tm pm sol A B s' ys = Inr s'')"
  by (induction xs arbitrary: s) (auto split: sum.splits)

lemma loop_Cons_Inr:
  "loop tm pm sol A B s (x # xs) = Inr s'' \<longleftrightarrow>
   (\<exists>s'. loopBody tm pm sol A B s x = Inr s' \<and> loop tm pm sol A B s' xs = Inr s'')"
  by (auto split: sum.splits)

lemma loopBody_paidRent_other:
  assumes "loopBody tm pm sol A B s i = Inr s'" "\<not> isOpenPosition i" "\<not> isClosePosition i"
  shows "paidRent s' = paidRent s"
  using assms
  by (cases "decoded i")
     (auto simp: loopBody_def isOpenPosition_def isClosePosition_def Let_def split: option.splits)

lemma loop_paidRent_other:
  assumes "loop tm pm sol A B s xs = Inr s'" "\<forall>i\<in>set xs. \<not> isOpenPosition i \<and> \<not> isClosePosition i"
  shows "paidRent s' = paidRent s"
  using assms
proof (induction xs arbitrary: s)
  case Nil
  then show ?case by simp
next
  case (Cons x xs)
  from Cons.prems(1) obtain s1 where s1: "loopBody tm pm sol A B s x = Inr s1" "loop tm pm sol A B s1 xs = Inr s'"
    by (auto simp only: loop_Cons_Inr)
  have "paidRent s1 = paidRent s" using loopBody_paidRent_other[OF s1(1)] Cons.prems(2) by simp
  moreover have "paidRent s' = paidRent s1" using Cons.IH[OF s1(2)] Cons.prems(2) by simp
  ultimately show ?case by simp
qed

lemma loopBody_open:
  assumes "loopBody tm pm sol A B s i = Inr s'" "decoded i = OpenPosition w p m ow tickU tickL R"
    "pm (priceKey NATIVE_MINT (blockTime i)) = Some price"
  shows "paidRent s' = Decimal_plus (paidRent s) (Decimal_mul (convertToUiAmount R (decimals sol)) price)"
  using assms by (auto simp: loopBody_def Let_def split: option.splits)

lemma loopBody_close:
  assumes "loopBody tm pm sol A B s i = Inr s'" "decoded i = ClosePosition p R"
    "pm (priceKey NATIVE_MINT (blockTime i)) = Some price"
  shows "paidRent s' = Decimal_minus (paidRent s) (Decimal_mul (convertToUiAmount R (decimals sol)) price)"
  using assms by (auto simp: loopBody_def Let_def split: option.splits)

lemma rent_value_Fin:
  "\<exists>r. Decimal_mul (convertToUiAmount R d) (Fin price) = Fin r \<and> round_sd r = r"
  by (simp add: convertToUiAmount_Fin Decimal_mul_def round_sd_idem)

lemma rent_round_trip:
  assumes "round_sd r = r"
  shows "Decimal_minus (Decimal_plus (Fin 0) (Fin r)) (Fin r) = Fin 0"
    and "Decimal_plus (Decimal_minus (Fin 0) (Fin r)) (Fin r) = Fin 0"
  using assms by (simp_all add: Decimal_plus_def Decimal_minus_def round_sd_minus round_sd_zero)

lemma filter_single_split:
  assumes "filter P xs = [x]"
  obtains us vs where "xs = us @ x # vs" "\<forall>u\<in>set us. \<not> P u" "\<forall>v\<in>set vs. \<not> P v" "P x"
proof -
  from assms obtain us vs where "xs = us @ x # vs" "\<forall>u\<in>set us. \<not> P u" "P x" "[] = filter P vs"
    unfolding filter_eq_Cons_iff by blast
  moreover then have "\<forall>v\<in>set vs. \<not> P v" by (metis filter_empty_conv)
  ultimately show ?thesis using that by blast
qed

lemma open_not_close: "isOpenPosition i \<Longrightarrow> \<not> isClosePosition i"
  by (auto simp: isOpenPosition_def isClosePosition_def split: InstructionUnion.splits)

lemma paidRent_two_events:
  assumes run: "loop tm pm sol A B s0 (us @ e1 # ms @ e2 # vs) = Inr s"
    and s0: "paidRent s0 = Fin 0"
    and quiet: "\<forall>i\<in>set us \<union> set ms \<union> set vs. \<not> isOpenPosition i \<and> \<not> isClosePosition i"
    and ev: "(decoded e1 = OpenPosition w p m ow tickU tickL R \<and> decoded e2 = ClosePosition p' R) \<or>
             (decoded e1 = ClosePosition p' R \<and> decoded e2 = OpenPosition w p m ow tickU tickL R)"
    and pr: "pm (priceKey NATIVE_MINT (blockTime e1)) = Some (Fin price)"
            "pm (priceKey NATIVE_MINT (blockTime e2)) = Some (Fin price)"
  shows "paidRent s = Fin 0"
proof -
  from run obtain s1 s2 s3 s4 where
    a: "loop tm pm sol A B s0 us = Inr s1" and b: "loopBody tm pm sol A B s1 e1 = Inr s2" and
    c: "loop tm pm sol A B s2 ms = Inr s3" and d: "loopBody tm pm sol A B s3 e2 = Inr s4" and
    e: "loop tm pm sol A B s4 vs = Inr s"
    by (auto simp only: loop_append_Inr loop_Cons_Inr)
  obtain r where r: "Decimal_mul (convertToUiAmount R (decimals sol)) (Fin price) = Fin r" "round_sd r = r"
    using rent_value_Fin by blast
  have p1: "paidRent s1 = Fin 0" using loop_paidRent_other[OF a] quiet s0 by simp
  have p3: "paidRent s3 = paidRent s2" using loop_paidRent_other[OF c] quiet by simp
  have p5: "paidRent s = paidRent s4" using loop_paidRent_other[OF e] quiet by simp
  from ev show ?thesis
  proof
    assume h: "decoded e1 = OpenPosition w p m ow tickU tickL R \<and> decoded e2 = ClosePosition p' R"
    have "paidRent s2 = Decimal_plus (Fin 0) (Fin r)"
      using loopBody_open[OF b _ pr(1)] h p1 r(1) by simp
    moreover have "paidRent s4 = Decimal_minus (paidRent s3) (Fin r)"
      using loopBody_close[OF d _ pr(2)] h r(1) by simp
    ultimately show ?thesis using p3 p5 rent_round_trip(1)[OF r(2)] by simp
  next
    assume h: "decoded e1 = ClosePosition p' R \<and> decoded e2 = OpenPosition w p m ow tickU tickL R"
    have "paidRent s2 = Decimal_minus (Fin 0) (Fin r)"
      using loopBody_close[OF b _ pr(1)] h p1 r(1) by simp
    moreover have "paidRent s4 = Decimal_plus (paidRent s3) (Fin r)"
      using loopBody_open[OF d _ pr(2)] h r(1) by simp
    ultimately show ?thesis using p3 p5 rent_round_trip(2)[OF r(2)] by simp
  qed
qed

lemma finish_paidRent: "finish pm A B s = Inr a \<Longrightarrow> paidRent a = paidRent s"
  by (auto simp: finish_def Let_def split: option.splits)

lemma analyzeInstructions_Inr:
  assumes "snd (analyzeInstructions xs wd tm pm) = Inr a"
  obtains sol A B s where "tm NATIVE_MINT = Some sol" "tm (tokenMintA wd) = Some A"
    "tm (tokenMintB wd) = Some B"
    "loop tm pm sol A B initialState (sort_key blockTime xs) = Inr s" "finish pm A B s = Inr a"
  using assms by (auto simp: analyzeInstructions_def Let_def split: option.splits sum.splits)

lemma paidRent_one_open_one_close:
  assumes run: "loop tm pm sol A B s0 xs = Inr s" and s0: "paidRent s0 = Fin 0"
    and op: "filter isOpenPosition xs = [openI]" "decoded openI = OpenPosition w p m ow tickU tickL R"
    and cl: "filter isClosePosition xs = [closeI]" "decoded closeI = ClosePosition p' R"
    and pr: "pm (priceKey NATIVE_MINT (blockTime openI)) = Some (Fin price)"
            "pm (priceKey NATIVE_MINT (blockTime closeI)) = Some (Fin price)"
  shows "paidRent s = Fin 0"
proof -
  from op(1) obtain us vs where xs: "xs = us @ openI # vs"
    and us: "\<forall>u\<in>set us. \<not> isOpenPosition u" and vs: "\<forall>v\<in>set vs. \<not> isOpenPosition v"
    and o: "isOpenPosition openI"
    by (rule filter_single_split)
  have oc: "\<not> isClosePosition openI" using o by (rule open_not_close)
  have co: "\<not> isOpenPosition closeI" using cl(2) by (simp add: isOpenPosition_def)
  have "filter isClosePosition us @ filter isClosePosition vs = [closeI]"
    using cl(1) oc by (simp add: xs)
  then consider (after) "filter isClosePosition us = []" "filter isClosePosition vs = [closeI]"
    | (before) "filter isClosePosition us = [closeI]" "filter isClosePosition vs = []"
    by (auto simp: append_eq_Cons_conv)
  then show ?thesis
  proof cases
    case after
    from after(2) obtain ms ws where v: "vs = ms @ closeI # ws"
      and ms: "\<forall>u\<in>set ms. \<not> isClosePosition u" and ws: "\<forall>v\<in>set ws. \<not> isClosePosition v"
      by (rule filter_single_split)
    have usc: "\<forall>u\<in>set us. \<not> isClosePosition u" using after(1) by (simp add: filter_empty_conv)
    have q: "\<forall>i\<in>set us \<union> set ms \<union> set ws. \<not> isOpenPosition i \<and> \<not> isClosePosition i"
      using us vs usc ms ws v by auto
    have r: "loop tm pm sol A B s0 (us @ openI # ms @ closeI # ws) = Inr s"
      using run by (simp add: xs v)
    show ?thesis
      by (rule paidRent_two_events[OF r s0 q _ pr]) (simp add: op(2) cl(2))
  next
    case before
    from before(1) obtain us1 ms where u: "us = us1 @ closeI # ms"
      and us1: "\<forall>u\<in>set us1. \<not> isClosePosition u" and ms: "\<forall>v\<in>set ms. \<not> isClosePosition v"
      by (rule filter_single_split)
    have vsc: "\<forall>u\<in>set vs. \<not> isClosePosition u" using before(2) by (simp add: filter_empty_conv)
    have q: "\<forall>i\<in>set us1 \<union> set ms \<union> set vs. \<not> isOpenPosition i \<and> \<not> isClosePosition i"
      using us vs vsc us1 ms u by auto
    have r: "loop tm pm sol A B s0 (us1 @ closeI # ms @ openI # vs) = Inr s"
      using run by (simp add: xs u)
    show ?thesis
      by (rule paidRent_two_events[OF r s0 q _ pr(2) pr(1)]) (simp add: op(2) cl(2))
  qed
qed

text \<open>
  Claim C5. When the list holds one opening with rent fee \<open>R\<close> and one closing with reclaimed
  rent \<open>R\<close>, the price of the native token is the same finite number at the block times of
  the two, and the pass returns totals, then the paid rent of these totals is exactly zero, and
  in the run of the pass over the sorted list the step of the opening adds the value of \<open>R\<close>
  (its amount in the native token times the price) to the paid rent and the step of the closing
  subtracts the same value from it.
\<close>

theorem rent_lifecycle_nets_to_zero:
  assumes run: "snd (analyzeInstructions instructions whirlpoolData tokenMap priceMap) = Inr a"
    and op: "filter isOpenPosition instructions = [openI]"
            "decoded openI = OpenPosition w p m ow tickU tickL R"
    and cl: "filter isClosePosition instructions = [closeI]"
            "decoded closeI = ClosePosition p' R"
    and pr: "priceMap (priceKey NATIVE_MINT (blockTime openI)) = Some (Fin price)"
            "priceMap (priceKey NATIVE_MINT (blockTime closeI)) = Some (Fin price)"
  shows "paidRent a = Fin 0 \<and>
    (\<exists>solToken tokenA tokenB.
       tokenMap NATIVE_MINT = Some solToken \<and>
       tokenMap (tokenMintA whirlpoolData) = Some tokenA \<and>
       tokenMap (tokenMintB whirlpoolData) = Some tokenB \<and>
       (\<exists>pre post s1 s2.
          sort_key blockTime instructions = pre @ openI # post \<and>
          loop tokenMap priceMap solToken tokenA tokenB initialState pre = Inr s1 \<and>
          loopBody tokenMap priceMap solToken tokenA tokenB s1 openI = Inr s2 \<and>
          paidRent s2 = Decimal_plus (paidRent s1)
            (Decimal_mul (convertToUiAmount R (decimals solToken)) (Fin price))) \<and>
       (\<exists>pre post s1 s2.
          sort_key blockTime instructions = pre @ closeI # post \<and>
          loop tokenMap priceMap solToken tokenA tokenB initialState pre = Inr s1 \<and>
          loopBody tokenMap priceMap solToken tokenA tokenB s1 closeI = Inr s2 \<and>
          paidRent s2 = Decimal_minus (paidRent s1)
            (Decimal_mul (convertToUiAmount R (decimals solToken)) (Fin price))))"
proof -
  from run obtain sol A B s where
    tm: "tokenMap NATIVE_MINT = Some sol" "tokenMap (tokenMintA whirlpoolData) = Some A"
        "tokenMap (tokenMintB whirlpoolData) = Some B"
    and l: "loop tokenMap priceMap sol A B initialState (sort_key blockTime instructions) = Inr s"
    and f: "finish priceMap A B s = Inr a"
    by (rule analyzeInstructions_Inr)
  have o: "filter isOpenPosition (sort_key blockTime instructions) = [openI]"
    by (simp add: filter_sort op(1))
  have c: "filter isClosePosition (sort_key blockTime instructions) = [closeI]"
    by (simp add: filter_sort cl(1))
  have "paidRent s = Fin 0"
    by (rule paidRent_one_open_one_close[OF l _ o op(2) c cl(2) pr]) (simp add: initialState_def)
  then have zero: "paidRent a = Fin 0" using finish_paidRent[OF f] by simp
  from o obtain us vs where so: "sort_key blockTime instructions = us @ openI # vs"
    by (rule filter_single_split)
  from l obtain s1 s2 where o1: "loop tokenMap priceMap sol A B initialState us = Inr s1"
    and o2: "loopBody tokenMap priceMap sol A B s1 openI = Inr s2"
    unfolding so by (auto simp only: loop_append_Inr loop_Cons_Inr)
  note o3 = loopBody_open[OF o2 op(2) pr(1)]
  from c obtain us' vs' where sc: "sort_key blockTime instructions = us' @ closeI # vs'"
    by (rule filter_single_split)
  from l obtain t1 t2 where c1: "loop tokenMap priceMap sol A B initialState us' = Inr t1"
    and c2: "loopBody tokenMap priceMap sol A B t1 closeI = Inr t2"
    unfolding sc by (auto simp only: loop_append_Inr loop_Cons_Inr)
  note c3 = loopBody_close[OF c2 cl(2) pr(2)]
  show ?thesis using zero tm so o1 o2 o3 sc c1 c2 c3 by blast
qed

text \<open>
  The theorem at the sample position: opened, funded, partly withdrawn and closed, with the
  native token at a price of 20 throughout. The rent of 4433520 lamports is worth 0.0886704:
  the paid rent has this value from the opening until the closing, and is zero after it.
\<close>

theorem rent_lifecycle_nets_to_zero_witness:
  "filter isOpenPosition [sampleOpen, sampleIncrease, sampleDecrease, sampleClose] = [sampleOpen] \<and>
   filter isClosePosition [sampleOpen, sampleIncrease, sampleDecrease, sampleClose] = [sampleClose] \<and>
   samplePriceMap (priceKey NATIVE_MINT (blockTime sampleOpen)) = Some (Fin 20) \<and>
   samplePriceMap (priceKey NATIVE_MINT (blockTime sampleClose)) = Some (Fin 20) \<and>
   snd (analyzeInstructions [sampleOpen, sampleIncrease, sampleDecrease, sampleClose]
          samplePool sampleTokenMap samplePriceMap)
     = Inr \<lparr>depositedValue = Fin 10, withdrawnValue = Fin (22 / 5), forgoneValue = Fin (58 / 5),
            positionSize = Fin 10, collectedFeesValue = Fin 0, collectedRewardsValue = Fin 0,
            paidRent = Fin 0, transactionCost = Fin (1 / 2500)\<rparr> \<and>
   Decimal_mul (convertToUiAmount 4433520 (decimals sampleSol)) (Fin 20) = Fin (55419 / 625000) \<and>
   (\<exists>s. loop sampleTokenMap samplePriceMap sampleSol sampleTokenA sampleTokenB initialState
           [sampleOpen] = Inr s \<and> paidRent s = Fin (55419 / 625000)) \<and>
   (\<exists>s. loop sampleTokenMap samplePriceMap sampleSol sampleTokenA sampleTokenB initialState
           [sampleOpen, sampleIncrease, sampleDecrease] = Inr s \<and>
        paidRent s = Fin (55419 / 625000)) \<and>
   (\<exists>s. loop sampleTokenMap samplePriceMap sampleSol sampleTokenA sampleTokenB initialState
           [sampleOpen, sampleIncrease, sampleDecrease, sampleClose] = Inr s \<and>
        paidRent s = Fin 0) \<and>
   (\<exists>pre post s1 s2.
      sort_key blockTime [sampleOpen, sampleIncrease, sampleDecrease, sampleClose]
        = pre @ sampleClose # post \<and>
      loop sampleTokenMap samplePriceMap sampleSol sampleTokenA sampleTokenB initialState pre
        = Inr s1 \<and>
      loopBody sampleTokenMap samplePriceMap sampleSol sampleTokenA sampleTokenB s1 sampleClose
        = Inr s2 \<and>
      paidRent s2 = Decimal_minus (paidRent s1) (Fin (55419 / 625000)))"
proof -
  have r: "round_sd (55419 / 12500000) = 55419 / 12500000"
    "round_sd (55419 / 625000) = 55419 / 625000" "round_sd (3 / 10000) = 3 / 10000"
    "round_sd (1 / 2500) = 1 / 2500"
    using round_sd_representable[of 443352 "-8"] round_sd_representable[of 886704 "-7"]
      round_sd_representable[of 3 "-4"] round_sd_representable[of 4 "-4"]
    by simp_all
  have o: "filter isOpenPosition [sampleOpen, sampleIncrease, sampleDecrease, sampleClose]
           = [sampleOpen]"
    and c: "filter isClosePosition [sampleOpen, sampleIncrease, sampleDecrease, sampleClose]
           = [sampleClose]"
    by (simp_all add: sample_defs isOpenPosition_def isClosePosition_def)
  have od: "decoded sampleOpen
            = OpenPosition ''pool'' ''position'' ''positionMint'' ''owner'' 0 64 4433520"
    and cd: "decoded sampleClose = ClosePosition ''position'' 4433520"
    by (simp_all add: sample_defs)
  have p: "samplePriceMap (priceKey NATIVE_MINT (blockTime sampleOpen)) = Some (Fin 20)"
    "samplePriceMap (priceKey NATIVE_MINT (blockTime sampleClose)) = Some (Fin 20)"
    by (simp_all add: sample_defs priceKey_def NATIVE_MINT_def)
  have run: "snd (analyzeInstructions [sampleOpen, sampleIncrease, sampleDecrease, sampleClose]
                    samplePool sampleTokenMap samplePriceMap)
     = Inr \<lparr>depositedValue = Fin 10, withdrawnValue = Fin (22 / 5), forgoneValue = Fin (58 / 5),
            positionSize = Fin 10, collectedFeesValue = Fin 0, collectedRewardsValue = Fin 0,
            paidRent = Fin 0, transactionCost = Fin (1 / 2500)\<rparr>"
    by (simp add: analyzeInstructions_def sample_defs ledger_defs round_sd_sample round_sd_zero r)
  have v: "Decimal_mul (convertToUiAmount 4433520 (decimals sampleSol)) (Fin 20)
           = Fin (55419 / 625000)"
    by (simp add: sample_defs ledger_defs r)
  have l1: "\<exists>s. loop sampleTokenMap samplePriceMap sampleSol sampleTokenA sampleTokenB initialState
           [sampleOpen] = Inr s \<and> paidRent s = Fin (55419 / 625000)"
    by (simp add: sample_defs ledger_defs round_sd_sample round_sd_zero r)
  have l3: "\<exists>s. loop sampleTokenMap samplePriceMap sampleSol sampleTokenA sampleTokenB initialState
           [sampleOpen, sampleIncrease, sampleDecrease] = Inr s \<and>
        paidRent s = Fin (55419 / 625000)"
    by (simp add: sample_defs ledger_defs round_sd_sample round_sd_zero r)
  have l4: "\<exists>s. loop sampleTokenMap samplePriceMap sampleSol sampleTokenA sampleTokenB initialState
           [sampleOpen, sampleIncrease, sampleDecrease, sampleClose] = Inr s \<and>
        paidRent s = Fin 0"
    by (simp add: sample_defs ledger_defs round_sd_sample round_sd_zero r)
  have tm: "sampleTokenMap NATIVE_MINT = Some sampleSol"
    "sampleTokenMap (tokenMintA samplePool) = Some sampleTokenA"
    "sampleTokenMap (tokenMintB samplePool) = Some sampleTokenB"
    by (simp_all add: sample_defs NATIVE_MINT_def)
  from rent_lifecycle_nets_to_zero[OF run o od c cd p] obtain sol A B where
    t: "sampleTokenMap NATIVE_MINT = Some sol" "sampleTokenMap (tokenMintA samplePool) = Some A"
       "sampleTokenMap (tokenMintB samplePool) = Some B"
    and cl: "\<exists>pre post s1 s2.
      sort_key blockTime [sampleOpen, sampleIncrease, sampleDecrease, sampleClose]
        = pre @ sampleClose # post \<and>
      loop sampleTokenMap samplePriceMap sol A B initialState pre = Inr s1 \<and>
      loopBody sampleTokenMap samplePriceMap sol A B s1 sampleClose = Inr s2 \<and>
      paidRent s2 = Decimal_minus (paidRent s1)
        (Decimal_mul (convertToUiAmount 4433520 (decimals sol)) (Fin 20))"
    by blast
  have eq: "sol = sampleSol" "A = sampleTokenA" "B = sampleTokenB" using t tm by simp_all
  have e: "\<exists>pre post s1 s2.
      sort_key blockTime [sampleOpen, sampleIncrease, sampleDecrease, sampleClose]
        = pre @ sampleClose # post \<and>
      loop sampleTokenMap samplePriceMap sampleSol sampleTokenA sampleTokenB initialState pre
        = Inr s1 \<and>
      loopBody sampleTokenMap samplePriceMap sampleSol sampleTokenA sampleTokenB s1 sampleClose
        = Inr s2 \<and>
      paidRent s2 = Decimal_minus (paidRent s1) (Fin (55419 / 625000))"
    using cl unfolding eq v .
  show ?thesis
    apply (intro conjI)
    apply (rule o c p run v l1 l3 l4 e)+
    done

qed

section \<open>The summary of a position\<close>

text \<open>
  What a successful call of \<^verbatim>\<open>analyzePosition\<close> has gone through, and what it returns.
\<close>

lemma analyzePosition_Inr:
  assumes "snd (analyzePosition instructions positionMap poolMap tokenMap priceMap) = Inr s"
  obtains openI pool where
    "filter isOpenPosition instructions = [openI]"
    "length (filter isClosePosition instructions) \<le> 1"
    "poolMap (InstructionUnion.whirlpool (decoded openI)) = Some pool"
    "snd (analyzeInstructions instructions pool tokenMap priceMap) = Inr (analyzedInstructions s)"
    "Decimal_gte (depositedValue (analyzedInstructions s)) (Fin 1)"
    "getOutstandingBalances (positionMap (InstructionUnion.position (decoded openI))) pool
       tokenMap priceMap = Inr (positionBalance s)"
    "profit s = Decimal_minus (spec_gains (analyzedInstructions s) (positionBalance s))
                  (spec_losses (analyzedInstructions s))"
    "profitRatio s = Decimal_div (profit s) (positionSize (analyzedInstructions s))"
    "forgoneProfit s = Decimal_minus (forgoneValue (analyzedInstructions s))
                         (depositedValue (analyzedInstructions s))"
    "forgoneProfitRatio s = Decimal_div (forgoneProfit s) (positionSize (analyzedInstructions s))"
    "opportunityCost s = Decimal_minus (forgoneProfit s) (profit s)"
    "opportunityCostRatio s = Decimal_div (Decimal_neg (opportunityCost s))
                                (positionSize (analyzedInstructions s))"
proof -
  have len: "length (filter isOpenPosition instructions) = 1"
    using assms by (auto simp: analyzePosition_def Let_def split: if_splits)
  then obtain openI where o: "filter isOpenPosition instructions = [openI]"
    by (cases "filter isOpenPosition instructions") auto
  have c: "length (filter isClosePosition instructions) \<le> 1"
    using assms len by (auto simp: analyzePosition_def Let_def split: if_splits)
  obtain pool where p: "poolMap (InstructionUnion.whirlpool (decoded openI)) = Some pool"
    using assms o c by (cases "poolMap (InstructionUnion.whirlpool (decoded openI))")
      (auto simp: analyzePosition_def Let_def)
  obtain sorted' r where ai: "analyzeInstructions instructions pool tokenMap priceMap = (sorted', r)"
    by (cases "analyzeInstructions instructions pool tokenMap priceMap") auto
  obtain a where a: "r = Inr a"
    using assms o c p ai by (cases r) (auto simp: analyzePosition_def Let_def)
  have g: "Decimal_gte (depositedValue a) (Fin 1)"
    using assms o c p ai a by (auto simp: analyzePosition_def Let_def split: if_splits)
  obtain b where b: "getOutstandingBalances (positionMap (InstructionUnion.position (decoded openI)))
      pool tokenMap priceMap = Inr b"
    using assms o c p ai a g
    by (cases "getOutstandingBalances (positionMap (InstructionUnion.position (decoded openI)))
      pool tokenMap priceMap") (auto simp: analyzePosition_def Let_def)
  have s: "s = \<lparr>whirlpool = InstructionUnion.whirlpool (decoded openI),
      position = InstructionUnion.position (decoded openI),
      positionMint = InstructionUnion.positionMint (decoded openI),
      owner = InstructionUnion.owner (decoded openI),
      openedAt = blockTime openI,
      closedAt = map_option blockTime
        (if length (filter isClosePosition instructions) = 1
         then Some (hd (filter isClosePosition instructions)) else None),
      analyzedInstructions = a, positionBalance = b,
      profit = Decimal_minus (spec_gains a b) (spec_losses a),
      profitRatio = Decimal_div (Decimal_minus (spec_gains a b) (spec_losses a)) (positionSize a),
      forgoneProfit = Decimal_minus (forgoneValue a) (depositedValue a),
      forgoneProfitRatio =
        Decimal_div (Decimal_minus (forgoneValue a) (depositedValue a)) (positionSize a),
      opportunityCost = Decimal_minus (Decimal_minus (forgoneValue a) (depositedValue a))
         (Decimal_minus (spec_gains a b) (spec_losses a)),
      opportunityCostRatio =
        Decimal_div (Decimal_neg (Decimal_minus (Decimal_minus (forgoneValue a) (depositedValue a))
         (Decimal_minus (spec_gains a b) (spec_losses a)))) (positionSize a)\<rparr>"
    using assms o c p ai a g b
    by (simp add: analyzePosition_def Let_def spec_gains_def spec_losses_def)
  show ?thesis
    by (rule that[OF o c p]) (simp_all add: ai a g b s)
qed

text \<open>
  Claim C2. Every summary that \<^verbatim>\<open>analyzePosition\<close> returns holds the totals of the accounting
  pass over its instructions, and its derived fields obey the formulas: profit is gains minus
  losses, the profit ratio is the profit over the position size, the forgone profit is the
  forgone value minus the deposited value, its ratio is taken over the position size, the
  opportunity cost is the forgone profit minus the profit, and its ratio is the negated
  opportunity cost over the position size. All operations are those of \<^verbatim>\<open>Decimal\<close>.
\<close>

theorem summary_formulas:
  assumes "snd (analyzePosition instructions positionMap poolMap tokenMap priceMap) = Inr s"
  shows "(\<exists>pool. snd (analyzeInstructions instructions pool tokenMap priceMap)
                   = Inr (analyzedInstructions s)) \<and>
         profit s = Decimal_minus (spec_gains (analyzedInstructions s) (positionBalance s))
                      (spec_losses (analyzedInstructions s)) \<and>
         profitRatio s = Decimal_div (profit s) (positionSize (analyzedInstructions s)) \<and>
         forgoneProfit s = Decimal_minus (forgoneValue (analyzedInstructions s))
                             (depositedValue (analyzedInstructions s)) \<and>
         forgoneProfitRatio s
           = Decimal_div (forgoneProfit s) (positionSize (analyzedInstructions s)) \<and>
         opportunityCost s = Decimal_minus (forgoneProfit s) (profit s) \<and>
         opportunityCostRatio s = Decimal_div (Decimal_neg (opportunityCost s))
                                    (positionSize (analyzedInstructions s))"
  using assms by (rule analyzePosition_Inr) blast

lemma sample_run:
  "snd (analyzePosition [sampleOpen, sampleIncrease, sampleDecrease] samplePositionMap
          samplePoolMap sampleTokenMap samplePriceMap) = Inr sampleSummary"
proof -
  have r: "round_sd (55419 / 12500000) = 55419 / 12500000"
    "round_sd (55419 / 625000) = 55419 / 625000" "round_sd (3 / 10000) = 3 / 10000"
    "round_sd (1 / 10) = 1 / 10" "round_sd (3 / 25) = 3 / 25" "round_sd (6 / 5) = 6 / 5"
    "round_sd (27647 / 6250000) = 27647 / 6250000" "round_sd (27647 / 312500) = 27647 / 312500"
    "round_sd (293 / 25) = 293 / 25" "round_sd (3690147 / 312500) = 3690147 / 312500"
    "round_sd (100003 / 10000) = 100003 / 10000"
    "round_sd (12611213 / 1250000) = 12611213 / 1250000"
    "round_sd (3439 / 2000) = 3439 / 2000" "round_sd (3439 / 20000) = 3439 / 20000"
    "round_sd (8 / 5) = 8 / 5" "round_sd (4 / 25) = 4 / 25"
    "round_sd (- (239 / 2000)) = - (239 / 2000)" "round_sd (239 / 20000) = 239 / 20000"
    using round_sd_representable[of 443352 "-8"] round_sd_representable[of 886704 "-7"]
      round_sd_representable[of 3 "-4"] round_sd_representable[of 1 "-1"]
      round_sd_representable[of 12 "-2"] round_sd_representable[of 12 "-1"]
      round_sd_representable[of 442352 "-8"] round_sd_representable[of 884704 "-7"]
      round_sd_representable[of 1172 "-2"] round_sd_representable[of 118084704 "-7"]
      round_sd_representable[of 100003 "-4"] round_sd_representable[of 100889704 "-7"]
      round_sd_representable[of 17195 "-4"] round_sd_representable[of 17195 "-5"]
      round_sd_representable[of 16 "-1"] round_sd_representable[of 16 "-2"]
      round_sd_representable[of "-1195" "-4"] round_sd_representable[of 1195 "-5"]
    by simp_all
  show ?thesis
    by (simp add: analyzePosition_def analyzeInstructions_def getOutstandingBalances_def
        isOpenPosition_def isClosePosition_def Decimal_gte_def sampleSummary_def
        RECLAIMABLE_RENT_LAMPORTS_def CLOSE_TRANSACTION_LAMPORTS_def
        sample_defs samplePoolMap_def samplePositionMap_def samplePosition_def ledger_defs
        round_sd_sample round_sd_zero r)
qed

lemma sample_thirds_run:
  "snd (analyzePosition [sampleOpen, sampleThreeIncrease] Map.empty
          samplePoolMap sampleTokenMap samplePriceMap) = Inr sampleThirdsSummary"
proof -
  have c1: "round_sd (30888704 / 10000000 / 3)
        = of_int 1029623466666666666666666666666666666666 * 10 powi (0 - 39)"
    by (rule round_sd_cut) (simp_all add: power_int_minus_divide)
  have c2: "round_sd (36888704 / 10000000 / 3)
        = of_int 1229623466666666666666666666666666666666 * 10 powi (0 - 39)"
    by (rule round_sd_cut) (simp_all add: power_int_minus_divide)
  have q: "round_sd (- (241318 / 234375)) = - (1029623466666666666666666666666666666666 / 10 ^ 39)"
      "round_sd (- (288193 / 234375)) = - (1229623466666666666666666666666666666666 / 10 ^ 39)"
    using c1 c2 round_sd_minus[of "30888704 / 10000000 / 3"]
      round_sd_minus[of "36888704 / 10000000 / 3"]
    by (simp_all add: power_int_minus_divide)
  have r: "round_sd (55419 / 12500000) = 55419 / 12500000"
    "round_sd (55419 / 625000) = 55419 / 625000" "round_sd 3 = 3"
    "round_sd (3 / 1000) = 3 / 1000" "round_sd (18 / 5) = 18 / 5" "round_sd (6 / 5) = 6 / 5"
    "round_sd (15001 / 5000) = 15001 / 5000"
    "round_sd (241318 / 78125) = 241318 / 78125"
    "round_sd (- (241318 / 78125)) = - (241318 / 78125)"
    "round_sd (3 / 5) = 3 / 5" "round_sd (1 / 5) = 1 / 5"
    "round_sd (288193 / 78125) = 288193 / 78125"
    using round_sd_representable[of 443352 "-8"] round_sd_representable[of 886704 "-7"]
      round_sd_representable[of 3 0] round_sd_representable[of 3 "-3"]
      round_sd_representable[of 36 "-1"] round_sd_representable[of 12 "-1"]
      round_sd_representable[of 30002 "-4"] round_sd_representable[of 30888704 "-7"]
      round_sd_representable[of "-30888704" "-7"]
      round_sd_representable[of 6 "-1"] round_sd_representable[of 2 "-1"]
      round_sd_representable[of 36888704 "-7"]
    by simp_all
  show ?thesis
    by (simp add: analyzePosition_def analyzeInstructions_def getOutstandingBalances_def
        isOpenPosition_def isClosePosition_def Decimal_gte_def sampleThirdsSummary_def
        sample_defs  ledger_defs
        round_sd_sample round_sd_zero r q)
qed

text \<open>
  The theorem at the sample position while it is open, and at the position funded with 3
  token A: its profit of \<open>- 3.0888704\<close> over the position size of 3 is the ratio
  \<open>- 1.0296234666\<dots>6\<close>, cut after 40 digits.
\<close>

theorem summary_formulas_witness:
  "snd (analyzePosition [sampleOpen, sampleIncrease, sampleDecrease] samplePositionMap
          samplePoolMap sampleTokenMap samplePriceMap) = Inr sampleSummary \<and>
   profit sampleSummary
     = Decimal_minus (spec_gains (analyzedInstructions sampleSummary) (positionBalance sampleSummary))
         (spec_losses (analyzedInstructions sampleSummary)) \<and>
   profitRatio sampleSummary
     = Decimal_div (profit sampleSummary) (positionSize (analyzedInstructions sampleSummary)) \<and>
   forgoneProfit sampleSummary
     = Decimal_minus (forgoneValue (analyzedInstructions sampleSummary))
         (depositedValue (analyzedInstructions sampleSummary)) \<and>
   forgoneProfitRatio sampleSummary
     = Decimal_div (forgoneProfit sampleSummary) (positionSize (analyzedInstructions sampleSummary)) \<and>
   opportunityCost sampleSummary
     = Decimal_minus (forgoneProfit sampleSummary) (profit sampleSummary) \<and>
   opportunityCostRatio sampleSummary
     = Decimal_div (Decimal_neg (opportunityCost sampleSummary))
         (positionSize (analyzedInstructions sampleSummary)) \<and>
   snd (analyzePosition [sampleOpen, sampleThreeIncrease] Map.empty
          samplePoolMap sampleTokenMap samplePriceMap) = Inr sampleThirdsSummary \<and>
   profitRatio sampleThirdsSummary
     = Decimal_div (profit sampleThirdsSummary)
         (positionSize (analyzedInstructions sampleThirdsSummary)) \<and>
   Decimal_div (Fin (- (30888704 / 10 ^ 7))) (Fin 3)
     = Fin (- (1029623466666666666666666666666666666666 / 10 ^ 39)) \<and>
   opportunityCostRatio sampleThirdsSummary
     = Decimal_div (Decimal_neg (opportunityCost sampleThirdsSummary))
         (positionSize (analyzedInstructions sampleThirdsSummary)) \<and>
   Decimal_div (Decimal_neg (Fin (36888704 / 10 ^ 7))) (Fin 3)
     = Fin (- (1229623466666666666666666666666666666666 / 10 ^ 39))"
proof -
  note a = summary_formulas[OF sample_run]
  note b = summary_formulas[OF sample_thirds_run]
  have p: "profit sampleThirdsSummary = Fin (- (30888704 / 10 ^ 7))"
    "opportunityCost sampleThirdsSummary = Fin (36888704 / 10 ^ 7)"
    "positionSize (analyzedInstructions sampleThirdsSummary) = Fin 3"
    "profitRatio sampleThirdsSummary
       = Fin (- (1029623466666666666666666666666666666666 / 10 ^ 39))"
    "opportunityCostRatio sampleThirdsSummary
       = Fin (- (1229623466666666666666666666666666666666 / 10 ^ 39))"
    by (simp_all add: sampleThirdsSummary_def)
  have b1: "profitRatio sampleThirdsSummary
     = Decimal_div (profit sampleThirdsSummary)
         (positionSize (analyzedInstructions sampleThirdsSummary))"
    and b2: "opportunityCostRatio sampleThirdsSummary
     = Decimal_div (Decimal_neg (opportunityCost sampleThirdsSummary))
         (positionSize (analyzedInstructions sampleThirdsSummary))"
    using b by blast+
  have c1: "Decimal_div (Fin (- (30888704 / 10 ^ 7))) (Fin 3)
     = Fin (- (1029623466666666666666666666666666666666 / 10 ^ 39))"
    using b1 unfolding p by (rule sym)
  have c2: "Decimal_div (Decimal_neg (Fin (36888704 / 10 ^ 7))) (Fin 3)
     = Fin (- (1229623466666666666666666666666666666666 / 10 ^ 39))"
    using b2 unfolding p by (rule sym)
  show ?thesis using a sample_run sample_thirds_run b1 b2 c1 c2 by blast
qed

section \<open>Positions the batch leaves out\<close>

text \<open>
  The batch keeps the summaries of the positions whose analysis succeeds, in their order. A
  failed position adds nothing to the summaries. Its warning reaches the log when debug logging
  is on and the logger is not muted; in every other case the whole log of the batch is empty.
\<close>

lemma logger_warn_eq:
  "logger_warn args m = (if debug args \<and> \<not> quiet args then [(Stderr, m)] else [])"
  by (simp add: logger_warn_def logger_log_def)

lemma logger_debug_eq:
  "logger_debug args m = (if debug args \<and> \<not> quiet args then [(Stdout, m)] else [])"
  by (simp add: logger_debug_def logger_log_def)

lemma analyzePositions_fst:
  "fst (analyzePositions args positions positionMap poolMap tokenMap priceMap)
     = concat (map (\<lambda>p. fst (analyzeOrWarn args positionMap poolMap tokenMap priceMap p)) positions)"
  by (simp add: analyzePositions_def Let_def comp_def)

lemma analyzePositions_fst_append:
  "fst (analyzePositions args (xs @ ys) positionMap poolMap tokenMap priceMap)
     = fst (analyzePositions args xs positionMap poolMap tokenMap priceMap) @
       fst (analyzePositions args ys positionMap poolMap tokenMap priceMap)"
  by (simp add: analyzePositions_fst)

lemma analyzePositions_drop:
  assumes "fst (analyzeOrWarn args positionMap poolMap tokenMap priceMap instructions) = []"
  shows "fst (analyzePositions args (before @ instructions # after) positionMap poolMap tokenMap priceMap)
     = fst (analyzePositions args before positionMap poolMap tokenMap priceMap) @
       fst (analyzePositions args after positionMap poolMap tokenMap priceMap)"
  using assms by (simp add: analyzePositions_fst)

lemma analyzeOrWarn_silent:
  "\<not> debug args \<or> quiet args \<Longrightarrow>
   snd (analyzeOrWarn args positionMap poolMap tokenMap priceMap instructions) = []"
  by (auto simp: analyzeOrWarn_def logger_warn_eq split: prod.splits sum.splits list.splits)

lemma analyzePositions_silent:
  assumes "\<not> debug args \<or> quiet args"
  shows "snd (analyzePositions args positions positionMap poolMap tokenMap priceMap) = []"
  using assms analyzeOrWarn_silent[OF assms]
  by (auto simp: analyzePositions_def Let_def logger_debug_eq)

lemma analyzePositions_warning:
  assumes "snd (analyzeOrWarn args positionMap poolMap tokenMap priceMap instructions) = [l]"
  shows "l \<in> set (snd (analyzePositions args (before @ instructions # after)
                         positionMap poolMap tokenMap priceMap))"
  using assms by (simp add: analyzePositions_def Let_def)

lemma analyzeOrWarn_Inl:
  assumes "analyzePosition instructions positionMap poolMap tokenMap priceMap = (instructions', Inl e)"
  shows "analyzeOrWarn args positionMap poolMap tokenMap priceMap instructions
     = ([], if debug args \<and> \<not> quiet args \<and> instructions' \<noteq> []
            then [(Stderr, FailedToAnalyzePosition
                     (InstructionUnion.position (decoded (hd instructions'))) e)]
            else [])"
  using assms by (auto simp: analyzeOrWarn_def logger_warn_eq split: list.splits)

text \<open>
  Claim C6, as far as the code goes. When a list with one opening and at most one closing has
  a pool and the accounting pass returns a deposited value that is not at least 1, the call of
  \<^verbatim>\<open>analyzePosition\<close> throws before it computes any ratio; the batch returns the summaries
  of the other positions, in order, and none for this one. The warning that names the position
  and the reason is written when debug logging is on and the logger is not muted; otherwise the
  batch logs nothing.
\<close>

theorem small_deposit_rejected:
  assumes o: "filter isOpenPosition instructions = [openI]"
    and c: "length (filter isClosePosition instructions) \<le> 1"
    and p: "poolMap (InstructionUnion.whirlpool (decoded openI)) = Some pool"
    and a: "snd (analyzeInstructions instructions pool tokenMap priceMap) = Inr a"
    and small: "\<not> Decimal_gte (depositedValue a) (Fin 1)"
  shows "analyzePosition instructions positionMap poolMap tokenMap priceMap
           = (sort_key blockTime instructions,
              Inl (Invariant ''Deposited value to small to accurately analyze'')) \<and>
         fst (analyzePositions args (before @ instructions # after)
                positionMap poolMap tokenMap priceMap)
           = fst (analyzePositions args before positionMap poolMap tokenMap priceMap) @
             fst (analyzePositions args after positionMap poolMap tokenMap priceMap) \<and>
         (debug args \<and> \<not> quiet args \<longrightarrow>
            (Stderr, FailedToAnalyzePosition
               (InstructionUnion.position (decoded (hd (sort_key blockTime instructions))))
               (Invariant ''Deposited value to small to accurately analyze''))
            \<in> set (snd (analyzePositions args (before @ instructions # after)
                          positionMap poolMap tokenMap priceMap))) \<and>
         (\<not> debug args \<or> quiet args \<longrightarrow>
            snd (analyzePositions args (before @ instructions # after)
                   positionMap poolMap tokenMap priceMap) = [])"
proof -
  have f: "fst (analyzeInstructions instructions pool tokenMap priceMap) = sort_key blockTime instructions"
    by (simp add: analyzeInstructions_def Let_def)
  have ai: "analyzeInstructions instructions pool tokenMap priceMap = (sort_key blockTime instructions, Inr a)"
    using f a by (cases "analyzeInstructions instructions pool tokenMap priceMap") simp
  have ap: "analyzePosition instructions positionMap poolMap tokenMap priceMap
           = (sort_key blockTime instructions,
              Inl (Invariant ''Deposited value to small to accurately analyze''))"
    using o c p ai small by (simp add: analyzePosition_def Let_def)
  have "instructions \<noteq> []" using o by auto
  then have ne: "sort_key blockTime instructions \<noteq> []"
    by (metis length_sort length_0_conv)
  note w = analyzeOrWarn_Inl[OF ap, of args]
  have d: "fst (analyzeOrWarn args positionMap poolMap tokenMap priceMap instructions) = []"
    using w by simp
  show ?thesis
    using ap analyzePositions_drop[OF d] analyzePositions_silent[of args] w ne
    by (auto intro!: analyzePositions_warning)
qed

lemma sample_fine_run:
  "snd (analyzeInstructions [sampleOpen, sampleFineIncrease] samplePool sampleTokenMap
          sampleFinePriceMap)
     = Inr \<lparr>depositedValue = Fin (999999999999999999999 / 10 ^ 21), withdrawnValue = Fin 0,
            forgoneValue = Fin (119999988 / 10 ^ 7),
            positionSize = Fin (999999999999999999999 / 10 ^ 21),
            collectedFeesValue = Fin 0, collectedRewardsValue = Fin 0,
            paidRent = Fin (55419 / 625000), transactionCost = Fin (1 / 5000)\<rparr>"
proof -
  have r: "round_sd (55419 / 12500000) = 55419 / 12500000"
    "round_sd (55419 / 625000) = 55419 / 625000"
    "round_sd (9999999 / 1000000) = 9999999 / 1000000"
    "round_sd (999999999999999999999 / 1000000000000000000000)
       = 999999999999999999999 / 1000000000000000000000"
    "round_sd (29999997 / 2500000) = 29999997 / 2500000"
    using round_sd_representable[of 443352 "-8"] round_sd_representable[of 886704 "-7"]
      round_sd_representable[of 9999999 "-6"]
      round_sd_representable[of 999999999999999999999 "-21"]
      round_sd_representable[of 119999988 "-7"]
    by simp_all
  show ?thesis
    by (simp add: analyzeInstructions_def sample_defs ledger_defs round_sd_sample round_sd_zero r)
qed

text \<open>
  The theorem at a position with a deposit of 0.5 token A at a price of 1, debug logging on,
  and at the position whose deposit is worth 0.999999999999999999999: the product keeps its
  21 digits, stays below 1, and the position is rejected.
\<close>

theorem small_deposit_rejected_witness:
  "(filter isOpenPosition [sampleOpen, sampleSmallIncrease] = [sampleOpen] \<and>
   samplePoolMap (InstructionUnion.whirlpool (decoded sampleOpen)) = Some samplePool \<and>
   snd (analyzeInstructions [sampleOpen, sampleSmallIncrease] samplePool sampleTokenMap samplePriceMap)
     = Inr \<lparr>depositedValue = Fin (1 / 2), withdrawnValue = Fin 0, forgoneValue = Fin (3 / 5),
            positionSize = Fin (1 / 2), collectedFeesValue = Fin 0, collectedRewardsValue = Fin 0,
            paidRent = Fin (55419 / 625000), transactionCost = Fin (1 / 5000)\<rparr> \<and>
   \<not> Decimal_gte (Fin (1 / 2)) (Fin 1) \<and>
   analyzePosition [sampleOpen, sampleSmallIncrease] samplePositionMap samplePoolMap
       sampleTokenMap samplePriceMap
     = ([sampleOpen, sampleSmallIncrease],
        Inl (Invariant ''Deposited value to small to accurately analyze'')) \<and>
   (Stderr, FailedToAnalyzePosition ''position''
      (Invariant ''Deposited value to small to accurately analyze''))
     \<in> set (snd (analyzePositions \<lparr>quiet = False, debug = True\<rparr>
                   ([] @ [sampleOpen, sampleSmallIncrease] # [])
                   samplePositionMap samplePoolMap sampleTokenMap samplePriceMap))) \<and>
   (snd (analyzeInstructions [sampleOpen, sampleFineIncrease] samplePool sampleTokenMap
          sampleFinePriceMap)
     = Inr \<lparr>depositedValue = Fin (999999999999999999999 / 10 ^ 21), withdrawnValue = Fin 0,
            forgoneValue = Fin (119999988 / 10 ^ 7),
            positionSize = Fin (999999999999999999999 / 10 ^ 21),
            collectedFeesValue = Fin 0, collectedRewardsValue = Fin 0,
            paidRent = Fin (55419 / 625000), transactionCost = Fin (1 / 5000)\<rparr> \<and>
   \<not> Decimal_gte (Fin (999999999999999999999 / 10 ^ 21)) (Fin 1) \<and>
   analyzePosition [sampleOpen, sampleFineIncrease] samplePositionMap samplePoolMap
       sampleTokenMap sampleFinePriceMap
     = ([sampleOpen, sampleFineIncrease],
        Inl (Invariant ''Deposited value to small to accurately analyze'')))"
proof (rule conjI)
  show "filter isOpenPosition [sampleOpen, sampleSmallIncrease] = [sampleOpen] \<and>
   samplePoolMap (InstructionUnion.whirlpool (decoded sampleOpen)) = Some samplePool \<and>
   snd (analyzeInstructions [sampleOpen, sampleSmallIncrease] samplePool sampleTokenMap samplePriceMap)
     = Inr \<lparr>depositedValue = Fin (1 / 2), withdrawnValue = Fin 0, forgoneValue = Fin (3 / 5),
            positionSize = Fin (1 / 2), collectedFeesValue = Fin 0, collectedRewardsValue = Fin 0,
            paidRent = Fin (55419 / 625000), transactionCost = Fin (1 / 5000)\<rparr> \<and>
   \<not> Decimal_gte (Fin (1 / 2)) (Fin 1) \<and>
   analyzePosition [sampleOpen, sampleSmallIncrease] samplePositionMap samplePoolMap
       sampleTokenMap samplePriceMap
     = ([sampleOpen, sampleSmallIncrease],
        Inl (Invariant ''Deposited value to small to accurately analyze'')) \<and>
   (Stderr, FailedToAnalyzePosition ''position''
      (Invariant ''Deposited value to small to accurately analyze''))
     \<in> set (snd (analyzePositions \<lparr>quiet = False, debug = True\<rparr>
                   ([] @ [sampleOpen, sampleSmallIncrease] # [])
                   samplePositionMap samplePoolMap sampleTokenMap samplePriceMap))"
  proof -
    have r: "round_sd (55419 / 12500000) = 55419 / 12500000"
      "round_sd (55419 / 625000) = 55419 / 625000" "round_sd (1 / 2) = 1 / 2"
      "round_sd (3 / 5) = 3 / 5" "round_sd (6 / 5) = 6 / 5"
      using round_sd_representable[of 443352 "-8"] round_sd_representable[of 886704 "-7"]
        round_sd_representable[of 5 "-1"] round_sd_representable[of 6 "-1"]
        round_sd_representable[of 12 "-1"]
      by simp_all
    have o: "filter isOpenPosition [sampleOpen, sampleSmallIncrease] = [sampleOpen]"
      and c: "length (filter isClosePosition [sampleOpen, sampleSmallIncrease]) \<le> 1"
      by (simp_all add: sample_defs sampleSmallIncrease_def isOpenPosition_def isClosePosition_def)
    have p: "samplePoolMap (InstructionUnion.whirlpool (decoded sampleOpen)) = Some samplePool"
      by (simp add: sample_defs samplePoolMap_def)
    have a: "snd (analyzeInstructions [sampleOpen, sampleSmallIncrease] samplePool sampleTokenMap samplePriceMap)
       = Inr \<lparr>depositedValue = Fin (1 / 2), withdrawnValue = Fin 0, forgoneValue = Fin (3 / 5),
              positionSize = Fin (1 / 2), collectedFeesValue = Fin 0, collectedRewardsValue = Fin 0,
              paidRent = Fin (55419 / 625000), transactionCost = Fin (1 / 5000)\<rparr>"
      by (simp add: analyzeInstructions_def sample_defs sampleSmallIncrease_def ledger_defs
          round_sd_sample round_sd_zero r)
    have s: "\<not> Decimal_gte (depositedValue \<lparr>depositedValue = Fin (1 / 2), withdrawnValue = Fin 0, forgoneValue = Fin (3 / 5),
              positionSize = Fin (1 / 2), collectedFeesValue = Fin 0, collectedRewardsValue = Fin 0,
              paidRent = Fin (55419 / 625000), transactionCost = Fin (1 / 5000)\<rparr>) (Fin 1)"
      by (simp add: Decimal_gte_def)
    have so: "sort_key blockTime [sampleOpen, sampleSmallIncrease] = [sampleOpen, sampleSmallIncrease]"
      by (simp add: sample_defs sampleSmallIncrease_def)
    have pos: "InstructionUnion.position (decoded sampleOpen) = ''position''"
      by (simp add: sample_defs)
    from small_deposit_rejected[where poolMap = samplePoolMap and tokenMap = sampleTokenMap
        and priceMap = samplePriceMap and positionMap = samplePositionMap
        and args = "\<lparr>quiet = False, debug = True\<rparr>" and before = "[]" and after = "[]",
        OF o c p a s]
      o p a s
    show ?thesis unfolding so by (simp add: pos)
  qed
next
  show "snd (analyzeInstructions [sampleOpen, sampleFineIncrease] samplePool sampleTokenMap
          sampleFinePriceMap)
     = Inr \<lparr>depositedValue = Fin (999999999999999999999 / 10 ^ 21), withdrawnValue = Fin 0,
            forgoneValue = Fin (119999988 / 10 ^ 7),
            positionSize = Fin (999999999999999999999 / 10 ^ 21),
            collectedFeesValue = Fin 0, collectedRewardsValue = Fin 0,
            paidRent = Fin (55419 / 625000), transactionCost = Fin (1 / 5000)\<rparr> \<and>
   \<not> Decimal_gte (Fin (999999999999999999999 / 10 ^ 21)) (Fin 1) \<and>
   analyzePosition [sampleOpen, sampleFineIncrease] samplePositionMap samplePoolMap
       sampleTokenMap sampleFinePriceMap
     = ([sampleOpen, sampleFineIncrease],
        Inl (Invariant ''Deposited value to small to accurately analyze''))"
  proof -
    have o: "filter isOpenPosition [sampleOpen, sampleFineIncrease] = [sampleOpen]"
      and c: "length (filter isClosePosition [sampleOpen, sampleFineIncrease]) \<le> 1"
      by (simp_all add: sample_defs isOpenPosition_def isClosePosition_def)
    have p: "samplePoolMap (InstructionUnion.whirlpool (decoded sampleOpen)) = Some samplePool"
      by (simp add: sample_defs samplePoolMap_def)
    note a = sample_fine_run
    have s: "\<not> Decimal_gte (depositedValue
              \<lparr>depositedValue = Fin (999999999999999999999 / 10 ^ 21), withdrawnValue = Fin 0,
              forgoneValue = Fin (119999988 / 10 ^ 7),
              positionSize = Fin (999999999999999999999 / 10 ^ 21),
              collectedFeesValue = Fin 0, collectedRewardsValue = Fin 0,
              paidRent = Fin (55419 / 625000), transactionCost = Fin (1 / 5000)\<rparr>) (Fin 1)"
      by (simp add: Decimal_gte_def)
    have s': "\<not> Decimal_gte (Fin (999999999999999999999 / 10 ^ 21)) (Fin 1)"
      by (simp add: Decimal_gte_def)
    have so: "sort_key blockTime [sampleOpen, sampleFineIncrease] = [sampleOpen, sampleFineIncrease]"
      by (simp add: sample_defs)
    from small_deposit_rejected[where poolMap = samplePoolMap and tokenMap = sampleTokenMap
        and priceMap = sampleFinePriceMap and positionMap = samplePositionMap
        and args = "\<lparr>quiet = False, debug = True\<rparr>" and before = "[]" and after = "[]",
        OF o c p a s]
    have t: "analyzePosition [sampleOpen, sampleFineIncrease] samplePositionMap samplePoolMap
         sampleTokenMap sampleFinePriceMap
       = ([sampleOpen, sampleFineIncrease],
          Inl (Invariant ''Deposited value to small to accurately analyze''))"
      unfolding so by (rule conjunct1)
    show ?thesis
      apply (intro conjI)
      apply (rule a s' t)+
      done
  qed
qed

text \<open>
  Claim C6 as stated fails on the logged reason: with the default flags (debug logging off) the
  position with a deposited value of 0.50 is left out and the log stays empty.
\<close>

theorem small_deposit_silent_counterexample:
  "snd (analyzeInstructions [sampleOpen, sampleSmallIncrease] samplePool sampleTokenMap samplePriceMap)
     = Inr \<lparr>depositedValue = Fin (1 / 2), withdrawnValue = Fin 0, forgoneValue = Fin (3 / 5),
            positionSize = Fin (1 / 2), collectedFeesValue = Fin 0, collectedRewardsValue = Fin 0,
            paidRent = Fin (55419 / 625000), transactionCost = Fin (1 / 5000)\<rparr> \<and>
   analyzePositions \<lparr>quiet = False, debug = False\<rparr> [[sampleOpen, sampleSmallIncrease]]
     samplePositionMap samplePoolMap sampleTokenMap samplePriceMap = ([], [])"
proof -
  have r: "round_sd (55419 / 12500000) = 55419 / 12500000"
    "round_sd (55419 / 625000) = 55419 / 625000" "round_sd (1 / 2) = 1 / 2"
    "round_sd (3 / 5) = 3 / 5" "round_sd (6 / 5) = 6 / 5"
    using round_sd_representable[of 443352 "-8"] round_sd_representable[of 886704 "-7"]
      round_sd_representable[of 5 "-1"] round_sd_representable[of 6 "-1"]
      round_sd_representable[of 12 "-1"]
    by simp_all
  show ?thesis
    by (simp add: analyzePositions_def analyzeOrWarn_def analyzePosition_def analyzeInstructions_def
        logger_warn_eq logger_debug_eq isOpenPosition_def isClosePosition_def Decimal_gte_def
        sample_defs sampleSmallIncrease_def samplePoolMap_def ledger_defs
        round_sd_sample round_sd_zero r)
qed

text \<open>
  Claim C7, as far as the code goes. A list whose number of openings is not one, or which has
  more than one closing, makes \<^verbatim>\<open>analyzePosition\<close> throw before it touches the list; the batch
  returns the summaries of the other positions, in order, and none for this one. The warning is
  written when debug logging is on, the logger is not muted and the list is not empty;
  otherwise the batch logs nothing (an empty list has no address to name).
\<close>

theorem malformed_sequence_rejected:
  assumes "length (filter isOpenPosition instructions) \<noteq> 1 \<or>
           1 < length (filter isClosePosition instructions)"
  shows "\<exists>e. analyzePosition instructions positionMap poolMap tokenMap priceMap
               = (instructions, Inl e) \<and>
           e = (if length (filter isOpenPosition instructions) \<noteq> 1
                then Invariant ''No open instruction found.''
                else Invariant ''More than one close instruction found.'') \<and>
           fst (analyzePositions args (before @ instructions # after)
                  positionMap poolMap tokenMap priceMap)
             = fst (analyzePositions args before positionMap poolMap tokenMap priceMap) @
               fst (analyzePositions args after positionMap poolMap tokenMap priceMap) \<and>
           (debug args \<and> \<not> quiet args \<and> instructions \<noteq> [] \<longrightarrow>
              (Stderr, FailedToAnalyzePosition
                 (InstructionUnion.position (decoded (hd instructions))) e)
              \<in> set (snd (analyzePositions args (before @ instructions # after)
                            positionMap poolMap tokenMap priceMap))) \<and>
           (\<not> debug args \<or> quiet args \<longrightarrow>
              snd (analyzePositions args (before @ instructions # after)
                     positionMap poolMap tokenMap priceMap) = []) \<and>
           (instructions = [] \<longrightarrow>
              analyzeOrWarn args positionMap poolMap tokenMap priceMap instructions = ([], []))"
proof -
  define e where "e = (if length (filter isOpenPosition instructions) \<noteq> 1
                then Invariant ''No open instruction found.''
                else Invariant ''More than one close instruction found.'')"
  have ap: "analyzePosition instructions positionMap poolMap tokenMap priceMap = (instructions, Inl e)"
    using assms by (auto simp: analyzePosition_def Let_def e_def)
  note w = analyzeOrWarn_Inl[OF ap, of args]
  have d: "fst (analyzeOrWarn args positionMap poolMap tokenMap priceMap instructions) = []"
    using w by simp
  have "analyzePosition instructions positionMap poolMap tokenMap priceMap = (instructions, Inl e) \<and>
           e = (if length (filter isOpenPosition instructions) \<noteq> 1
                then Invariant ''No open instruction found.''
                else Invariant ''More than one close instruction found.'') \<and>
           fst (analyzePositions args (before @ instructions # after)
                  positionMap poolMap tokenMap priceMap)
             = fst (analyzePositions args before positionMap poolMap tokenMap priceMap) @
               fst (analyzePositions args after positionMap poolMap tokenMap priceMap) \<and>
           (debug args \<and> \<not> quiet args \<and> instructions \<noteq> [] \<longrightarrow>
              (Stderr, FailedToAnalyzePosition
                 (InstructionUnion.position (decoded (hd instructions))) e)
              \<in> set (snd (analyzePositions args (before @ instructions # after)
                            positionMap poolMap tokenMap priceMap))) \<and>
           (\<not> debug args \<or> quiet args \<longrightarrow>
              snd (analyzePositions args (before @ instructions # after)
                     positionMap poolMap tokenMap priceMap) = []) \<and>
           (instructions = [] \<longrightarrow>
              analyzeOrWarn args positionMap poolMap tokenMap priceMap instructions = ([], []))"
    using ap analyzePositions_drop[OF d] analyzePositions_silent[of args] w
    by (auto simp: e_def intro!: analyzePositions_warning)
  then show ?thesis by blast
qed

text \<open>
  The theorem at a list that holds a deposit and no opening, analysed after a well-formed
  position, debug logging on.
\<close>

theorem malformed_sequence_rejected_witness:
  "filter isOpenPosition [sampleIncrease] = [] \<and>
   analyzePosition [sampleIncrease] samplePositionMap samplePoolMap sampleTokenMap samplePriceMap
     = ([sampleIncrease], Inl (Invariant ''No open instruction found.'')) \<and>
   fst (analyzePositions \<lparr>quiet = False, debug = True\<rparr>
          ([[sampleOpen, sampleIncrease, sampleDecrease]] @ [sampleIncrease] # [])
          samplePositionMap samplePoolMap sampleTokenMap samplePriceMap)
     = fst (analyzePositions \<lparr>quiet = False, debug = True\<rparr>
              [[sampleOpen, sampleIncrease, sampleDecrease]]
              samplePositionMap samplePoolMap sampleTokenMap samplePriceMap) @
       fst (analyzePositions \<lparr>quiet = False, debug = True\<rparr> []
              samplePositionMap samplePoolMap sampleTokenMap samplePriceMap) \<and>
   (Stderr, FailedToAnalyzePosition ''position'' (Invariant ''No open instruction found.''))
     \<in> set (snd (analyzePositions \<lparr>quiet = False, debug = True\<rparr>
                   ([[sampleOpen, sampleIncrease, sampleDecrease]] @ [sampleIncrease] # [])
                   samplePositionMap samplePoolMap sampleTokenMap samplePriceMap))"
proof -
  have h: "length (filter isOpenPosition [sampleIncrease]) \<noteq> 1 \<or>
           1 < length (filter isClosePosition [sampleIncrease])"
    by (simp add: sample_defs isOpenPosition_def)
  have n: "\<not> isOpenPosition sampleIncrease"
    by (simp add: sample_defs isOpenPosition_def)
  have pos: "InstructionUnion.position (decoded (hd [sampleIncrease])) = ''position''"
    by (simp add: sample_defs)
  from malformed_sequence_rejected[where positionMap = samplePositionMap
      and poolMap = samplePoolMap and tokenMap = sampleTokenMap and priceMap = samplePriceMap
      and args = "\<lparr>quiet = False, debug = True\<rparr>"
      and before = "[[sampleOpen, sampleIncrease, sampleDecrease]]" and after = "[]", OF h]
  show ?thesis unfolding pos by (auto simp: n)
qed

text \<open>
  Claim C7 as stated fails on the warning: with the default flags (debug logging off) the list
  without an opening is left out and the log stays empty.
\<close>

theorem malformed_sequence_silent_counterexample:
  "filter isOpenPosition [sampleIncrease] = [] \<and>
   analyzePositions \<lparr>quiet = False, debug = False\<rparr> [[sampleIncrease]]
     samplePositionMap samplePoolMap sampleTokenMap samplePriceMap = ([], [])"
  by (simp add: analyzePositions_def analyzeOrWarn_def analyzePosition_def
      logger_warn_eq logger_debug_eq isOpenPosition_def sample_defs)

section \<open>The scan for the next token transfer\<close>

text \<open>
  The loop returns at the first token transfer it meets: its result is an amount and an index
  exactly when that index is the first token transfer after the starting index and the
  invariants on that instruction hold; it is undefined exactly when no token transfer follows.
\<close>

lemma scanTransfers_Some:
  "scanTransfers k xs = Inr (Some (amount, i)) \<longleftrightarrow>
   (\<exists>n. i = k + n \<and> n < length xs \<and> isTokenTransfer (xs ! n) \<and>
        transferAmount (xs ! n) = Inr amount \<and> (\<forall>m<n. \<not> isTokenTransfer (xs ! m)))"
proof (induction xs arbitrary: k)
  case Nil
  then show ?case by simp
next
  case (Cons x xs)
  show ?case
  proof (cases "isTokenTransfer x")
    case True
    have "(\<exists>n. i = k + n \<and> n < length (x # xs) \<and> isTokenTransfer ((x # xs) ! n) \<and>
        transferAmount ((x # xs) ! n) = Inr amount \<and> (\<forall>m<n. \<not> isTokenTransfer ((x # xs) ! m)))
      \<longleftrightarrow> (i = k \<and> transferAmount x = Inr amount)"
    proof
      assume "\<exists>n. i = k + n \<and> n < length (x # xs) \<and> isTokenTransfer ((x # xs) ! n) \<and>
        transferAmount ((x # xs) ! n) = Inr amount \<and> (\<forall>m<n. \<not> isTokenTransfer ((x # xs) ! m))"
      then obtain n where n: "i = k + n" "transferAmount ((x # xs) ! n) = Inr amount"
        "\<forall>m<n. \<not> isTokenTransfer ((x # xs) ! m)" by blast
      have "n = 0" using n(3) True by (cases n) auto
      then show "i = k \<and> transferAmount x = Inr amount" using n by simp
    next
      assume "i = k \<and> transferAmount x = Inr amount"
      then show "\<exists>n. i = k + n \<and> n < length (x # xs) \<and> isTokenTransfer ((x # xs) ! n) \<and>
        transferAmount ((x # xs) ! n) = Inr amount \<and> (\<forall>m<n. \<not> isTokenTransfer ((x # xs) ! m))"
        using True by (intro exI[of _ 0]) simp
    qed
    then show ?thesis using True by (auto split: sum.splits)
  next
    case False
    have "(\<exists>n. i = k + n \<and> n < length (x # xs) \<and> isTokenTransfer ((x # xs) ! n) \<and>
        transferAmount ((x # xs) ! n) = Inr amount \<and> (\<forall>m<n. \<not> isTokenTransfer ((x # xs) ! m)))
      \<longleftrightarrow> (\<exists>n. i = Suc k + n \<and> n < length xs \<and> isTokenTransfer (xs ! n) \<and>
        transferAmount (xs ! n) = Inr amount \<and> (\<forall>m<n. \<not> isTokenTransfer (xs ! m)))"
    proof
      assume "\<exists>n. i = k + n \<and> n < length (x # xs) \<and> isTokenTransfer ((x # xs) ! n) \<and>
        transferAmount ((x # xs) ! n) = Inr amount \<and> (\<forall>m<n. \<not> isTokenTransfer ((x # xs) ! m))"
      then obtain n where n: "i = k + n" "n < length (x # xs)" "isTokenTransfer ((x # xs) ! n)"
        "transferAmount ((x # xs) ! n) = Inr amount"
        "\<forall>m<n. \<not> isTokenTransfer ((x # xs) ! m)" by blast
      obtain n' where n': "n = Suc n'" using n(3) False by (cases n) auto
      have "\<forall>m<n'. \<not> isTokenTransfer (xs ! m)"
      proof (intro allI impI)
        fix m assume "m < n'"
        then have "Suc m < n" using n' by simp
        then have "\<not> isTokenTransfer ((x # xs) ! Suc m)" using n(5) by blast
        then show "\<not> isTokenTransfer (xs ! m)" by simp
      qed
      then show "\<exists>n. i = Suc k + n \<and> n < length xs \<and> isTokenTransfer (xs ! n) \<and>
        transferAmount (xs ! n) = Inr amount \<and> (\<forall>m<n. \<not> isTokenTransfer (xs ! m))"
        using n n' by (intro exI[of _ n']) simp
    next
      assume "\<exists>n. i = Suc k + n \<and> n < length xs \<and> isTokenTransfer (xs ! n) \<and>
        transferAmount (xs ! n) = Inr amount \<and> (\<forall>m<n. \<not> isTokenTransfer (xs ! m))"
      then obtain n where n: "i = Suc k + n" "n < length xs" "isTokenTransfer (xs ! n)"
        "transferAmount (xs ! n) = Inr amount" "\<forall>m<n. \<not> isTokenTransfer (xs ! m)" by blast
      have "\<forall>m<Suc n. \<not> isTokenTransfer ((x # xs) ! m)"
      proof (intro allI impI)
        fix m assume "m < Suc n"
        then show "\<not> isTokenTransfer ((x # xs) ! m)" using False n(5) by (cases m) auto
      qed
      then show "\<exists>n. i = k + n \<and> n < length (x # xs) \<and> isTokenTransfer ((x # xs) ! n) \<and>
        transferAmount ((x # xs) ! n) = Inr amount \<and> (\<forall>m<n. \<not> isTokenTransfer ((x # xs) ! m))"
        using n by (intro exI[of _ "Suc n"]) simp
    qed
    then show ?thesis using False Cons.IH[of "Suc k"] by simp
  qed
qed

lemma scanTransfers_None:
  "scanTransfers k xs = Inr None \<longleftrightarrow> (\<forall>n<length xs. \<not> isTokenTransfer (xs ! n))"
proof (induction xs arbitrary: k)
  case Nil
  then show ?case by simp
next
  case (Cons x xs)
  have "(\<forall>n<length (x # xs). \<not> isTokenTransfer ((x # xs) ! n)) \<longleftrightarrow>
        (\<not> isTokenTransfer x \<and> (\<forall>n<length xs. \<not> isTokenTransfer (xs ! n)))"
    by (auto simp: nth_Cons split: nat.splits)
  then show ?case using Cons.IH[of "Suc k"] by (auto split: sum.splits)
qed

lemma nextTokenTransferAmount_Some:
  "nextTokenTransferAmount index instructions = Inr (Some (amount, i)) \<longleftrightarrow>
   firstTransferAfter instructions index i \<and> transferAmount (instructions ! i) = Inr amount"
proof
  assume "nextTokenTransferAmount index instructions = Inr (Some (amount, i))"
  then obtain n where n: "i = index + 1 + n" "n < length (drop (index + 1) instructions)"
    "isTokenTransfer (drop (index + 1) instructions ! n)"
    "transferAmount (drop (index + 1) instructions ! n) = Inr amount"
    "\<forall>m<n. \<not> isTokenTransfer (drop (index + 1) instructions ! m)"
    unfolding nextTokenTransferAmount_def scanTransfers_Some by blast
  have len: "i < length instructions" using n(1,2) by simp
  have nth: "\<And>m. m \<le> n \<Longrightarrow> drop (index + 1) instructions ! m = instructions ! (index + 1 + m)"
    using n(2) by simp
  have "\<forall>j. index < j \<and> j < i \<longrightarrow> \<not> isTokenTransfer (instructions ! j)"
  proof (intro allI impI)
    fix j assume j: "index < j \<and> j < i"
    then obtain m where m: "j = index + 1 + m" "m < n" using n(1)
      by (metis Suc_eq_plus1 Suc_leI add.commute le_Suc_ex nat_add_left_cancel_less add.assoc)
    then show "\<not> isTokenTransfer (instructions ! j)" using n(5) nth[of m] by auto
  qed
  then show "firstTransferAfter instructions index i \<and> transferAmount (instructions ! i) = Inr amount"
    using n len nth[of n] by (simp add: firstTransferAfter_def)
next
  assume a: "firstTransferAfter instructions index i \<and> transferAmount (instructions ! i) = Inr amount"
  then have i: "index < i" "i < length instructions" "isTokenTransfer (instructions ! i)"
    "\<forall>j. index < j \<and> j < i \<longrightarrow> \<not> isTokenTransfer (instructions ! j)"
    by (simp_all add: firstTransferAfter_def)
  define n where "n = i - (index + 1)"
  have n: "i = index + 1 + n" "n < length (drop (index + 1) instructions)" using i by (simp_all add: n_def)
  have nth: "\<And>m. m \<le> n \<Longrightarrow> drop (index + 1) instructions ! m = instructions ! (index + 1 + m)"
    using n(2) by simp
  have "\<forall>m<n. \<not> isTokenTransfer (drop (index + 1) instructions ! m)"
  proof (intro allI impI)
    fix m assume "m < n"
    then show "\<not> isTokenTransfer (drop (index + 1) instructions ! m)"
      using i(4) nth[of m] n(1) by auto
  qed
  then show "nextTokenTransferAmount index instructions = Inr (Some (amount, i))"
    unfolding nextTokenTransferAmount_def scanTransfers_Some
    using n i(3) a nth[of n] by (intro exI[of _ n]) simp
qed

lemma nextTokenTransferAmount_None:
  "nextTokenTransferAmount index instructions = Inr None \<longleftrightarrow> noTransferAfter instructions index"
proof
  assume "nextTokenTransferAmount index instructions = Inr None"
  then have a: "\<forall>n<length (drop (index + 1) instructions). \<not> isTokenTransfer (drop (index + 1) instructions ! n)"
    unfolding nextTokenTransferAmount_def scanTransfers_None .
  show "noTransferAfter instructions index"
    unfolding noTransferAfter_def
  proof (intro allI impI)
    fix j assume j: "index < j \<and> j < length instructions"
    define m where "m = j - (index + 1)"
    have jm: "j = index + 1 + m" using j by (simp add: m_def)
    have "m < length (drop (index + 1) instructions)"
      "drop (index + 1) instructions ! m = instructions ! j"
      using j jm by auto
    then show "\<not> isTokenTransfer (instructions ! j)" using a by metis
  qed
next
  assume a: "noTransferAfter instructions index"
  have "\<forall>n<length (drop (index + 1) instructions). \<not> isTokenTransfer (drop (index + 1) instructions ! n)"
  proof (intro allI impI)
    fix n assume n: "n < length (drop (index + 1) instructions)"
    then have "index < index + 1 + n \<and> index + 1 + n < length instructions" by simp
    then have "\<not> isTokenTransfer (instructions ! (index + 1 + n))"
      using a unfolding noTransferAfter_def by blast
    then show "\<not> isTokenTransfer (drop (index + 1) instructions ! n)" using n by simp
  qed
  then show "nextTokenTransferAmount index instructions = Inr None"
    unfolding nextTokenTransferAmount_def scanTransfers_None .
qed

lemma andThen_Inr:
  "andThen r f = Inr y \<longleftrightarrow> (\<exists>x. r = Inr x \<and> f x = Inr y)"
  by (cases r) (simp_all add: andThen_def)

lemma invariant_Inr: "invariant v m = Inr x \<longleftrightarrow> v = Some x"
  by (cases v) (simp_all add: invariant_def)

lemma decodeIncreaseLiquidity_transfers:
  assumes "decodeIncreaseLiquidity accounts data name index instructions = Inr ev"
  shows "\<exists>i j. firstTransferAfter instructions index i \<and> firstTransferAfter instructions i j \<and>
           transferAmount (instructions ! i) = Inr (tokenAIn ev) \<and>
           transferAmount (instructions ! j) = Inr (tokenBIn ev)"
  using assms
  by (clarsimp simp: decodeIncreaseLiquidity_def andThen_Inr invariant_Inr
      nextTokenTransferAmount_Some) blast

lemma decodeDecreaseLiquidity_transfers:
  assumes "decodeDecreaseLiquidity accounts data name index instructions = Inr ev"
  shows "\<exists>i j. firstTransferAfter instructions index i \<and> firstTransferAfter instructions i j \<and>
           transferAmount (instructions ! i) = Inr (tokenAOut ev) \<and>
           transferAmount (instructions ! j) = Inr (tokenBOut ev)"
  using assms
  by (clarsimp simp: decodeDecreaseLiquidity_def andThen_Inr invariant_Inr
      nextTokenTransferAmount_Some) blast

lemma decodeCollectFee_transfers:
  assumes "decodeCollectFee accounts data name index instructions = Inr ev"
  shows "\<exists>i j. firstTransferAfter instructions index i \<and> firstTransferAfter instructions i j \<and>
           transferAmount (instructions ! i) = Inr (tokenAFee ev) \<and>
           transferAmount (instructions ! j) = Inr (tokenBFee ev)"
  using assms
  by (clarsimp simp: decodeCollectFee_def andThen_Inr invariant_Inr
      nextTokenTransferAmount_Some) blast

lemma decodeCollectReward_transfer:
  assumes "decodeCollectReward accounts data name index instructions = Inr ev"
  shows "\<exists>i. firstTransferAfter instructions index i \<and>
           transferAmount (instructions ! i) = Inr (rewardAmount ev)"
  using assms
  by (auto simp: decodeCollectReward_def andThen_Inr invariant_Inr nextTokenTransferAmount_Some)

lemma no_first_transfer:
  assumes "noTransferAfter instructions index"
  shows "\<not> firstTransferAfter instructions index i"
  using assms by (auto simp: noTransferAfter_def firstTransferAfter_def)

lemma firstTransferAfter_unique:
  "firstTransferAfter instructions index i \<Longrightarrow> firstTransferAfter instructions index j \<Longrightarrow> i = j"
  by (metis firstTransferAfter_def linorder_neqE_nat)

lemma not_Inr_isl:
  assumes "\<And>y. r \<noteq> Inr y"
  shows "isl r"
  using assms by (cases r) auto

lemma decoders_fail_without_transfer:
  assumes "noTransferAfter instructions index"
  shows "isl (decodeIncreaseLiquidity accounts data name index instructions) \<and>
    isl (decodeDecreaseLiquidity accounts data name index instructions) \<and>
    isl (decodeCollectFee accounts data name index instructions) \<and>
    isl (decodeCollectReward accounts data name index instructions)"
proof -
  note n = no_first_transfer[OF assms]
  have 1: "isl (decodeIncreaseLiquidity accounts data name index instructions)"
    using decodeIncreaseLiquidity_transfers n by (intro not_Inr_isl) blast
  have 2: "isl (decodeDecreaseLiquidity accounts data name index instructions)"
    using decodeDecreaseLiquidity_transfers n by (intro not_Inr_isl) blast
  have 3: "isl (decodeCollectFee accounts data name index instructions)"
    using decodeCollectFee_transfers n by (intro not_Inr_isl) blast
  have 4: "isl (decodeCollectReward accounts data name index instructions)"
    using decodeCollectReward_transfer n by (intro not_Inr_isl) blast
  show ?thesis using 1 2 3 4 by simp
qed

lemma decoders_fail_without_second_transfer:
  assumes "firstTransferAfter instructions index k" "noTransferAfter instructions k"
  shows "isl (decodeIncreaseLiquidity accounts data name index instructions) \<and>
    isl (decodeDecreaseLiquidity accounts data name index instructions) \<and>
    isl (decodeCollectFee accounts data name index instructions)"
proof -
  have n: "\<And>i j. firstTransferAfter instructions index i \<Longrightarrow>
                 \<not> firstTransferAfter instructions i j"
    using firstTransferAfter_unique[OF assms(1)] no_first_transfer[OF assms(2)] by blast
  have 1: "isl (decodeIncreaseLiquidity accounts data name index instructions)"
    using decodeIncreaseLiquidity_transfers n by (intro not_Inr_isl) blast
  have 2: "isl (decodeDecreaseLiquidity accounts data name index instructions)"
    using decodeDecreaseLiquidity_transfers n by (intro not_Inr_isl) blast
  have 3: "isl (decodeCollectFee accounts data name index instructions)"
    using decodeCollectFee_transfers n by (intro not_Inr_isl) blast
  show ?thesis using 1 2 3 by simp
qed

text \<open>
  A decoder succeeds exactly when its accounts, its data and the mints of its token accounts
  are there and the token transfers it needs follow the instruction; its event then holds the
  amounts of these transfers.
\<close>

lemma DataNumber_Inr:
  "(case v of DataNumber n \<Rightarrow> Inr n | _ \<Rightarrow> Inl e) = Inr x \<longleftrightarrow> v = DataNumber x"
  by (cases v) simp_all

lemma DataBN_Inr:
  "(case v of DataBN n \<Rightarrow> Inr n | _ \<Rightarrow> Inl e) = Inr x \<longleftrightarrow> v = DataBN x"
  by (cases v) auto

lemma decodeIncreaseLiquidity_Inr:
  assumes "accountAt accounts 0 = Some w"
    "accountAt accounts 3 = Some p"
    "map_of data ''liquidityAmount'' = Some (DataBN l)"
    "reduceTokenMintFromAccount (instructionAt instructions index) (accountAt accounts 7) = Inr ma"
    "reduceTokenMintFromAccount (instructionAt instructions index) (accountAt accounts 8) = Inr mb"
    "firstTransferAfter instructions index iA"
    "transferAmount (instructions ! iA) = Inr a"
    "firstTransferAfter instructions iA iB"
    "transferAmount (instructions ! iB) = Inr b"
  shows "decodeIncreaseLiquidity accounts data name index instructions
         = Inr (IncreaseLiquidity w p l ma mb a b)"
proof -
  have n1: "nextTokenTransferAmount index instructions = Inr (Some (a, iA))"
    using assms(6,7) by (simp add: nextTokenTransferAmount_Some)
  have n2: "nextTokenTransferAmount iA instructions = Inr (Some (b, iB))"
    using assms(8,9) by (simp add: nextTokenTransferAmount_Some)
  show ?thesis
    by (simp add: decodeIncreaseLiquidity_def andThen_def invariant_def assms(1-5) n1 n2)
qed

lemma decodeIncreaseLiquidity_iff:
  "decodeIncreaseLiquidity accounts data name index instructions = Inr ev \<longleftrightarrow>
   (\<exists>w p l ma mb a b iA iB.
      accountAt accounts 0 = Some w \<and>
      accountAt accounts 3 = Some p \<and>
      map_of data ''liquidityAmount'' = Some (DataBN l) \<and>
      reduceTokenMintFromAccount (instructionAt instructions index) (accountAt accounts 7) = Inr ma \<and>
      reduceTokenMintFromAccount (instructionAt instructions index) (accountAt accounts 8) = Inr mb \<and>
      firstTransferAfter instructions index iA \<and>
      transferAmount (instructions ! iA) = Inr a \<and>
      firstTransferAfter instructions iA iB \<and>
      transferAmount (instructions ! iB) = Inr b \<and>
      ev = IncreaseLiquidity w p l ma mb a b)"
proof
  assume "decodeIncreaseLiquidity accounts data name index instructions = Inr ev"
  then show "\<exists>w p l ma mb a b iA iB.
      accountAt accounts 0 = Some w \<and>
      accountAt accounts 3 = Some p \<and>
      map_of data ''liquidityAmount'' = Some (DataBN l) \<and>
      reduceTokenMintFromAccount (instructionAt instructions index) (accountAt accounts 7) = Inr ma \<and>
      reduceTokenMintFromAccount (instructionAt instructions index) (accountAt accounts 8) = Inr mb \<and>
      firstTransferAfter instructions index iA \<and>
      transferAmount (instructions ! iA) = Inr a \<and>
      firstTransferAfter instructions iA iB \<and>
      transferAmount (instructions ! iB) = Inr b \<and>
      ev = IncreaseLiquidity w p l ma mb a b"
    by (clarsimp simp: decodeIncreaseLiquidity_def andThen_Inr invariant_Inr DataBN_Inr DataNumber_Inr
        nextTokenTransferAmount_Some) blast
next
  assume "\<exists>w p l ma mb a b iA iB.
      accountAt accounts 0 = Some w \<and>
      accountAt accounts 3 = Some p \<and>
      map_of data ''liquidityAmount'' = Some (DataBN l) \<and>
      reduceTokenMintFromAccount (instructionAt instructions index) (accountAt accounts 7) = Inr ma \<and>
      reduceTokenMintFromAccount (instructionAt instructions index) (accountAt accounts 8) = Inr mb \<and>
      firstTransferAfter instructions index iA \<and>
      transferAmount (instructions ! iA) = Inr a \<and>
      firstTransferAfter instructions iA iB \<and>
      transferAmount (instructions ! iB) = Inr b \<and>
      ev = IncreaseLiquidity w p l ma mb a b"
  then show "decodeIncreaseLiquidity accounts data name index instructions = Inr ev"
    using decodeIncreaseLiquidity_Inr by blast
qed

lemma decodeDecreaseLiquidity_Inr:
  assumes "accountAt accounts 0 = Some w"
    "accountAt accounts 3 = Some p"
    "map_of data ''liquidityAmount'' = Some (DataBN l)"
    "reduceTokenMintFromAccount (instructionAt instructions index) (accountAt accounts 7) = Inr ma"
    "reduceTokenMintFromAccount (instructionAt instructions index) (accountAt accounts 8) = Inr mb"
    "firstTransferAfter instructions index iA"
    "transferAmount (instructions ! iA) = Inr a"
    "firstTransferAfter instructions iA iB"
    "transferAmount (instructions ! iB) = Inr b"
  shows "decodeDecreaseLiquidity accounts data name index instructions
         = Inr (DecreaseLiquidity w p l ma mb a b)"
proof -
  have n1: "nextTokenTransferAmount index instructions = Inr (Some (a, iA))"
    using assms(6,7) by (simp add: nextTokenTransferAmount_Some)
  have n2: "nextTokenTransferAmount iA instructions = Inr (Some (b, iB))"
    using assms(8,9) by (simp add: nextTokenTransferAmount_Some)
  show ?thesis
    by (simp add: decodeDecreaseLiquidity_def andThen_def invariant_def assms(1-5) n1 n2)
qed

lemma decodeDecreaseLiquidity_iff:
  "decodeDecreaseLiquidity accounts data name index instructions = Inr ev \<longleftrightarrow>
   (\<exists>w p l ma mb a b iA iB.
      accountAt accounts 0 = Some w \<and>
      accountAt accounts 3 = Some p \<and>
      map_of data ''liquidityAmount'' = Some (DataBN l) \<and>
      reduceTokenMintFromAccount (instructionAt instructions index) (accountAt accounts 7) = Inr ma \<and>
      reduceTokenMintFromAccount (instructionAt instructions index) (accountAt accounts 8) = Inr mb \<and>
      firstTransferAfter instructions index iA \<and>
      transferAmount (instructions ! iA) = Inr a \<and>
      firstTransferAfter instructions iA iB \<and>
      transferAmount (instructions ! iB) = Inr b \<and>
      ev = DecreaseLiquidity w p l ma mb a b)"
proof
  assume "decodeDecreaseLiquidity accounts data name index instructions = Inr ev"
  then show "\<exists>w p l ma mb a b iA iB.
      accountAt accounts 0 = Some w \<and>
      accountAt accounts 3 = Some p \<and>
      map_of data ''liquidityAmount'' = Some (DataBN l) \<and>
      reduceTokenMintFromAccount (instructionAt instructions index) (accountAt accounts 7) = Inr ma \<and>
      reduceTokenMintFromAccount (instructionAt instructions index) (accountAt accounts 8) = Inr mb \<and>
      firstTransferAfter instructions index iA \<and>
      transferAmount (instructions ! iA) = Inr a \<and>
      firstTransferAfter instructions iA iB \<and>
      transferAmount (instructions ! iB) = Inr b \<and>
      ev = DecreaseLiquidity w p l ma mb a b"
    by (clarsimp simp: decodeDecreaseLiquidity_def andThen_Inr invariant_Inr DataBN_Inr DataNumber_Inr
        nextTokenTransferAmount_Some) blast
next
  assume "\<exists>w p l ma mb a b iA iB.
      accountAt accounts 0 = Some w \<and>
      accountAt accounts 3 = Some p \<and>
      map_of data ''liquidityAmount'' = Some (DataBN l) \<and>
      reduceTokenMintFromAccount (instructionAt instructions index) (accountAt accounts 7) = Inr ma \<and>
      reduceTokenMintFromAccount (instructionAt instructions index) (accountAt accounts 8) = Inr mb \<and>
      firstTransferAfter instructions index iA \<and>
      transferAmount (instructions ! iA) = Inr a \<and>
      firstTransferAfter instructions iA iB \<and>
      transferAmount (instructions ! iB) = Inr b \<and>
      ev = DecreaseLiquidity w p l ma mb a b"
  then show "decodeDecreaseLiquidity accounts data name index instructions = Inr ev"
    using decodeDecreaseLiquidity_Inr by blast
qed

lemma decodeCollectFee_Inr:
  assumes "accountAt accounts 0 = Some w"
    "accountAt accounts 2 = Some p"
    "reduceTokenMintFromAccount (instructionAt instructions index) (accountAt accounts 5) = Inr ma"
    "reduceTokenMintFromAccount (instructionAt instructions index) (accountAt accounts 7) = Inr mb"
    "firstTransferAfter instructions index iA"
    "transferAmount (instructions ! iA) = Inr a"
    "firstTransferAfter instructions iA iB"
    "transferAmount (instructions ! iB) = Inr b"
  shows "decodeCollectFee accounts data name index instructions
         = Inr (CollectFees w p ma mb a b)"
proof -
  have n1: "nextTokenTransferAmount index instructions = Inr (Some (a, iA))"
    using assms(5,6) by (simp add: nextTokenTransferAmount_Some)
  have n2: "nextTokenTransferAmount iA instructions = Inr (Some (b, iB))"
    using assms(7,8) by (simp add: nextTokenTransferAmount_Some)
  show ?thesis
    by (simp add: decodeCollectFee_def andThen_def invariant_def assms(1-4) n1 n2)
qed

lemma decodeCollectFee_iff:
  "decodeCollectFee accounts data name index instructions = Inr ev \<longleftrightarrow>
   (\<exists>w p ma mb a b iA iB.
      accountAt accounts 0 = Some w \<and>
      accountAt accounts 2 = Some p \<and>
      reduceTokenMintFromAccount (instructionAt instructions index) (accountAt accounts 5) = Inr ma \<and>
      reduceTokenMintFromAccount (instructionAt instructions index) (accountAt accounts 7) = Inr mb \<and>
      firstTransferAfter instructions index iA \<and>
      transferAmount (instructions ! iA) = Inr a \<and>
      firstTransferAfter instructions iA iB \<and>
      transferAmount (instructions ! iB) = Inr b \<and>
      ev = CollectFees w p ma mb a b)"
proof
  assume "decodeCollectFee accounts data name index instructions = Inr ev"
  then show "\<exists>w p ma mb a b iA iB.
      accountAt accounts 0 = Some w \<and>
      accountAt accounts 2 = Some p \<and>
      reduceTokenMintFromAccount (instructionAt instructions index) (accountAt accounts 5) = Inr ma \<and>
      reduceTokenMintFromAccount (instructionAt instructions index) (accountAt accounts 7) = Inr mb \<and>
      firstTransferAfter instructions index iA \<and>
      transferAmount (instructions ! iA) = Inr a \<and>
      firstTransferAfter instructions iA iB \<and>
      transferAmount (instructions ! iB) = Inr b \<and>
      ev = CollectFees w p ma mb a b"
    by (clarsimp simp: decodeCollectFee_def andThen_Inr invariant_Inr DataBN_Inr DataNumber_Inr
        nextTokenTransferAmount_Some) blast
next
  assume "\<exists>w p ma mb a b iA iB.
      accountAt accounts 0 = Some w \<and>
      accountAt accounts 2 = Some p \<and>
      reduceTokenMintFromAccount (instructionAt instructions index) (accountAt accounts 5) = Inr ma \<and>
      reduceTokenMintFromAccount (instructionAt instructions index) (accountAt accounts 7) = Inr mb \<and>
      firstTransferAfter instructions index iA \<and>
      transferAmount (instructions ! iA) = Inr a \<and>
      firstTransferAfter instructions iA iB \<and>
      transferAmount (instructions ! iB) = Inr b \<and>
      ev = CollectFees w p ma mb a b"
  then show "decodeCollectFee accounts data name index instructions = Inr ev"
    using decodeCollectFee_Inr by blast
qed

lemma decodeCollectReward_Inr:
  assumes "accountAt accounts 0 = Some w"
    "accountAt accounts 2 = Some p"
    "map_of data ''rewardIndex'' = Some (DataNumber l)"
    "reduceTokenMintFromAccount (instructionAt instructions index) (accountAt accounts 5) = Inr ma"
    "firstTransferAfter instructions index iA"
    "transferAmount (instructions ! iA) = Inr a"
  shows "decodeCollectReward accounts data name index instructions
         = Inr (CollectReward w p l ma a)"
proof -
  have n1: "nextTokenTransferAmount index instructions = Inr (Some (a, iA))"
    using assms(5,6) by (simp add: nextTokenTransferAmount_Some)
  show ?thesis
    by (simp add: decodeCollectReward_def andThen_def invariant_def assms(1-4) n1)
qed

lemma decodeCollectReward_iff:
  "decodeCollectReward accounts data name index instructions = Inr ev \<longleftrightarrow>
   (\<exists>w p l ma a iA.
      accountAt accounts 0 = Some w \<and>
      accountAt accounts 2 = Some p \<and>
      map_of data ''rewardIndex'' = Some (DataNumber l) \<and>
      reduceTokenMintFromAccount (instructionAt instructions index) (accountAt accounts 5) = Inr ma \<and>
      firstTransferAfter instructions index iA \<and>
      transferAmount (instructions ! iA) = Inr a \<and>
      ev = CollectReward w p l ma a)"
proof
  assume "decodeCollectReward accounts data name index instructions = Inr ev"
  then show "\<exists>w p l ma a iA.
      accountAt accounts 0 = Some w \<and>
      accountAt accounts 2 = Some p \<and>
      map_of data ''rewardIndex'' = Some (DataNumber l) \<and>
      reduceTokenMintFromAccount (instructionAt instructions index) (accountAt accounts 5) = Inr ma \<and>
      firstTransferAfter instructions index iA \<and>
      transferAmount (instructions ! iA) = Inr a \<and>
      ev = CollectReward w p l ma a"
    by (clarsimp simp: decodeCollectReward_def andThen_Inr invariant_Inr DataBN_Inr DataNumber_Inr
        nextTokenTransferAmount_Some) blast
next
  assume "\<exists>w p l ma a iA.
      accountAt accounts 0 = Some w \<and>
      accountAt accounts 2 = Some p \<and>
      map_of data ''rewardIndex'' = Some (DataNumber l) \<and>
      reduceTokenMintFromAccount (instructionAt instructions index) (accountAt accounts 5) = Inr ma \<and>
      firstTransferAfter instructions index iA \<and>
      transferAmount (instructions ! iA) = Inr a \<and>
      ev = CollectReward w p l ma a"
  then show "decodeCollectReward accounts data name index instructions = Inr ev"
    using decodeCollectReward_Inr by blast
qed

text \<open>
  Claim C8. The scan starts right after the given index and stops at the first token transfer
  in the order of the list, whose amount it returns. Each decoder of an instruction with two
  amounts (increase liquidity, decrease liquidity, collect fees) succeeds exactly when its
  accounts, data and mints are found, a first token transfer follows the instruction's index
  and another one follows that transfer; the event it returns has the amount of the first as
  its token A amount and the amount of the second as its token B amount. The decoder of collect
  reward succeeds exactly when a first token transfer follows the index, and returns its
  amount. When no token transfer follows the index all four decoders fail, and when only one
  follows, the three decoders with two amounts fail.
\<close>

theorem amounts_come_from_next_transfers:
  "(nextTokenTransferAmount index instructions = Inr (Some (amount, i)) \<longleftrightarrow>
      firstTransferAfter instructions index i \<and> transferAmount (instructions ! i) = Inr amount) \<and>
   (nextTokenTransferAmount index instructions = Inr None \<longleftrightarrow>
      noTransferAfter instructions index) \<and>
   (decodeIncreaseLiquidity accounts data name index instructions = Inr evI \<longleftrightarrow>
      (\<exists>w p l ma mb a b iA iB.
         accountAt accounts 0 = Some w \<and>
         accountAt accounts 3 = Some p \<and>
         map_of data ''liquidityAmount'' = Some (DataBN l) \<and>
         reduceTokenMintFromAccount (instructionAt instructions index) (accountAt accounts 7) = Inr ma \<and>
         reduceTokenMintFromAccount (instructionAt instructions index) (accountAt accounts 8) = Inr mb \<and>
         firstTransferAfter instructions index iA \<and>
         transferAmount (instructions ! iA) = Inr a \<and>
         firstTransferAfter instructions iA iB \<and>
         transferAmount (instructions ! iB) = Inr b \<and>
         evI = IncreaseLiquidity w p l ma mb a b)) \<and>
   (decodeDecreaseLiquidity accounts data name index instructions = Inr evD \<longleftrightarrow>
      (\<exists>w p l ma mb a b iA iB.
         accountAt accounts 0 = Some w \<and>
         accountAt accounts 3 = Some p \<and>
         map_of data ''liquidityAmount'' = Some (DataBN l) \<and>
         reduceTokenMintFromAccount (instructionAt instructions index) (accountAt accounts 7) = Inr ma \<and>
         reduceTokenMintFromAccount (instructionAt instructions index) (accountAt accounts 8) = Inr mb \<and>
         firstTransferAfter instructions index iA \<and>
         transferAmount (instructions ! iA) = Inr a \<and>
         firstTransferAfter instructions iA iB \<and>
         transferAmount (instructions ! iB) = Inr b \<and>
         evD = DecreaseLiquidity w p l ma mb a b)) \<and>
   (decodeCollectFee accounts data name index instructions = Inr evF \<longleftrightarrow>
      (\<exists>w p ma mb a b iA iB.
         accountAt accounts 0 = Some w \<and>
         accountAt accounts 2 = Some p \<and>
         reduceTokenMintFromAccount (instructionAt instructions index) (accountAt accounts 5) = Inr ma \<and>
         reduceTokenMintFromAccount (instructionAt instructions index) (accountAt accounts 7) = Inr mb \<and>
         firstTransferAfter instructions index iA \<and>
         transferAmount (instructions ! iA) = Inr a \<and>
         firstTransferAfter instructions iA iB \<and>
         transferAmount (instructions ! iB) = Inr b \<and>
         evF = CollectFees w p ma mb a b)) \<and>
   (decodeCollectReward accounts data name index instructions = Inr evR \<longleftrightarrow>
      (\<exists>w p l ma a iA.
         accountAt accounts 0 = Some w \<and>
         accountAt accounts 2 = Some p \<and>
         map_of data ''rewardIndex'' = Some (DataNumber l) \<and>
         reduceTokenMintFromAccount (instructionAt instructions index) (accountAt accounts 5) = Inr ma \<and>
         firstTransferAfter instructions index iA \<and>
         transferAmount (instructions ! iA) = Inr a \<and>
         evR = CollectReward w p l ma a)) \<and>
   (noTransferAfter instructions index \<longrightarrow>
      isl (decodeIncreaseLiquidity accounts data name index instructions) \<and>
      isl (decodeDecreaseLiquidity accounts data name index instructions) \<and>
      isl (decodeCollectFee accounts data name index instructions) \<and>
      isl (decodeCollectReward accounts data name index instructions)) \<and>
   (firstTransferAfter instructions index k \<and> noTransferAfter instructions k \<longrightarrow>
      isl (decodeIncreaseLiquidity accounts data name index instructions) \<and>
      isl (decodeDecreaseLiquidity accounts data name index instructions) \<and>
      isl (decodeCollectFee accounts data name index instructions))"
proof -
  have n: "noTransferAfter instructions index \<longrightarrow>
      isl (decodeIncreaseLiquidity accounts data name index instructions) \<and>
      isl (decodeDecreaseLiquidity accounts data name index instructions) \<and>
      isl (decodeCollectFee accounts data name index instructions) \<and>
      isl (decodeCollectReward accounts data name index instructions)"
    using decoders_fail_without_transfer[of instructions index accounts data name] by (rule impI)
  have m: "firstTransferAfter instructions index k \<and> noTransferAfter instructions k \<longrightarrow>
      isl (decodeIncreaseLiquidity accounts data name index instructions) \<and>
      isl (decodeDecreaseLiquidity accounts data name index instructions) \<and>
      isl (decodeCollectFee accounts data name index instructions)"
    using decoders_fail_without_second_transfer[of instructions index k accounts data name]
    by blast
  show ?thesis
    apply (intro conjI)
    apply (rule nextTokenTransferAmount_Some nextTokenTransferAmount_None
        decodeIncreaseLiquidity_iff decodeDecreaseLiquidity_iff decodeCollectFee_iff
        decodeCollectReward_iff n m)+
    done
qed

text \<open>
  The theorem at the sample transaction. From index 0 the four decoders return the amounts of
  the transfers at the indices 1 and 3, past the instruction at index 2 that is no transfer
  (collect reward the amount at index 1); from index 3, with no transfer left, all four fail;
  from index 1, with a single transfer left, the three decoders with two amounts fail.
\<close>

lemmas decoder_defs = andThen_def invariant_def accountAt_def instructionAt_def
  reduceTokenMintFromAccount_def nextTokenTransferAmount_def isTokenTransfer_def
  transferAmount_def findIndex_def

lemmas decoder_sample_defs = sampleGathered_def sampleTransfer_def sampleMemo_def
  sampleAccounts_def sampleCollectAccounts_def sampleRewardAccounts_def sampleIncreaseIx_def
  sampleTransaction_def sampleOpenAccounts_def sampleOpenData_def sampleOpenIx_def
  sampleCoder_def TOKEN_PROGRAM_ID_def WHIRLPOOL_PROGRAM_ID_def

theorem amounts_come_from_next_transfers_witness:
  "nextTokenTransferAmount 0 sampleTransaction = Inr (Some (10000000, 1)) \<and>
   firstTransferAfter sampleTransaction 0 1 \<and>
   transferAmount (sampleTransaction ! 1) = Inr 10000000 \<and>
   nextTokenTransferAmount 1 sampleTransaction = Inr (Some (250, 3)) \<and>
   firstTransferAfter sampleTransaction 1 3 \<and>
   transferAmount (sampleTransaction ! 3) = Inr 250 \<and>
   nextTokenTransferAmount 3 sampleTransaction = Inr None \<and>
   noTransferAfter sampleTransaction 3 \<and>
   decodeIncreaseLiquidity sampleAccounts [(''liquidityAmount'', DataBN 100)]
     ''increaseLiquidity'' 0 sampleTransaction
     = Inr (IncreaseLiquidity ''pool'' ''position'' 100 ''mintA'' ''mintB'' 10000000 250) \<and>
   decodeDecreaseLiquidity sampleAccounts [(''liquidityAmount'', DataBN 40)]
     ''decreaseLiquidity'' 0 sampleTransaction
     = Inr (DecreaseLiquidity ''pool'' ''position'' 40 ''mintA'' ''mintB'' 10000000 250) \<and>
   decodeCollectFee sampleCollectAccounts [] ''collectFees'' 0 sampleTransaction
     = Inr (CollectFees ''pool'' ''position'' ''mintA'' ''mintB'' 10000000 250) \<and>
   decodeCollectReward sampleRewardAccounts [(''rewardIndex'', DataNumber 0)]
     ''collectReward'' 0 sampleTransaction
     = Inr (CollectReward ''pool'' ''position'' 0 ''mintR'' 10000000) \<and>
   isl (decodeIncreaseLiquidity sampleAccounts [(''liquidityAmount'', DataBN 100)]
          ''increaseLiquidity'' 3 sampleTransaction) \<and>
   isl (decodeDecreaseLiquidity sampleAccounts [(''liquidityAmount'', DataBN 40)]
          ''decreaseLiquidity'' 3 sampleTransaction) \<and>
   isl (decodeCollectFee sampleCollectAccounts [] ''collectFees'' 3 sampleTransaction) \<and>
   isl (decodeCollectReward sampleRewardAccounts [(''rewardIndex'', DataNumber 0)]
          ''collectReward'' 3 sampleTransaction) \<and>
   isl (decodeIncreaseLiquidity sampleAccounts [(''liquidityAmount'', DataBN 100)]
          ''increaseLiquidity'' 1 sampleTransaction) \<and>
   isl (decodeDecreaseLiquidity sampleAccounts [(''liquidityAmount'', DataBN 40)]
          ''decreaseLiquidity'' 1 sampleTransaction) \<and>
   isl (decodeCollectFee sampleCollectAccounts [] ''collectFees'' 1 sampleTransaction)"
proof -
  have n0: "nextTokenTransferAmount 0 sampleTransaction = Inr (Some (10000000, 1))"
    and n1: "nextTokenTransferAmount 1 sampleTransaction = Inr (Some (250, 3))"
    and n3: "nextTokenTransferAmount 3 sampleTransaction = Inr None"
    by (simp_all add: decoder_defs decoder_sample_defs)
  have f01: "firstTransferAfter sampleTransaction 0 1"
    and a1: "transferAmount (sampleTransaction ! 1) = Inr 10000000"
    using amounts_come_from_next_transfers[where index = 0 and instructions = sampleTransaction
        and amount = 10000000 and i = 1, THEN conjunct1, THEN iffD1, OF n0] by simp_all
  have f13: "firstTransferAfter sampleTransaction 1 3"
    and a3: "transferAmount (sampleTransaction ! 3) = Inr 250"
    using amounts_come_from_next_transfers[where index = 1 and instructions = sampleTransaction
        and amount = 250 and i = 3, THEN conjunct1, THEN iffD1, OF n1] by simp_all
  have no3: "noTransferAfter sampleTransaction 3"
    by (rule amounts_come_from_next_transfers[where index = 3 and instructions = sampleTransaction,
        THEN conjunct2, THEN conjunct1, THEN iffD1, OF n3])
  have acc: "accountAt sampleAccounts 0 = Some ''pool''"
    "accountAt sampleAccounts 3 = Some ''position''"
    "reduceTokenMintFromAccount (instructionAt sampleTransaction 0) (accountAt sampleAccounts 7)
       = Inr ''mintA''"
    "reduceTokenMintFromAccount (instructionAt sampleTransaction 0) (accountAt sampleAccounts 8)
       = Inr ''mintB''"
    "accountAt sampleCollectAccounts 0 = Some ''pool''"
    "accountAt sampleCollectAccounts 2 = Some ''position''"
    "reduceTokenMintFromAccount (instructionAt sampleTransaction 0)
       (accountAt sampleCollectAccounts 5) = Inr ''mintA''"
    "reduceTokenMintFromAccount (instructionAt sampleTransaction 0)
       (accountAt sampleCollectAccounts 7) = Inr ''mintB''"
    "accountAt sampleRewardAccounts 0 = Some ''pool''"
    "accountAt sampleRewardAccounts 2 = Some ''position''"
    "reduceTokenMintFromAccount (instructionAt sampleTransaction 0)
       (accountAt sampleRewardAccounts 5) = Inr ''mintR''"
    by (simp_all add: decoder_defs decoder_sample_defs)
  have dat: "map_of [(''liquidityAmount'', DataBN 100)] ''liquidityAmount'' = Some (DataBN 100)"
    "map_of [(''liquidityAmount'', DataBN 40)] ''liquidityAmount'' = Some (DataBN 40)"
    "map_of [(''rewardIndex'', DataNumber 0)] ''rewardIndex'' = Some (DataNumber 0)"
    by simp_all
  note inc = amounts_come_from_next_transfers[where index = 0 and instructions = sampleTransaction
      and accounts = sampleAccounts and data = "[(''liquidityAmount'', DataBN 100)]"
      and name = "''increaseLiquidity''"
      and evI = "IncreaseLiquidity ''pool'' ''position'' 100 ''mintA'' ''mintB'' 10000000 250"]
  have d1: "decodeIncreaseLiquidity sampleAccounts [(''liquidityAmount'', DataBN 100)]
     ''increaseLiquidity'' 0 sampleTransaction
     = Inr (IncreaseLiquidity ''pool'' ''position'' 100 ''mintA'' ''mintB'' 10000000 250)"
    by (rule inc[THEN conjunct2, THEN conjunct2, THEN conjunct1, THEN iffD2], intro exI conjI)
       (rule acc(1-4) dat(1) f01 a1 f13 a3 refl)+
  note dec = amounts_come_from_next_transfers[where index = 0 and instructions = sampleTransaction
      and accounts = sampleAccounts and data = "[(''liquidityAmount'', DataBN 40)]"
      and name = "''decreaseLiquidity''"
      and evD = "DecreaseLiquidity ''pool'' ''position'' 40 ''mintA'' ''mintB'' 10000000 250"]
  have d2: "decodeDecreaseLiquidity sampleAccounts [(''liquidityAmount'', DataBN 40)]
     ''decreaseLiquidity'' 0 sampleTransaction
     = Inr (DecreaseLiquidity ''pool'' ''position'' 40 ''mintA'' ''mintB'' 10000000 250)"
    by (rule dec[THEN conjunct2, THEN conjunct2, THEN conjunct2, THEN conjunct1, THEN iffD2], intro exI conjI)
       (rule acc(1-4) dat(2) f01 a1 f13 a3 refl)+
  note fee = amounts_come_from_next_transfers[where index = 0 and instructions = sampleTransaction
      and accounts = sampleCollectAccounts and data = "[]" and name = "''collectFees''"
      and evF = "CollectFees ''pool'' ''position'' ''mintA'' ''mintB'' 10000000 250"]
  have d3: "decodeCollectFee sampleCollectAccounts [] ''collectFees'' 0 sampleTransaction
     = Inr (CollectFees ''pool'' ''position'' ''mintA'' ''mintB'' 10000000 250)"
    by (rule fee[THEN conjunct2, THEN conjunct2, THEN conjunct2, THEN conjunct2, THEN conjunct1, THEN iffD2], intro exI conjI)
       (rule acc(5-8) f01 a1 f13 a3 refl)+
  note rew = amounts_come_from_next_transfers[where index = 0 and instructions = sampleTransaction
      and accounts = sampleRewardAccounts and data = "[(''rewardIndex'', DataNumber 0)]"
      and name = "''collectReward''"
      and evR = "CollectReward ''pool'' ''position'' 0 ''mintR'' 10000000"]
  have d4: "decodeCollectReward sampleRewardAccounts [(''rewardIndex'', DataNumber 0)]
     ''collectReward'' 0 sampleTransaction
     = Inr (CollectReward ''pool'' ''position'' 0 ''mintR'' 10000000)"
    by (rule rew[THEN conjunct2, THEN conjunct2, THEN conjunct2, THEN conjunct2, THEN conjunct2, THEN conjunct1, THEN iffD2], intro exI conjI)
       (rule acc(9-11) dat(3) f01 a1 refl)+
  note none = amounts_come_from_next_transfers[where index = 3 and instructions = sampleTransaction,
      THEN conjunct2, THEN conjunct2, THEN conjunct2, THEN conjunct2, THEN conjunct2,
      THEN conjunct2, THEN conjunct1, THEN mp, OF no3]
  note one = amounts_come_from_next_transfers[where index = 1 and instructions = sampleTransaction and k = 3,
      THEN conjunct2, THEN conjunct2, THEN conjunct2, THEN conjunct2, THEN conjunct2,
      THEN conjunct2, THEN conjunct2, THEN mp, OF conjI[OF f13 no3]]
  have e1: "isl (decodeIncreaseLiquidity sampleAccounts [(''liquidityAmount'', DataBN 100)]
          ''increaseLiquidity'' 3 sampleTransaction)"
    "isl (decodeDecreaseLiquidity sampleAccounts [(''liquidityAmount'', DataBN 40)]
          ''decreaseLiquidity'' 3 sampleTransaction)"
    "isl (decodeCollectFee sampleCollectAccounts [] ''collectFees'' 3 sampleTransaction)"
    "isl (decodeCollectReward sampleRewardAccounts [(''rewardIndex'', DataNumber 0)]
          ''collectReward'' 3 sampleTransaction)"
    by (rule none[THEN conjunct1] none[THEN conjunct2, THEN conjunct1]
        none[THEN conjunct2, THEN conjunct2, THEN conjunct1]
        none[THEN conjunct2, THEN conjunct2, THEN conjunct2])+
  have e2: "isl (decodeIncreaseLiquidity sampleAccounts [(''liquidityAmount'', DataBN 100)]
          ''increaseLiquidity'' 1 sampleTransaction)"
    "isl (decodeDecreaseLiquidity sampleAccounts [(''liquidityAmount'', DataBN 40)]
          ''decreaseLiquidity'' 1 sampleTransaction)"
    "isl (decodeCollectFee sampleCollectAccounts [] ''collectFees'' 1 sampleTransaction)"
    by (rule one[THEN conjunct1] one[THEN conjunct2, THEN conjunct1]
        one[THEN conjunct2, THEN conjunct2])+
  show ?thesis
    apply (intro conjI)
    apply (rule n0 f01 a1 n1 f13 a3 n3 no3 d1 d2 d3 d4 e1 e2)+
    done
qed

section \<open>The ticks of an opened position\<close>

lemma decodeOpenPosition_ticks:
  assumes "decodeOpenPosition accounts data name = Inr ev"
  shows "\<exists>lower upper. map_of data ''tickLowerIndex'' = Some (DataNumber lower) \<and>
           map_of data ''tickUpperIndex'' = Some (DataNumber upper) \<and>
           tickUpperIndex ev = lower \<and> tickLowerIndex ev = upper"
  using assms
  by (auto simp: decodeOpenPosition_def Let_def andThen_Inr invariant_Inr DataNumber_Inr)

text \<open>
  Claim C10. Every instruction that \<^verbatim>\<open>decodeOpenPosition\<close> decodes, directly or through
  \<^verbatim>\<open>decodeTransaction\<close> under the names \<^verbatim>\<open>openPosition\<close> and \<^verbatim>\<open>openPositionWithMetadata\<close>, has
  in its field \<^verbatim>\<open>tickUpperIndex\<close> the \<^verbatim>\<open>tickLowerIndex\<close> of the instruction data and in its field
  \<^verbatim>\<open>tickLowerIndex\<close> the \<^verbatim>\<open>tickUpperIndex\<close> of the data.
\<close>

theorem open_position_ticks_swapped:
  "(decodeOpenPosition accounts data name = Inr ev \<longrightarrow>
      (\<exists>lower upper. map_of data ''tickLowerIndex'' = Some (DataNumber lower) \<and>
         map_of data ''tickUpperIndex'' = Some (DataNumber upper) \<and>
         tickUpperIndex ev = lower \<and> tickLowerIndex ev = upper)) \<and>
   (decodeTransaction coder index instructions = Inr d \<and>
    instructionAt instructions index = Some instruction \<and>
    body instruction = PartiallyDecoded accounts' raw \<and> coder raw = Some (name', data') \<and>
    (name' = ''openPosition'' \<or> name' = ''openPositionWithMetadata'') \<longrightarrow>
      (\<exists>lower upper. map_of data' ''tickLowerIndex'' = Some (DataNumber lower) \<and>
         map_of data' ''tickUpperIndex'' = Some (DataNumber upper) \<and>
         tickUpperIndex (decoded d) = lower \<and> tickLowerIndex (decoded d) = upper))"
proof (intro conjI impI)
  assume "decodeOpenPosition accounts data name = Inr ev"
  then show "\<exists>lower upper. map_of data ''tickLowerIndex'' = Some (DataNumber lower) \<and>
         map_of data ''tickUpperIndex'' = Some (DataNumber upper) \<and>
         tickUpperIndex ev = lower \<and> tickLowerIndex ev = upper"
    by (rule decodeOpenPosition_ticks)
next
  assume a: "decodeTransaction coder index instructions = Inr d \<and>
    instructionAt instructions index = Some instruction \<and>
    body instruction = PartiallyDecoded accounts' raw \<and> coder raw = Some (name', data') \<and>
    (name' = ''openPosition'' \<or> name' = ''openPositionWithMetadata'')"
  then have h: "decodeInstructionMap name' = Some (\<lambda>accounts data name index instructions.
          decodeOpenPosition accounts data name)"
    by (auto simp: decodeInstructionMap_def)
  from a h obtain u where "decodeOpenPosition accounts' data' name' = Inr u" "decoded d = u"
    by (auto simp: decodeTransaction_def andThen_Inr split: if_splits)
  then show "\<exists>lower upper. map_of data' ''tickLowerIndex'' = Some (DataNumber lower) \<and>
         map_of data' ''tickUpperIndex'' = Some (DataNumber upper) \<and>
         tickUpperIndex (decoded d) = lower \<and> tickLowerIndex (decoded d) = upper"
    using decodeOpenPosition_ticks by blast
qed

text \<open>The theorem at an opening with the lower tick \<open>- 64\<close> and the upper tick 128.\<close>

theorem open_position_ticks_swapped_witness:
  "decodeOpenPosition sampleOpenAccounts sampleOpenData ''openPosition''
     = Inr (OpenPosition ''pool'' ''position'' ''positionMint'' ''owner'' (- 64) 128 5895120) \<and>
   map_of sampleOpenData ''tickLowerIndex'' = Some (DataNumber (- 64)) \<and>
   map_of sampleOpenData ''tickUpperIndex'' = Some (DataNumber 128) \<and>
   tickUpperIndex (OpenPosition ''pool'' ''position'' ''positionMint'' ''owner'' (- 64) 128 5895120)
     = - 64 \<and>
   tickLowerIndex (OpenPosition ''pool'' ''position'' ''positionMint'' ''owner'' (- 64) 128 5895120)
     = 128 \<and>
   map_sum id decoded (decodeTransaction sampleCoder 0 [sampleOpenIx])
     = Inr (OpenPosition ''pool'' ''position'' ''positionMint'' ''owner'' (- 64) 128 5895120)"
proof -
  have run: "decodeOpenPosition sampleOpenAccounts sampleOpenData ''openPosition''
     = Inr (OpenPosition ''pool'' ''position'' ''positionMint'' ''owner'' (- 64) 128 5895120)"
    by (simp add: decodeOpenPosition_def decoder_defs decoder_sample_defs
        PAYABLE_RENT_LAMPORTS_WITHOUT_METADATA_def)
  have m: "map_of sampleOpenData ''tickLowerIndex'' = Some (DataNumber (- 64))"
    "map_of sampleOpenData ''tickUpperIndex'' = Some (DataNumber 128)"
    by (simp_all add: sampleOpenData_def)
  have t: "map_sum id decoded (decodeTransaction sampleCoder 0 [sampleOpenIx])
     = Inr (OpenPosition ''pool'' ''position'' ''positionMint'' ''owner'' (- 64) 128 5895120)"
    by (simp add: decodeTransaction_def decodeInstructionMap_def decodeOpenPosition_def
        decoder_defs decoder_sample_defs PAYABLE_RENT_LAMPORTS_WITHOUT_METADATA_def)
  from open_position_ticks_swapped[of sampleOpenAccounts sampleOpenData "''openPosition''"
      "OpenPosition ''pool'' ''position'' ''positionMint'' ''owner'' (- 64) 128 5895120"] run m t
  show ?thesis by simp
qed

end
